theory Spec2Isabelle
  imports Complex_Main "HOL-Library.Sublist" "HOL-Library.Log_Nat"
begin

section \<open>Conventions of the embedding\<close>

text \<open>
  The Python sources are embedded function by function, keeping their names.
  \<^item> A Python \<^verbatim>\<open>str\<close> is a \<^typ>\<open>string\<close>. Non-ASCII characters are their UTF-8 bytes, so
    containment of a single character in a text is containment of its byte sequence.
    \<^verbatim>\<open>lower\<close>, \<^verbatim>\<open>split\<close>, \<^verbatim>\<open>strip\<close> act on the ASCII range.
  \<^item> Clock readings (\<^verbatim>\<open>time.time()\<close>, \<^verbatim>\<open>datetime.now()\<close>, SQLite's \<^verbatim>\<open>datetime('now')\<close>),
    random tokens and the results of library calls are arguments of the function that reads
    them, one argument per read, in the order of the reads.
  \<^item> A function that can raise returns a sum, \<open>Inl\<close> carrying the exception.
  \<^item> Module-level mutable state (the token table, the database) is passed in and returned.
\<close>

section \<open>Tailor-token binding (tools/tailor\_resume.py)\<close>

text \<open>
  \<^verbatim>\<open>_TAILOR_TOKENS: dict[str, dict]\<close> maps a token to \<^verbatim>\<open>{"text": ..., "expires": ...}\<close>.
  \<^verbatim>\<open>time.time()\<close> is a float; only comparisons and one addition are made on it, so the
  readings are taken as rationals.
\<close>

record token_entry =
  entry_text :: string
  expires :: rat

type_synonym token_store = "string \<rightharpoonup> token_entry"


text \<open>\<^verbatim>\<open>_cleanup_tokens\<close>: delete every entry with \<^verbatim>\<open>v["expires"] < now\<close>.\<close>

definition cleanup_tokens :: "rat \<Rightarrow> token_store \<Rightarrow> token_store" where
  "cleanup_tokens now st =
     (\<lambda>k. case st k of
            None \<Rightarrow> None
          | Some v \<Rightarrow> if expires v < now then None else Some v)"

text \<open>
  \<^verbatim>\<open>validate_tailor_token(token)\<close>: sweep (first clock reading), pop the token, and return the
  text when the popped entry expires after the second clock reading. The entry dict always
  has its two keys, so \<^verbatim>\<open>if entry\<close> is the test for a found entry.
\<close>

definition validate_tailor_token ::
  "rat \<Rightarrow> rat \<Rightarrow> string \<Rightarrow> token_store \<Rightarrow> string option \<times> token_store" where
  "validate_tailor_token t_sweep t_check token st =
     (let st1 = cleanup_tokens t_sweep st;
          entry = st1 token;
          st2 = st1(token := None)
      in case entry of
           None \<Rightarrow> (None, st2)
         | Some e \<Rightarrow> if expires e > t_check then (Some (entry_text e), st2) else (None, st2))"






section \<open>Export (tools/export\_resume.py)\<close>

text \<open>
  \<^verbatim>\<open>DocExporter.export\<close> writes a file with an external library and returns its path; it is
  the parameter \<open>exporter\<close>, and the call made to it (if any) is returned with the result so
  that "no export performed" can be stated. \<open>'c\<close> and \<open>'s\<close> are the contact and sections
  dicts, which \<^verbatim>\<open>export_resume\<close> only passes on.
\<close>

record ('c, 's) export_call =
  call_resume_text :: string
  call_contact :: "'c option"
  call_sections :: "'s option"
  call_filename :: "string option"
  call_job_title :: "string option"
  call_company :: "string option"

datatype export_result =
    InvalidTailorToken  \<comment> \<open>\<^verbatim>\<open>{"error": "Invalid or expired tailor token. ..."}\<close>\<close>
  | Exported string     \<comment> \<open>\<^verbatim>\<open>{"file_path": path, "message": ...}\<close>\<close>

definition export_resume ::
  "(('c, 's) export_call \<Rightarrow> string) \<Rightarrow> rat \<Rightarrow> rat \<Rightarrow> token_store \<Rightarrow>
   string \<Rightarrow> 'c option \<Rightarrow> 's option \<Rightarrow> string option \<Rightarrow> string option \<Rightarrow> string option \<Rightarrow>
   string option \<Rightarrow> export_result \<times> ('c, 's) export_call option \<times> token_store" where
  "export_resume exporter t_sweep t_check st
       resume_text contact sections filename job_title company tailor_token =
     (let call = (\<lambda>txt. \<lparr>call_resume_text = txt, call_contact = contact,
                          call_sections = sections, call_filename = filename,
                          call_job_title = job_title, call_company = company\<rparr>)
      in case tailor_token of
           None \<Rightarrow> (Exported (exporter (call resume_text)), Some (call resume_text), st)
         | Some token \<Rightarrow>
             (case validate_tailor_token t_sweep t_check token st of
                (None, st') \<Rightarrow> (InvalidTailorToken, None, st')
              | (Some validated_text, st') \<Rightarrow>
                  (Exported (exporter (call validated_text)), Some (call validated_text), st')))"

section \<open>Tracker database (storage/database.py)\<close>

text \<open>
  The tables are those of the inline schema in \<^verbatim>\<open>Database._init_schema\<close>. SQLite values are
  \<open>NULL\<close>, integers and texts. The \<^verbatim>\<open>applications\<close> table is the list of its rows in rowid
  order; \<open>app_seq\<close> is the \<^verbatim>\<open>AUTOINCREMENT\<close> counter of the table (the largest id ever given),
  \<open>log_seq\<close> the one of \<^verbatim>\<open>action_log\<close>. SQLite's \<^verbatim>\<open>datetime('now')\<close> is a number of seconds: the
  texts it produces are ordered as the instants are. Of a resume row and a job row only the
  columns read by the agents are kept. The partial unique index of the inline schema is
  not modelled: the properties below rest on the guards of the Python code alone.
\<close>

datatype sqlval = SNull | SInt int | SText string

text \<open>
  Python values passed as column values and log details. A dict appears only as the
  argument of \<^verbatim>\<open>json.dumps\<close>, so it is represented by that text.
\<close>

datatype pyval = PNone | PInt int | PStr string | PDict string

fun to_sql :: "pyval \<Rightarrow> sqlval" where
  "to_sql PNone = SNull"
| "to_sql (PInt i) = SInt i"
| "to_sql (PStr s) = SText s"
| "to_sql (PDict j) = SText j"

record resume_row =
  name_col :: "string option"

record job_row =
  title_col :: "string option"
  company_col :: "string option"
  platform_col :: "string option"
  url_col :: "string option"

record application =
  app_id :: int
  app_resume_id :: int
  app_job_id :: int
  app_status :: sqlval
  app_ats_score :: sqlval
  app_ats_report :: sqlval
  app_tailored_text :: sqlval
  app_cover_letter :: sqlval
  app_applied_at :: sqlval
  app_platform :: sqlval
  app_notes :: sqlval
  app_created_at :: nat
  app_updated_at :: nat

record log_entry =
  log_id :: int
  log_action_name :: string
  log_details :: "(string \<times> pyval) list option"
  log_application_id :: "int option"
  log_confirmed :: int
  log_timestamp :: nat

record database =
  resumes :: "int \<rightharpoonup> resume_row"
  jobs :: "int \<rightharpoonup> job_row"
  applications :: "application list"
  app_seq :: int
  action_log :: "log_entry list"
  log_seq :: int

text \<open>
  The integers SQLite stores are signed 64-bit values. For a Python \<^verbatim>\<open>int\<close> outside that range
  \<^verbatim>\<open>sqlite3\<close> raises \<^verbatim>\<open>OverflowError\<close> when the value is bound to a statement. That exception
  is not represented: the functions below describe the calls whose integer arguments, and
  the row ids they create, are in the range, and the statements that say what a call
  returns for arbitrary ids assume it.
\<close>

definition sqlite_int :: "int \<Rightarrow> bool" where
  "sqlite_int i \<longleftrightarrow> - (2 ^ 63) \<le> i \<and> i < 2 ^ 63"

datatype py_error = ValueError "string set"
  \<comment> \<open>\<^verbatim>\<open>ValueError("Invalid update column(s): {invalid_keys}. Allowed: [...]")\<close>\<close>

definition APPLICATION_UPDATABLE_COLUMNS :: "string set" where
  "APPLICATION_UPDATABLE_COLUMNS =
     {''status'', ''ats_score'', ''ats_report'', ''tailored_text'',
      ''cover_letter'', ''applied_at'', ''platform'', ''notes''}"

definition get_resume :: "database \<Rightarrow> int \<Rightarrow> resume_row option" where
  "get_resume db resume_id = resumes db resume_id"

definition get_job :: "database \<Rightarrow> int \<Rightarrow> job_row option" where
  "get_job db job_db_id = jobs db job_db_id"

text \<open>
  \<^verbatim>\<open>create_application\<close>: one \<^verbatim>\<open>INSERT\<close>; the columns not named take their defaults
  (\<^verbatim>\<open>status\<close> is \<^verbatim>\<open>'draft'\<close>, the two timestamps are \<^verbatim>\<open>datetime('now')\<close>). \<open>ats_report\<close> is the
  JSON text of the dict, with \<^verbatim>\<open>{}\<close> for the empty (falsy) dict.
\<close>

definition create_application ::
  "database \<Rightarrow> int \<Rightarrow> int \<Rightarrow> int option \<Rightarrow> string option \<Rightarrow> nat \<Rightarrow> int \<times> database" where
  "create_application db resume_id job_id ats_score ats_report sql_now =
     (let lastrowid = app_seq db + 1;
          row = \<lparr>app_id = lastrowid, app_resume_id = resume_id, app_job_id = job_id,
                 app_status = SText ''draft'',
                 app_ats_score = (case ats_score of None \<Rightarrow> SNull | Some s \<Rightarrow> SInt s),
                 app_ats_report =
                   (case ats_report of
                      None \<Rightarrow> SNull
                    | Some j \<Rightarrow> if j \<noteq> ''{}'' then SText j else SNull),
                 app_tailored_text = SNull, app_cover_letter = SNull,
                 app_applied_at = SNull, app_platform = SNull, app_notes = SNull,
                 app_created_at = sql_now, app_updated_at = sql_now\<rparr>
      in (lastrowid, db\<lparr>applications := applications db @ [row], app_seq := lastrowid\<rparr>))"

text \<open>
  \<^verbatim>\<open>find_application\<close>: the rows of the pair whose status is \<^verbatim>\<open>!= 'cancelled'\<close> (false for a
  \<open>NULL\<close> status), the one created last. Among rows created at the same instant SQL leaves
  the choice open; \<open>newest\<close> takes the first of them.
\<close>

fun newest :: "application list \<Rightarrow> application option" where
  "newest [] = None"
| "newest (a # as) =
     (case newest as of
        None \<Rightarrow> Some a
      | Some b \<Rightarrow> if app_created_at a < app_created_at b then Some b else Some a)"

definition find_application :: "database \<Rightarrow> int \<Rightarrow> int \<Rightarrow> application option" where
  "find_application db resume_id job_id =
     newest (filter (\<lambda>a. app_resume_id a = resume_id \<and> app_job_id a = job_id \<and>
                          app_status a \<noteq> SNull \<and> app_status a \<noteq> SText ''cancelled'')
               (applications db))"

fun set_column :: "string \<Rightarrow> sqlval \<Rightarrow> application \<Rightarrow> application" where
  "set_column key v a =
     (if key = ''status'' then a\<lparr>app_status := v\<rparr>
      else if key = ''ats_score'' then a\<lparr>app_ats_score := v\<rparr>
      else if key = ''ats_report'' then a\<lparr>app_ats_report := v\<rparr>
      else if key = ''tailored_text'' then a\<lparr>app_tailored_text := v\<rparr>
      else if key = ''cover_letter'' then a\<lparr>app_cover_letter := v\<rparr>
      else if key = ''applied_at'' then a\<lparr>app_applied_at := v\<rparr>
      else if key = ''platform'' then a\<lparr>app_platform := v\<rparr>
      else if key = ''notes'' then a\<lparr>app_notes := v\<rparr>
      else a)"

text \<open>
  \<^verbatim>\<open>update_application(app_id, **kwargs)\<close>: the keyword arguments in call order (their keys
  are distinct). A key outside the whitelist raises before any SQL is built (\<open>Inl\<close>, with the
  database as it is when the exception leaves the function); otherwise one
  \<^verbatim>\<open>UPDATE ... WHERE id = ?\<close> sets the columns and \<^verbatim>\<open>updated_at\<close>, and nothing is executed for
  an empty argument list.
\<close>

definition update_application ::
  "database \<Rightarrow> int \<Rightarrow> (string \<times> pyval) list \<Rightarrow> nat \<Rightarrow> py_error \<times> database + database" where
  "update_application db aid kwargs sql_now =
     (let invalid_keys = set (map fst kwargs) - APPLICATION_UPDATABLE_COLUMNS
      in if invalid_keys \<noteq> {} then Inl (ValueError invalid_keys, db)
         else if kwargs \<noteq> [] then
           Inr (db\<lparr>applications :=
                  map (\<lambda>a. if app_id a = aid
                           then (fold (\<lambda>(key, v). set_column key (to_sql v)) kwargs a)
                                  \<lparr>app_updated_at := sql_now\<rparr>
                           else a)
                    (applications db)\<rparr>)
         else Inr db)"

definition get_application :: "database \<Rightarrow> int \<Rightarrow> application option" where
  "get_application db aid = find (\<lambda>a. app_id a = aid) (applications db)"

text \<open>\<^verbatim>\<open>log_action\<close>: one \<^verbatim>\<open>INSERT\<close> into the log; an empty details dict is stored as \<open>NULL\<close>.\<close>

definition log_action ::
  "database \<Rightarrow> string \<Rightarrow> (string \<times> pyval) list \<Rightarrow> int option \<Rightarrow> bool \<Rightarrow> nat \<Rightarrow> int \<times> database" where
  "log_action db action details application_id confirmed sql_now =
     (let lastrowid = log_seq db + 1;
          entry = \<lparr>log_id = lastrowid, log_action_name = action,
                   log_details = (if details \<noteq> [] then Some details else None),
                   log_application_id = application_id,
                   log_confirmed = (if confirmed then 1 else 0),
                   log_timestamp = sql_now\<rparr>
      in (lastrowid, db\<lparr>action_log := action_log db @ [entry], log_seq := lastrowid\<rparr>))"

section \<open>Apply agent (agents/apply\_agent.py)\<close>

text \<open>
  The dicts the agent returns, one constructor per shape. The message texts are built from
  the values carried by the constructor. \<open>MIN_ATS_SCORE\<close> is read from the environment when the
  module is loaded and is a parameter here.
\<close>

record summary =
  sum_candidate :: "string option"
  sum_position :: "string option"
  sum_company :: "string option"
  sum_platform :: "string option"
  sum_url :: "string option"
  sum_ats_score :: "int option"
  sum_has_tailored_resume :: bool
  sum_has_cover_letter :: bool

datatype apply_result =
    AtsBelowThreshold int int
      \<comment> \<open>\<^verbatim>\<open>error\<close>, \<^verbatim>\<open>suggestion\<close>, \<^verbatim>\<open>ats_score\<close>, \<^verbatim>\<open>min_required\<close>\<close>
  | ResumeNotFound int
      \<comment> \<open>\<^verbatim>\<open>error\<close>\<close>
  | JobNotFound int
      \<comment> \<open>\<^verbatim>\<open>error\<close>\<close>
  | DuplicateApplication int sqlval nat
      \<comment> \<open>\<^verbatim>\<open>error\<close>, \<^verbatim>\<open>existing_application\<close> = \<^verbatim>\<open>{app_id, status, created_at}\<close>, \<^verbatim>\<open>suggestion\<close>\<close>
  | Prepared int summary
      \<comment> \<open>\<^verbatim>\<open>application_id\<close>, \<^verbatim>\<open>status\<close> = draft, \<^verbatim>\<open>requires_confirmation\<close> = True, \<^verbatim>\<open>summary\<close>,
          \<^verbatim>\<open>confirmation_message\<close> (a rendering of the summary)\<close>
  | ApplicationNotFound int
      \<comment> \<open>\<^verbatim>\<open>error\<close>\<close>
  | InvalidState int sqlval
      \<comment> \<open>\<^verbatim>\<open>error\<close> = "Application <id> is in '<status>' state ...", \<^verbatim>\<open>suggestion\<close>\<close>
  | Submitted int string
      \<comment> \<open>\<^verbatim>\<open>application_id\<close>, \<^verbatim>\<open>status\<close> = submitted, \<^verbatim>\<open>applied_at\<close>, \<^verbatim>\<open>message\<close>\<close>
  | Cancelled int
      \<comment> \<open>\<^verbatim>\<open>application_id\<close>, \<^verbatim>\<open>status\<close> = cancelled, \<^verbatim>\<open>message\<close>\<close>

text \<open>The results that carry the key \<^verbatim>\<open>error\<close>.\<close>

fun is_error :: "apply_result \<Rightarrow> bool" where
  "is_error (Prepared aid s) = False"
| "is_error (Submitted aid t) = False"
| "is_error (Cancelled aid) = False"
| "is_error r = True"

text \<open>Truth value of an optional Python string: neither \<^verbatim>\<open>None\<close> nor empty.\<close>

fun truthy :: "string option \<Rightarrow> bool" where
  "truthy None = False"
| "truthy (Some s) = (s \<noteq> [])"

fun opt_str :: "string option \<Rightarrow> pyval" where
  "opt_str None = PNone"
| "opt_str (Some s) = PStr s"

fun opt_int :: "int option \<Rightarrow> pyval" where
  "opt_int None = PNone"
| "opt_int (Some i) = PInt i"

text \<open>
  The local dict \<^verbatim>\<open>updates\<close> of \<^verbatim>\<open>prepare_application\<close>: a key for each of the two texts that
  is truthy.
\<close>

definition prepare_updates :: "string option \<Rightarrow> string option \<Rightarrow> (string \<times> pyval) list" where
  "prepare_updates tailored_text cover_letter =
     (if truthy tailored_text then [(''tailored_text'', opt_str tailored_text)] else []) @
     (if truthy cover_letter then [(''cover_letter'', opt_str cover_letter)] else [])"

text \<open>
  \<^verbatim>\<open>prepare_application\<close>. Clock readings: \<open>t_create\<close> for the insert, \<open>t_update\<close> for the update
  (made only when there is tailored content), \<open>t_log\<close> for the log entry.
\<close>

definition prepare_application ::
  "int \<Rightarrow> database \<Rightarrow> int \<Rightarrow> int \<Rightarrow> string option \<Rightarrow> string option \<Rightarrow> int option \<Rightarrow>
   string option \<Rightarrow> bool \<Rightarrow> nat \<Rightarrow> nat \<Rightarrow> nat \<Rightarrow>
   py_error \<times> database + apply_result \<times> database" where
  "prepare_application MIN_ATS_SCORE db resume_id job_db_id tailored_text cover_letter
       ats_score ats_report force t_create t_update t_log =
     (case (case ats_score of
              None \<Rightarrow> None
            | Some s \<Rightarrow> if s < MIN_ATS_SCORE \<and> \<not> force then Some s else None) of
        Some s \<Rightarrow> Inr (AtsBelowThreshold s MIN_ATS_SCORE, db)
      | None \<Rightarrow>
      (case get_resume db resume_id of
        None \<Rightarrow> Inr (ResumeNotFound resume_id, db)
      | Some resume \<Rightarrow>
      (case get_job db job_db_id of
        None \<Rightarrow> Inr (JobNotFound job_db_id, db)
      | Some job \<Rightarrow>
      (case (case find_application db resume_id job_db_id of
               None \<Rightarrow> None
             | Some existing \<Rightarrow>
                 if app_status existing \<noteq> SText ''cancelled'' then Some existing else None) of
        Some existing \<Rightarrow>
          Inr (DuplicateApplication (app_id existing) (app_status existing)
                 (app_created_at existing), db)
      | None \<Rightarrow>
          (case create_application db resume_id job_db_id ats_score ats_report t_create of
             (aid, db1) \<Rightarrow>
               (let updates = prepare_updates tailored_text cover_letter
                in case (if updates \<noteq> [] then update_application db1 aid updates t_update
                         else Inr db1) of
                     Inl e \<Rightarrow> Inl e
                   | Inr db2 \<Rightarrow>
                       (case log_action db2 ''prepare_application''
                               [(''app_id'', PInt aid),
                                (''resume_name'', opt_str (name_col resume)),
                                (''job_title'', opt_str (title_col job)),
                                (''company'', opt_str (company_col job)),
                                (''ats_score'', opt_int ats_score)]
                               (Some aid) False t_log of
                          (lid, db3) \<Rightarrow>
                            Inr (Prepared aid
                                   \<lparr>sum_candidate = name_col resume,
                                    sum_position = title_col job,
                                    sum_company = company_col job,
                                    sum_platform = platform_col job,
                                    sum_url = url_col job,
                                    sum_ats_score = ats_score,
                                    sum_has_tailored_resume = (tailored_text \<noteq> None),
                                    sum_has_cover_letter = (cover_letter \<noteq> None)\<rparr>,
                                 db3))))))))"

text \<open>
  \<^verbatim>\<open>confirm_apply\<close>. \<open>now\<close> is \<^verbatim>\<open>datetime.now().isoformat()\<close>, read once and used for the column
  and for the log details.
\<close>

definition confirm_apply ::
  "database \<Rightarrow> int \<Rightarrow> string \<Rightarrow> nat \<Rightarrow> nat \<Rightarrow> py_error \<times> database + apply_result \<times> database" where
  "confirm_apply db aid now t_update t_log =
     (case get_application db aid of
        None \<Rightarrow> Inr (ApplicationNotFound aid, db)
      | Some app \<Rightarrow>
          if app_status app \<noteq> SText ''draft'' \<and> app_status app \<noteq> SText ''ready'' then
            Inr (InvalidState aid (app_status app), db)
          else
            (case update_application db aid
                    [(''status'', PStr ''submitted''), (''applied_at'', PStr now)] t_update of
               Inl e \<Rightarrow> Inl e
             | Inr db1 \<Rightarrow>
                 (case log_action db1 ''confirm_apply''
                         [(''app_id'', PInt aid), (''confirmed_at'', PStr now)]
                         (Some aid) True t_log of
                    (lid, db2) \<Rightarrow> Inr (Submitted aid now, db2))))"

text \<open>\<^verbatim>\<open>cancel_application\<close>: no test of the current status.\<close>

definition cancel_application ::
  "database \<Rightarrow> int \<Rightarrow> string \<Rightarrow> nat \<Rightarrow> nat \<Rightarrow> py_error \<times> database + apply_result \<times> database" where
  "cancel_application db aid reason t_update t_log =
     (case get_application db aid of
        None \<Rightarrow> Inr (ApplicationNotFound aid, db)
      | Some app \<Rightarrow>
          (case update_application db aid
                  [(''status'', PStr ''cancelled''),
                   (''notes'', PStr (if reason \<noteq> [] then ''Cancelled: '' @ reason
                                    else ''Cancelled by user''))] t_update of
             Inl e \<Rightarrow> Inl e
           | Inr db1 \<Rightarrow>
               (case log_action db1 ''cancel_application''
                       [(''app_id'', PInt aid), (''reason'', PStr reason)]
                       (Some aid) False t_log of
                  (lid, db2) \<Rightarrow> Inr (Cancelled aid, db2))))"

text \<open>
  The database states reachable through the agent: from any state with an empty
  \<^verbatim>\<open>applications\<close> table, by the three operations with any arguments. Changes of the
  \<^verbatim>\<open>resumes\<close> and \<^verbatim>\<open>jobs\<close> tables (made by other tools) may happen in between.
\<close>

inductive reachable :: "int \<Rightarrow> database \<Rightarrow> bool" for MIN_ATS_SCORE :: int where
  start: "applications db = [] \<Longrightarrow> reachable MIN_ATS_SCORE db"
| prepare:
    "reachable MIN_ATS_SCORE db \<Longrightarrow>
     prepare_application MIN_ATS_SCORE db resume_id job_db_id tailored_text cover_letter
       ats_score ats_report force t_create t_update t_log = Inr (r, db') \<Longrightarrow>
     reachable MIN_ATS_SCORE db'"
| confirm:
    "reachable MIN_ATS_SCORE db \<Longrightarrow>
     confirm_apply db aid now t_update t_log = Inr (r, db') \<Longrightarrow>
     reachable MIN_ATS_SCORE db'"
| cancel:
    "reachable MIN_ATS_SCORE db \<Longrightarrow>
     cancel_application db aid reason t_update t_log = Inr (r, db') \<Longrightarrow>
     reachable MIN_ATS_SCORE db'"
| other_tables:
    "reachable MIN_ATS_SCORE db \<Longrightarrow>
     reachable MIN_ATS_SCORE (db\<lparr>resumes := rs, jobs := js\<rparr>)"

text \<open>The applications of a pair that are not cancelled.\<close>

definition non_cancelled :: "database \<Rightarrow> int \<Rightarrow> int \<Rightarrow> application list" where
  "non_cancelled db resume_id job_id =
     filter (\<lambda>a. app_resume_id a = resume_id \<and> app_job_id a = job_id \<and>
                 app_status a \<noteq> SText ''cancelled'')
       (applications db)"

text \<open>
  Descriptions used in the statements below: the state after a successful confirm and after
  a cancel, the columns no update of \<^verbatim>\<open>prepare_application\<close> touches, and the invariant of the
  reachable states.
\<close>

definition preserves_key :: "(application \<Rightarrow> application) \<Rightarrow> bool" where
  "preserves_key g \<longleftrightarrow>
     (\<forall>a. app_id (g a) = app_id a \<and> app_resume_id (g a) = app_resume_id a \<and>
          app_job_id (g a) = app_job_id a \<and> app_status (g a) = app_status a \<and>
          app_created_at (g a) = app_created_at a)"

definition submitted_db :: "database \<Rightarrow> int \<Rightarrow> string \<Rightarrow> nat \<Rightarrow> nat \<Rightarrow> database" where
  "submitted_db db aid now tu tg =
     db\<lparr>applications :=
          map (\<lambda>a. if app_id a = aid
                   then a\<lparr>app_status := SText ''submitted'', app_applied_at := SText now,
                          app_updated_at := tu\<rparr>
                   else a) (applications db),
        action_log := action_log db @
          [\<lparr>log_id = log_seq db + 1, log_action_name = ''confirm_apply'',
            log_details = Some [(''app_id'', PInt aid), (''confirmed_at'', PStr now)],
            log_application_id = Some aid, log_confirmed = 1, log_timestamp = tg\<rparr>],
        log_seq := log_seq db + 1\<rparr>"

definition cancelled_db :: "database \<Rightarrow> int \<Rightarrow> string \<Rightarrow> nat \<Rightarrow> nat \<Rightarrow> database" where
  "cancelled_db db aid reason tu tg =
     db\<lparr>applications :=
          map (\<lambda>a. if app_id a = aid
                   then a\<lparr>app_status := SText ''cancelled'',
                          app_notes := SText (if reason \<noteq> [] then ''Cancelled: '' @ reason
                                              else ''Cancelled by user''),
                          app_updated_at := tu\<rparr>
                   else a) (applications db),
        action_log := action_log db @
          [\<lparr>log_id = log_seq db + 1, log_action_name = ''cancel_application'',
            log_details = Some [(''app_id'', PInt aid), (''reason'', PStr reason)],
            log_application_id = Some aid, log_confirmed = 0, log_timestamp = tg\<rparr>],
        log_seq := log_seq db + 1\<rparr>"

definition db_invariant :: "database \<Rightarrow> bool" where
  "db_invariant db \<longleftrightarrow>
     distinct (map app_id (applications db)) \<and>
     (\<forall>a \<in> set (applications db). app_id a \<le> app_seq db) \<and>
     (\<forall>a \<in> set (applications db).
        app_status a \<in> {SText ''draft'', SText ''submitted'', SText ''cancelled''}) \<and>
     (\<forall>r j. length (non_cancelled db r j) \<le> 1)"

section \<open>Python string operations\<close>

text \<open>
  The operations on \<^verbatim>\<open>str\<close> used by the scoring layers, on the ASCII range:
  \<^verbatim>\<open>lower\<close>, \<^verbatim>\<open>split()\<close> (runs of white space separate the words), \<^verbatim>\<open>sub in s\<close>,
  \<^verbatim>\<open>s.count(sub)\<close> (occurrences that do not overlap, from the left) and \<^verbatim>\<open>" ".join\<close>.
\<close>

definition lower_char :: "char \<Rightarrow> char" where
  "lower_char c =
     (case map_of (zip ''ABCDEFGHIJKLMNOPQRSTUVWXYZ'' ''abcdefghijklmnopqrstuvwxyz'') c of
        None \<Rightarrow> c
      | Some d \<Rightarrow> d)"

definition lower :: "string \<Rightarrow> string" where
  "lower s = map lower_char s"

definition is_space :: "char \<Rightarrow> bool" where
  "is_space c \<longleftrightarrow>
     c \<in> {CHR 0x09, CHR 0x0A, CHR 0x0B, CHR 0x0C, CHR 0x0D,
          CHR 0x1C, CHR 0x1D, CHR 0x1E, CHR 0x1F, CHR '' ''}"

text \<open>\<open>split_acc w s\<close>: the words of \<open>s\<close>, \<open>w\<close> being the word read so far, reversed.\<close>

fun split_acc :: "string \<Rightarrow> string \<Rightarrow> string list" where
  "split_acc w [] = (if w = [] then [] else [rev w])"
| "split_acc w (c # cs) =
     (if is_space c then (if w = [] then split_acc [] cs else rev w # split_acc [] cs)
      else split_acc (c # w) cs)"

definition split :: "string \<Rightarrow> string list" where
  "split s = split_acc [] s"

fun contains :: "string \<Rightarrow> string \<Rightarrow> bool" where
  "contains sub [] = (sub = [])"
| "contains sub (c # cs) = (prefix sub (c # cs) \<or> contains sub cs)"

text \<open>
  \<^verbatim>\<open>s.count(sub)\<close> for a non-empty \<open>sub\<close>; the skip after a match is \<open>length sub - 1\<close> further
  characters. For the empty \<open>sub\<close> Python counts \<open>length s + 1\<close>.
\<close>

fun count_from :: "string \<Rightarrow> nat \<Rightarrow> string \<Rightarrow> nat" where
  "count_from sub skip [] = 0"
| "count_from sub skip (c # cs) =
     (if skip > 0 then count_from sub (skip - 1) cs
      else if prefix sub (c # cs) then 1 + count_from sub (length sub - 1) cs
      else count_from sub 0 cs)"

definition count_str :: "string \<Rightarrow> string \<Rightarrow> nat" where
  "count_str s sub = (if sub = [] then length s + 1 else count_from sub 0 s)"

fun join :: "string \<Rightarrow> string list \<Rightarrow> string" where
  "join sep [] = []"
| "join sep [x] = x"
| "join sep (x # y # ys) = x @ sep @ join sep (y # ys)"

text \<open>
  The texts whose characters are all in the ASCII range. On them \<open>lower\<close> is \<^verbatim>\<open>str.lower\<close>.
\<close>

definition ascii :: "string \<Rightarrow> bool" where
  "ascii s = list_all (\<lambda>c. (of_char c :: nat) < 128) s"

section \<open>Issues of the ATS layers\<close>

text \<open>
  An issue dict has the keys \<^verbatim>\<open>check\<close>, \<^verbatim>\<open>severity\<close>, \<^verbatim>\<open>message\<close> and sometimes \<^verbatim>\<open>suggestion\<close>.
  The two texts are for the reader of the report; of them the record keeps the value the
  message is about (a header, a keyword, a warning), in \<open>issue_subject\<close>.
\<close>

datatype severity = Pass | Info | Warning | Error

record issue =
  issue_check :: string
  issue_severity :: severity
  issue_subject :: string

definition count_severity :: "severity \<Rightarrow> issue list \<Rightarrow> nat" where
  "count_severity sev issues = length (filter (\<lambda>i. issue_severity i = sev) issues)"

section \<open>Layer 1: FormatterCheck (ats/formatter\_check.py)\<close>

text \<open>
  The parsed resume. \<open>file_info_type\<close> is \<^verbatim>\<open>resume_data["file_info"]["type"]\<close> when both keys are
  there; a header's \<open>canonical\<close> is the key when present, \<open>is_standard\<close> the truth value of its
  key; \<open>body\<close> is \<^verbatim>\<open>resume_data["raw_document"]["body"]\<close> when it is there and not an empty
  dict. A node of the document tree is a dict with the lists \<^verbatim>\<open>prov\<close> and \<^verbatim>\<open>children\<close>, or a
  list of nodes. Of an entry of \<^verbatim>\<open>prov\<close> only its \<^verbatim>\<open>bbox\<close> dict is read: the list of its keys
  and values (a value may be null), empty when the key is missing.
\<close>

record header =
  original :: string
  canonical :: "string option"
  is_standard :: bool

type_synonym bbox = "(string \<times> rat option) list"

datatype docnode =
    DDict "bbox list" "docnode list"
  | DList "docnode list"

record resume_data =
  file_info_type :: "string option"
  section_headers :: "header list"
  metadata_warnings :: "string list"
  body :: "docnode option"
  raw_text :: string

record formatter_result =
  f_score :: int
  f_max_score :: int
  f_issues :: "issue list"
  f_errors :: nat
  f_warnings :: nat
  f_infos :: nat
  f_passed :: bool

definition FORMATTER_MAX_SCORE :: int where
  "FORMATTER_MAX_SCORE = 20"

text \<open>The thirteen bullet characters of \<^verbatim>\<open>PROBLEMATIC_BULLETS\<close>, each as its UTF-8 bytes.\<close>

definition PROBLEMATIC_BULLETS :: "string list" where
  "PROBLEMATIC_BULLETS =
     [[CHR 0xE2, CHR 0x86, CHR 0x92], [CHR 0xE2, CHR 0x9E, CHR 0xA4],
      [CHR 0xE2, CHR 0x9E, CHR 0x9C], [CHR 0xE2, CHR 0x96, CHR 0xBA],
      [CHR 0xE2, CHR 0x98, CHR 0x85], [CHR 0xE2, CHR 0x9C, CHR 0xA6],
      [CHR 0xE2, CHR 0x9C, CHR 0x93], [CHR 0xE2, CHR 0x9C, CHR 0x94],
      [CHR 0xE2, CHR 0xAC, CHR 0xA4], [CHR 0xE2, CHR 0x97, CHR 0x86],
      [CHR 0xE2, CHR 0x97, CHR 0x87], [CHR 0xE2, CHR 0x96, CHR 0xAA],
      [CHR 0xE2, CHR 0x96, CHR 0xB8]]"

definition check_file_type :: "resume_data \<Rightarrow> issue option" where
  "check_file_type resume_data =
     (let file_type = (case file_info_type resume_data of None \<Rightarrow> ''unknown'' | Some t \<Rightarrow> t)
      in if file_type \<noteq> ''pdf'' \<and> file_type \<noteq> ''docx''
         then Some \<lparr>issue_check = ''file_type'', issue_severity = Error,
                    issue_subject = file_type\<rparr>
         else None)"

text \<open>The loop of \<^verbatim>\<open>_check_section_headers\<close>, with the issues and the penalty so far.\<close>

fun header_loop :: "header list \<Rightarrow> issue list \<Rightarrow> int \<Rightarrow> issue list \<times> int" where
  "header_loop [] issues penalty = (issues, penalty)"
| "header_loop (h # hs) issues penalty =
     (if \<not> is_standard h then
        (if (case canonical h of None \<Rightarrow> ''other'' | Some c \<Rightarrow> c) \<noteq> ''other'' then
           header_loop hs
             (issues @ [\<lparr>issue_check = ''section_header'', issue_severity = Warning,
                         issue_subject = original h\<rparr>])
             (penalty + 1)
         else
           header_loop hs
             (issues @ [\<lparr>issue_check = ''section_header'', issue_severity = Info,
                         issue_subject = original h\<rparr>])
             penalty)
      else header_loop hs issues penalty)"

definition check_section_headers :: "resume_data \<Rightarrow> issue list \<times> int" where
  "check_section_headers resume_data =
     (case header_loop (section_headers resume_data) [] 0 of
        (issues, penalty) \<Rightarrow> (issues, min penalty 3))"

fun warning_loop :: "string list \<Rightarrow> issue list \<Rightarrow> int \<Rightarrow> issue list \<times> int" where
  "warning_loop [] issues penalty = (issues, penalty)"
| "warning_loop (w # ws) issues penalty =
     (if contains ''header'' (lower w) \<or> contains ''footer'' (lower w) then
        warning_loop ws
          (issues @ [\<lparr>issue_check = ''contact_placement'', issue_severity = Warning,
                      issue_subject = w\<rparr>])
          (penalty + 1)
      else warning_loop ws issues penalty)"

definition check_contact_placement :: "resume_data \<Rightarrow> issue list \<times> int" where
  "check_contact_placement resume_data =
     (case warning_loop (metadata_warnings resume_data) [] 0 of
        (issues, penalty) \<Rightarrow> (issues, min penalty 2))"

text \<open>
  \<^verbatim>\<open>_collect_items_with_bbox\<close>: the \<^verbatim>\<open>x\<close> of every non-empty \<^verbatim>\<open>bbox\<close> in the tree, which is
  \<^verbatim>\<open>bbox.get("l", bbox.get("x", None))\<close>.
\<close>

definition bbox_x :: "bbox \<Rightarrow> rat option" where
  "bbox_x b =
     (case map_of b ''l'' of
        Some v \<Rightarrow> v
      | None \<Rightarrow> (case map_of b ''x'' of Some v \<Rightarrow> v | None \<Rightarrow> None))"

fun collect_items_with_bbox :: "docnode \<Rightarrow> rat option list" where
  "collect_items_with_bbox (DDict prov children) =
     map bbox_x (filter (\<lambda>b. b \<noteq> []) prov) @ concat (map collect_items_with_bbox children)"
| "collect_items_with_bbox (DList items) = concat (map collect_items_with_bbox items)"

fun gaps :: "rat list \<Rightarrow> rat list" where
  "gaps (x # y # ys) = (y - x) # gaps (y # ys)"
| "gaps xs = []"

definition detect_columns :: "docnode option \<Rightarrow> bool" where
  "detect_columns b =
     (case b of
        None \<Rightarrow> False
      | Some node \<Rightarrow>
          (let items = collect_items_with_bbox node in
           if length items < 4 then False
           else
             (let x_positions = sort (remdups (concat (map (\<lambda>x. case x of None \<Rightarrow> [] | Some v \<Rightarrow> [v]) items)))
              in length x_positions \<ge> 2 \<and> list_ex (\<lambda>gap. gap > 200) (gaps x_positions))))"

definition check_layout :: "resume_data \<Rightarrow> issue list \<times> int" where
  "check_layout resume_data =
     (if detect_columns (body resume_data) then
        ([\<lparr>issue_check = ''layout'', issue_severity = Warning, issue_subject = []\<rparr>], 2)
      else ([], 0))"

definition check_bullets :: "resume_data \<Rightarrow> issue list \<times> int" where
  "check_bullets resume_data =
     (let found_problematic = filter (\<lambda>ch. contains ch (raw_text resume_data)) PROBLEMATIC_BULLETS
      in if found_problematic \<noteq> [] then
           ([\<lparr>issue_check = ''bullet_style'', issue_severity = Info,
              issue_subject = join '', '' found_problematic\<rparr>], 1)
         else ([], 0))"

definition build_result :: "int \<Rightarrow> issue list \<Rightarrow> formatter_result" where
  "build_result score issues =
     \<lparr>f_score = score, f_max_score = FORMATTER_MAX_SCORE, f_issues = issues,
      f_errors = count_severity Error issues,
      f_warnings = count_severity Warning issues,
      f_infos = count_severity Info issues,
      f_passed = (length issues = 0)\<rparr>"

text \<open>\<^verbatim>\<open>FormatterCheck.check\<close>.\<close>

definition formatter_check :: "resume_data \<Rightarrow> formatter_result" where
  "formatter_check resume_data =
     (let score = FORMATTER_MAX_SCORE;
          file_check = check_file_type resume_data
      in case (case file_check of
                 None \<Rightarrow> None
               | Some fc \<Rightarrow> if issue_severity fc = Error then Some fc else None) of
           Some fc \<Rightarrow> build_result (max (score - 20) 0) [fc]
         | None \<Rightarrow>
            (let issues = (case file_check of None \<Rightarrow> [] | Some fc \<Rightarrow> [fc]) in
             case check_section_headers resume_data of (header_issues, header_penalty) \<Rightarrow>
             case check_contact_placement resume_data of (contact_issues, contact_penalty) \<Rightarrow>
             case check_layout resume_data of (layout_issues, layout_penalty) \<Rightarrow>
             case check_bullets resume_data of (bullet_issues, bullet_penalty) \<Rightarrow>
               build_result
                 (max (score - header_penalty - contact_penalty - layout_penalty
                         - bullet_penalty) 0)
                 (issues @ header_issues @ contact_issues @ layout_issues @ bullet_issues)))"

section \<open>Layer 2: KeywordScorer (ats/keyword\_scorer.py)\<close>

text \<open>
  The two extracts, with the default of every key the layers read. An inferred skill is a
  dict (its key \<^verbatim>\<open>skill\<close>, \<^verbatim>\<open>""\<close> when missing) or any other value (its \<^verbatim>\<open>str\<close>). A job of the
  resume extract keeps its two date texts (\<^verbatim>\<open>""\<close> when missing).
\<close>

datatype inferred_item = SkillDict "string option" | SkillOther string

record job_entry =
  start_date :: string
  end_date :: string

record education_entry =
  degree :: "string option"

record jd_extract =
  required_hard_skills :: "string list"
  preferred_hard_skills :: "string list"
  domain_keywords :: "string list"
  tools_and_frameworks :: "string list"
  acronyms :: "(string \<times> string) list"
  experience_required_years :: "rat option"
  education_required :: "string option"

record resume_extract =
  hard_skills :: "string list"
  inferred_skills :: "inferred_item list"
  job_titles :: "job_entry list"
  total_experience_years :: rat
  education :: "education_entry list"

record keyword_result =
  k_score :: int
  k_max_score :: int
  match_percentage :: rat
  matched_keywords :: "string list"
  inferred_matches :: "string list"
  missing_keywords :: "string list"
  total_jd_keywords :: nat
  total_matched :: nat
  k_issues :: "issue list"

definition KEYWORD_MAX_SCORE :: int where "KEYWORD_MAX_SCORE = 60"
definition EXACT_MATCH_POINTS :: int where "EXACT_MATCH_POINTS = 3"
definition INFERRED_MATCH_POINTS :: int where "INFERRED_MATCH_POINTS = 2"
definition ACRONYM_BONUS :: int where "ACRONYM_BONUS = 1"
definition PLACEMENT_TITLE :: int where "PLACEMENT_TITLE = 5"
definition PLACEMENT_EXPERIENCE :: int where "PLACEMENT_EXPERIENCE = 3"
definition PLACEMENT_SKILLS :: int where "PLACEMENT_SKILLS = 1"

text \<open>
  The density thresholds are the float literals \<^verbatim>\<open>0.01\<close>, \<^verbatim>\<open>0.03\<close>, \<^verbatim>\<open>0.05\<close>, and a density is the
  float quotient of two counts. The quotient and the literals are rounded to the nearest
  double in the same way, so each comparison made by the code has the outcome of the
  comparison of the exact quotient with 1/100, 3/100, 5/100 as long as the text has fewer
  than \<open>10^15\<close> words. The model computes with the exact values.
\<close>

definition KEYWORD_DENSITY_OPTIMAL_MIN :: rat where "KEYWORD_DENSITY_OPTIMAL_MIN = 1 / 100"
definition KEYWORD_DENSITY_OPTIMAL_MAX :: rat where "KEYWORD_DENSITY_OPTIMAL_MAX = 3 / 100"
definition KEYWORD_DENSITY_STUFFING :: rat where "KEYWORD_DENSITY_STUFFING = 5 / 100"

text \<open>
  The match percentage is computed in floats. A float is taken as its exact rational value,
  and an operation on floats gives the exact result rounded to the nearest float, a tie going
  to the float with the even significand (IEEE 754 binary64, as CPython has it).
  \<open>double_exponent x\<close> is the exponent of the unit in the last place of the floats near
  \<open>x \<ge> 0\<close>: the greatest \<open>e\<close> with \<open>2^(e + 52) \<le> x\<close>, and -1074 for the subnormal range. It is
  searched downwards from \<open>bitlen \<lfloor>x\<rfloor> - 53\<close>, where \<open>x < 2^(e + 53)\<close>. \<open>to_double\<close> rounds to a
  multiple of that unit, zero staying zero; overflow (beyond \<open>2^1024\<close>) is not represented.
\<close>

definition pow2 :: "int \<Rightarrow> rat" where
  "pow2 e = (if e \<ge> 0 then 2 ^ nat e else 1 / 2 ^ nat (- e))"

definition round_half_even :: "rat \<Rightarrow> int" where
  "round_half_even x =
     (let f = \<lfloor>x\<rfloor>; d = x - of_int f
      in if d < 1 / 2 then f
         else if d > 1 / 2 then f + 1
         else if even f then f else f + 1)"

fun exponent_from :: "nat \<Rightarrow> int \<Rightarrow> rat \<Rightarrow> int" where
  "exponent_from 0 e x = e"
| "exponent_from (Suc k) e x = (if pow2 (e + 52) \<le> x then e else exponent_from k (e - 1) x)"

definition double_exponent :: "rat \<Rightarrow> int" where
  "double_exponent x =
     (let top = bitlen \<lfloor>x\<rfloor> - 53 in exponent_from (nat (top + 1074)) top x)"

definition to_double :: "rat \<Rightarrow> rat" where
  "to_double x =
     (if x = 0 then 0
      else (let e = double_exponent \<bar>x\<bar> in of_int (round_half_even (x / pow2 e)) * pow2 e))"

text \<open>
  Python's true division of two integers (the quotient correctly rounded) and the product of
  two floats.
\<close>

datatype arith_error = ZeroDivisionError

definition truediv :: "nat \<Rightarrow> nat \<Rightarrow> arith_error + rat" where
  "truediv a b =
     (if b = 0 then Inl ZeroDivisionError else Inr (to_double (of_nat a / of_nat b)))"

definition float_mul :: "rat \<Rightarrow> rat \<Rightarrow> rat" where
  "float_mul x y = to_double (x * y)"

text \<open>
  \<^verbatim>\<open>round(x, 1)\<close> of a float: the exact value of \<open>x\<close> is rounded to the nearest tenth, a tie
  going to the even tenth, and the result is the float nearest to that decimal. So
  \<^verbatim>\<open>round(23 / 80 * 100, 1)\<close> is the float of 28.7, the product being just below 28.75.
\<close>

definition round1 :: "rat \<Rightarrow> rat" where
  "round1 x = to_double (of_int (round_half_even (x * 10)) / 10)"

text \<open>\<^verbatim>\<open>_check_acronyms\<close>, one step of its loop per declared acronym.\<close>

definition acronym_issue :: "string \<Rightarrow> string \<times> string \<Rightarrow> issue list" where
  "acronym_issue resume_text p =
     (case p of (short_form, long_form) \<Rightarrow>
        (let has_short = contains (lower short_form) (lower resume_text);
             has_long = contains (lower long_form) (lower resume_text)
         in if has_short \<and> has_long then
              [\<lparr>issue_check = ''acronym'', issue_severity = Pass, issue_subject = short_form\<rparr>]
            else if has_short \<and> \<not> has_long then
              [\<lparr>issue_check = ''acronym'', issue_severity = Warning, issue_subject = long_form\<rparr>]
            else if has_long \<and> \<not> has_short then
              [\<lparr>issue_check = ''acronym'', issue_severity = Warning, issue_subject = short_form\<rparr>]
            else []))"

definition check_acronyms :: "(string \<times> string) list \<Rightarrow> string \<Rightarrow> issue list" where
  "check_acronyms jd_acronyms resume_text = concat (map (acronym_issue resume_text) jd_acronyms)"

text \<open>
  \<^verbatim>\<open>_check_density\<close>. \<open>keyword_count\<close> is the \<^verbatim>\<open>count\<close> of the loop body: occurrences in the
  text for a keyword with a space in it, occurrences among the words otherwise.
\<close>

definition keyword_count :: "string \<Rightarrow> string \<Rightarrow> nat" where
  "keyword_count resume_text keyword =
     (let keyword_lower = lower keyword
      in if CHR '' '' \<in> set keyword_lower then count_str (lower resume_text) keyword_lower
         else count_list (split (lower resume_text)) keyword_lower)"

fun density_loop ::
  "string \<Rightarrow> nat \<Rightarrow> string list \<Rightarrow> issue list \<Rightarrow> int \<Rightarrow> issue list \<times> int" where
  "density_loop resume_text total_words [] issues bonus = (issues, bonus)"
| "density_loop resume_text total_words (keyword # keywords) issues bonus =
     (let count = keyword_count resume_text keyword in
      if count > 0 then
        (let density = of_nat count / of_nat total_words in
         if density > KEYWORD_DENSITY_STUFFING then
           density_loop resume_text total_words keywords
             (issues @ [\<lparr>issue_check = ''keyword_density'', issue_severity = Warning,
                         issue_subject = keyword\<rparr>])
             bonus
         else if count \<ge> 2 \<and> density \<le> KEYWORD_DENSITY_OPTIMAL_MAX then
           density_loop resume_text total_words keywords issues (bonus + 1)
         else density_loop resume_text total_words keywords issues bonus)
      else density_loop resume_text total_words keywords issues bonus)"

definition check_density :: "string list \<Rightarrow> string \<Rightarrow> issue list \<times> int" where
  "check_density jd_keywords resume_text =
     (let words = split (lower resume_text);
          total_words = length words
      in if total_words = 0 then ([], 0)
         else case density_loop resume_text total_words jd_keywords [] 0 of
                (issues, bonus) \<Rightarrow> (issues, min bonus 5))"

text \<open>
  \<^verbatim>\<open>_score_placement\<close>. The sections dict is the list of its keys and values;
  \<^verbatim>\<open>sections.get(name, [])\<close> is \<open>section_blocks\<close>.
\<close>

definition section_blocks :: "(string \<times> string list) list \<Rightarrow> string \<Rightarrow> string list" where
  "section_blocks sections name = (case map_of sections name of None \<Rightarrow> [] | Some bs \<Rightarrow> bs)"

fun placement_loop :: "string \<Rightarrow> string \<Rightarrow> string \<Rightarrow> string list \<Rightarrow> int \<Rightarrow> int" where
  "placement_loop summary_text experience_text skills_text [] score = score"
| "placement_loop summary_text experience_text skills_text (keyword # keywords) score =
     (let kw_lower = lower keyword in
      if contains kw_lower summary_text then
        placement_loop summary_text experience_text skills_text keywords (score + PLACEMENT_TITLE)
      else if contains kw_lower experience_text then
        placement_loop summary_text experience_text skills_text keywords
          (score + PLACEMENT_EXPERIENCE)
      else if contains kw_lower skills_text then
        placement_loop summary_text experience_text skills_text keywords
          (score + PLACEMENT_SKILLS)
      else placement_loop summary_text experience_text skills_text keywords score)"

definition score_placement :: "string list \<Rightarrow> (string \<times> string list) list \<Rightarrow> int" where
  "score_placement required_keywords sections =
     (let skills_text = lower (join '' '' (section_blocks sections ''skills''));
          experience_text = lower (join '' '' (section_blocks sections ''experience''));
          summary_text = lower (join '' '' (section_blocks sections ''summary''))
      in placement_loop summary_text experience_text skills_text (take 10 required_keywords) 0)"

text \<open>
  \<^verbatim>\<open>KeywordScorer.score\<close>. \<^verbatim>\<open>list(set(...))\<close> keeps one copy of each keyword in an order Python
  does not fix; \<open>remdups\<close> is one such order. The three lists \<open>matched\<close>, \<open>inferred_matches\<close>
  and \<open>missing\<close> are the keywords of \<open>jd_all\<close> falling in the three branches of the loop.
\<close>

fun inferred_skill :: "inferred_item \<Rightarrow> string" where
  "inferred_skill (SkillDict None) = lower ''''"
| "inferred_skill (SkillDict (Some s)) = lower s"
| "inferred_skill (SkillOther s) = lower s"

text \<open>
  The keyword collection of \<^verbatim>\<open>score\<close> (\<open>jd_all\<close>) and the expression of its match
  percentage before rounding. \<^verbatim>\<open>jd_all\<close> is \<^verbatim>\<open>list(set(...))\<close>: the distinct keywords, in an
  order Python leaves open; the model lists each keyword at its last occurrence. The counts
  do not depend on the order.
\<close>

definition jd_all :: "jd_extract \<Rightarrow> string list" where
  "jd_all jd =
     remdups (map lower (required_hard_skills jd) @ map lower (preferred_hard_skills jd) @
              map lower (domain_keywords jd) @ map lower (tools_and_frameworks jd))"

definition match_ratio :: "nat \<Rightarrow> nat \<Rightarrow> arith_error + rat" where
  "match_ratio total_matched' total_jd =
     (if total_jd > 0
      then (case truediv total_matched' total_jd of
              Inl e \<Rightarrow> Inl e
            | Inr q \<Rightarrow> Inr (float_mul q 100))
      else Inr 0)"

definition keyword_score ::
  "jd_extract \<Rightarrow> resume_extract \<Rightarrow> string \<Rightarrow> (string \<times> string list) list option \<Rightarrow>
   arith_error + keyword_result" where
  "keyword_score jd resume resume_text resume_sections =
     (let jd_required = map lower (required_hard_skills jd);
          all_keywords = jd_all jd;
          resume_hard = map lower (hard_skills resume);
          resume_inferred = map inferred_skill (inferred_skills resume);
          matched = filter (\<lambda>k. k \<in> set resume_hard) all_keywords;
          inferred = filter (\<lambda>k. k \<notin> set resume_hard \<and> k \<in> set resume_inferred) all_keywords;
          missing = filter (\<lambda>k. k \<notin> set resume_hard \<and> k \<notin> set resume_inferred) all_keywords;
          exact_score = min (int (length matched) * EXACT_MATCH_POINTS) 30;
          inferred_score = min (int (length inferred) * INFERRED_MATCH_POINTS) 10;
          score1 = 0 + (exact_score + inferred_score);
          issues1 =
            (if matched \<noteq> [] then
               [\<lparr>issue_check = ''keyword_match'', issue_severity = Pass,
                 issue_subject = join '', '' (take 15 matched)\<rparr>] else []) @
            (if inferred \<noteq> [] then
               [\<lparr>issue_check = ''inferred_match'', issue_severity = Pass,
                 issue_subject = join '', '' (take 10 inferred)\<rparr>] else []) @
            (if missing \<noteq> [] then
               [\<lparr>issue_check = ''missing_keywords'', issue_severity = Warning,
                 issue_subject = join '', '' (take 15 missing)\<rparr>] else []);
          total_jd = length all_keywords;
          total_matched' = length matched + length inferred
      in case match_ratio total_matched' total_jd of
           Inl e \<Rightarrow> Inl e
         | Inr pct \<Rightarrow>
            (let match_pct = round1 pct;
                 acronym_issues = check_acronyms (acronyms jd) resume_text;
                 score2 = score1 +
                   min (int (count_severity Pass acronym_issues) * ACRONYM_BONUS) 5
             in case check_density all_keywords resume_text of
                  (density_issues, density_bonus) \<Rightarrow>
                (let score3 = score2 + density_bonus;
                     score4 =
                       (case resume_sections of
                          None \<Rightarrow> score3
                        | Some sections \<Rightarrow>
                            if sections \<noteq> []
                            then score3 + min (score_placement jd_required sections) 10
                            else score3);
                     score5 = min score4 KEYWORD_MAX_SCORE
                 in Inr \<lparr>k_score = score5, k_max_score = KEYWORD_MAX_SCORE,
                         match_percentage = match_pct,
                         matched_keywords = matched,
                         inferred_matches = inferred,
                         missing_keywords = missing,
                         total_jd_keywords = total_jd,
                         total_matched = total_matched',
                         k_issues = issues1 @ acronym_issues @ density_issues\<rparr>)))"

text \<open>
  Descriptions used in the statements about the density check: the density of a keyword in a
  text, and the two conditions of the loop body.
\<close>

definition density :: "string \<Rightarrow> string \<Rightarrow> rat" where
  "density resume_text keyword =
     of_nat (keyword_count resume_text keyword) / of_nat (length (split (lower resume_text)))"

definition stuffed :: "string \<Rightarrow> string \<Rightarrow> bool" where
  "stuffed resume_text keyword \<longleftrightarrow>
     keyword_count resume_text keyword > 0 \<and>
     density resume_text keyword > KEYWORD_DENSITY_STUFFING"

definition rewarded :: "string \<Rightarrow> string \<Rightarrow> bool" where
  "rewarded resume_text keyword \<longleftrightarrow>
     keyword_count resume_text keyword \<ge> 2 \<and>
     density resume_text keyword \<le> KEYWORD_DENSITY_OPTIMAL_MAX"

definition density_warning :: "string \<Rightarrow> issue" where
  "density_warning keyword =
     \<lparr>issue_check = ''keyword_density'', issue_severity = Warning, issue_subject = keyword\<rparr>"

section \<open>Layer 3: IntegrityCheck (ats/integrity\_check.py)\<close>

text \<open>
  The module-level patterns are searched with \<^verbatim>\<open>findall\<close> of Python's \<^verbatim>\<open>re\<close>; the library is the
  parameter \<open>findall\<close>, giving the matches of a pattern in a text. The three small patterns
  of \<^verbatim>\<open>_parse_date_str\<close> are written out on ASCII digits. A \<^verbatim>\<open>datetime\<close> built by the module
  is always the first day of a month, and only its year and month are read, so it is the
  pair of the two; \<open>today\<close> is the pair of \<^verbatim>\<open>datetime.now()\<close>.
\<close>

datatype pattern =
    EMAIL_REGEX | PHONE_REGEX_IN | PHONE_REGEX_INTL
  | DATE_MM_YYYY | DATE_MONTH_YYYY | DATE_FUZZY | DATE_BARE_YEAR

record integrity_result =
  i_score :: int
  i_max_score :: int
  i_issues :: "issue list"
  i_errors :: nat
  i_warnings :: nat
  i_infos :: nat
  i_passed :: bool

definition INTEGRITY_MAX_SCORE :: int where
  "INTEGRITY_MAX_SCORE = 20"

definition MONTH_MAP :: "(string \<times> int) list" where
  "MONTH_MAP =
     [(''january'', 1), (''february'', 2), (''march'', 3), (''april'', 4),
      (''may'', 5), (''june'', 6), (''july'', 7), (''august'', 8),
      (''september'', 9), (''october'', 10), (''november'', 11), (''december'', 12),
      (''jan'', 1), (''feb'', 2), (''mar'', 3), (''apr'', 4),
      (''jun'', 6), (''jul'', 7), (''aug'', 8), (''sep'', 9),
      (''oct'', 10), (''nov'', 11), (''dec'', 12)]"

text \<open>\<^verbatim>\<open>datetime(year, month, 1)\<close> raises \<^verbatim>\<open>ValueError\<close> outside the years 1 to 9999 and the months 1 to 12.\<close>

datatype date_error = DateValueError int int

definition datetime :: "int \<Rightarrow> int \<Rightarrow> date_error + int \<times> int" where
  "datetime year month =
     (if 1 \<le> year \<and> year \<le> 9999 \<and> 1 \<le> month \<and> month \<le> 12
      then Inr (year, month) else Inl (DateValueError year month))"

definition is_digit :: "char \<Rightarrow> bool" where
  "is_digit c \<longleftrightarrow> c \<in> set ''0123456789''"

definition digit_value :: "char \<Rightarrow> int" where
  "digit_value c =
     (case map_of (zip ''0123456789'' [0, 1, 2, 3, 4, 5, 6, 7, 8, 9]) c of
        None \<Rightarrow> 0
      | Some d \<Rightarrow> d)"

definition int_of_digits :: "string \<Rightarrow> int" where
  "int_of_digits ds = foldl (\<lambda>a c. 10 * a + digit_value c) 0 ds"

text \<open>
  \<^verbatim>\<open>re.match(r"(\d{1,2})[/\-](\d{4})", s)\<close>: at the start of \<open>s\<close>, two digits or else one, a
  slash or a hyphen, four digits. The result is the pair of the two groups as numbers.
\<close>

definition match_mm_yyyy_with :: "nat \<Rightarrow> string \<Rightarrow> (int \<times> int) option" where
  "match_mm_yyyy_with n s =
     (if n + 5 \<le> length s \<and> list_all is_digit (take n s) \<and>
         (s ! n = CHR ''/'' \<or> s ! n = CHR ''-'') \<and>
         list_all is_digit (take 4 (drop (n + 1) s))
      then Some (int_of_digits (take n s), int_of_digits (take 4 (drop (n + 1) s)))
      else None)"

definition match_mm_yyyy :: "string \<Rightarrow> (int \<times> int) option" where
  "match_mm_yyyy s =
     (case match_mm_yyyy_with 2 s of
        Some r \<Rightarrow> Some r
      | None \<Rightarrow> match_mm_yyyy_with 1 s)"

text \<open>\<^verbatim>\<open>re.match(r"(\d{4})", s)\<close> and \<^verbatim>\<open>re.search(r"(\d{4})", s)\<close>.\<close>

definition match_year :: "string \<Rightarrow> int option" where
  "match_year s =
     (if 4 \<le> length s \<and> list_all is_digit (take 4 s) then Some (int_of_digits (take 4 s))
      else None)"

fun search_year :: "string \<Rightarrow> int option" where
  "search_year [] = None"
| "search_year (c # cs) =
     (case match_year (c # cs) of
        Some y \<Rightarrow> Some y
      | None \<Rightarrow> search_year cs)"

text \<open>
  The loop over \<^verbatim>\<open>MONTH_MAP\<close> in \<^verbatim>\<open>_parse_date_str\<close>: \<open>None\<close> when the loop ends without a
  \<^verbatim>\<open>return\<close>.
\<close>

fun month_loop :: "(string \<times> int) list \<Rightarrow> string \<Rightarrow> (date_error + int \<times> int) option" where
  "month_loop [] date_str = None"
| "month_loop ((month_name, month_num) # rest) date_str =
     (if contains month_name (lower date_str) then
        (case search_year date_str of
           Some y \<Rightarrow> Some (datetime y month_num)
         | None \<Rightarrow> month_loop rest date_str)
      else month_loop rest date_str)"

definition parse_date_str :: "string \<Rightarrow> date_error + (int \<times> int) option" where
  "parse_date_str date_str =
     (if date_str = [] \<or> lower date_str \<in> {''present'', ''current'', ''now''} then Inr None
      else case match_mm_yyyy date_str of
        Some (month, year) \<Rightarrow>
          (case datetime year month of Inl e \<Rightarrow> Inl e | Inr d \<Rightarrow> Inr (Some d))
      | None \<Rightarrow>
          (case month_loop MONTH_MAP date_str of
             Some r \<Rightarrow> (case r of Inl e \<Rightarrow> Inl e | Inr d \<Rightarrow> Inr (Some d))
           | None \<Rightarrow>
               (case match_year date_str of
                  Some y \<Rightarrow> (case datetime y 1 of Inl e \<Rightarrow> Inl e | Inr d \<Rightarrow> Inr (Some d))
                | None \<Rightarrow> Inr None)))"

definition check_contact :: "(pattern \<Rightarrow> string \<Rightarrow> string list) \<Rightarrow> resume_data \<Rightarrow> issue list \<times> int" where
  "check_contact findall resume_data =
     (let txt = raw_text resume_data;
          emails = findall EMAIL_REGEX txt;
          email_part =
            (if emails \<noteq> [] then
               ([\<lparr>issue_check = ''contact_email'', issue_severity = Pass,
                  issue_subject = hd emails\<rparr>], 0)
             else
               ([\<lparr>issue_check = ''contact_email'', issue_severity = Error,
                  issue_subject = []\<rparr>], 3));
          phones_in = findall PHONE_REGEX_IN txt;
          phones_intl = findall PHONE_REGEX_INTL txt;
          phone_part =
            (if phones_in \<noteq> [] \<or> phones_intl \<noteq> [] then
               ([\<lparr>issue_check = ''contact_phone'', issue_severity = Pass,
                  issue_subject = (if phones_in \<noteq> [] then hd phones_in else hd phones_intl)\<rparr>],
                0)
             else
               ([\<lparr>issue_check = ''contact_phone'', issue_severity = Warning,
                  issue_subject = []\<rparr>], 2))
      in (fst email_part @ fst phone_part, 0 + snd email_part + snd phone_part))"

definition check_dates :: "(pattern \<Rightarrow> string \<Rightarrow> string list) \<Rightarrow> string \<Rightarrow> issue list \<times> int" where
  "check_dates findall txt =
     (let fuzzy_dates = findall DATE_FUZZY txt;
          fuzzy_part =
            (if fuzzy_dates \<noteq> [] then
               ([\<lparr>issue_check = ''date_format'', issue_severity = Warning,
                  issue_subject = join '', '' (take 3 fuzzy_dates)\<rparr>], 1)
             else ([], 0));
          mm_yyyy = findall DATE_MM_YYYY txt;
          month_yyyy = findall DATE_MONTH_YYYY txt;
          standard_part =
            (if mm_yyyy \<noteq> [] \<or> month_yyyy \<noteq> [] then
               [\<lparr>issue_check = ''date_format'', issue_severity = Pass, issue_subject = []\<rparr>]
             else if fuzzy_dates = [] then
               (if findall DATE_BARE_YEAR txt \<noteq> [] then
                  [\<lparr>issue_check = ''date_format'', issue_severity = Info, issue_subject = []\<rparr>]
                else [])
             else [])
      in (fst fuzzy_part @ standard_part, snd fuzzy_part))"

text \<open>
  \<^verbatim>\<open>_check_gaps\<close>. \<open>dated_jobs\<close> is the first loop: both dates of a job are parsed before the
  start is tested, and a job is kept as the pair of its start and its end (today's date
  when the end does not parse). The sort is the stable descending sort by start.
\<close>

fun dated_jobs ::
  "int \<times> int \<Rightarrow> job_entry list \<Rightarrow> date_error + ((int \<times> int) \<times> (int \<times> int)) list" where
  "dated_jobs today [] = Inr []"
| "dated_jobs today (job # rest) =
     (case parse_date_str (start_date job) of
        Inl e \<Rightarrow> Inl e
      | Inr start \<Rightarrow>
          (case parse_date_str (end_date job) of
             Inl e \<Rightarrow> Inl e
           | Inr end' \<Rightarrow>
               (case dated_jobs today rest of
                  Inl e \<Rightarrow> Inl e
                | Inr ds \<Rightarrow>
                    Inr (case start of
                           None \<Rightarrow> ds
                         | Some s \<Rightarrow> (s, (case end' of None \<Rightarrow> today | Some e \<Rightarrow> e)) # ds))))"

fun gap_loop ::
  "int \<Rightarrow> ((int \<times> int) \<times> (int \<times> int)) list \<Rightarrow> issue list \<Rightarrow> int \<Rightarrow> issue list \<times> int" where
  "gap_loop threshold_months (cur # prev # rest) issues penalty =
     (let current_start = fst cur;
          previous_end = snd prev;
          gap_months = (fst current_start - fst previous_end) * 12
                       + (snd current_start - snd previous_end)
      in if gap_months > threshold_months then
           gap_loop threshold_months (prev # rest)
             (issues @ [\<lparr>issue_check = ''employment_gap'', issue_severity = Warning,
                         issue_subject = []\<rparr>])
             (penalty + 2)
         else gap_loop threshold_months (prev # rest) issues penalty)"
| "gap_loop threshold_months ds issues penalty = (issues, penalty)"

definition check_gaps ::
  "int \<times> int \<Rightarrow> job_entry list \<Rightarrow> int \<Rightarrow> date_error + issue list \<times> int" where
  "check_gaps today jobs_list threshold_months =
     (if length jobs_list < 2 then Inr ([], 0)
      else case dated_jobs today jobs_list of
        Inl e \<Rightarrow> Inl e
      | Inr ds \<Rightarrow>
          (case gap_loop threshold_months
                  (sort_key (\<lambda>d. - (fst (fst d) * 12 + snd (fst d))) ds) [] 0 of
             (issues, penalty) \<Rightarrow> Inr (issues, min penalty 4)))"

definition check_experience :: "rat \<Rightarrow> rat option \<Rightarrow> issue list \<times> int" where
  "check_experience total_years required_years =
     (case required_years of
        None \<Rightarrow> ([], 0)
      | Some required \<Rightarrow>
          if total_years \<ge> required then
            ([\<lparr>issue_check = ''experience_years'', issue_severity = Pass, issue_subject = []\<rparr>], 0)
          else
            (let gap = required - total_years in
             if gap \<le> 1 then
               ([\<lparr>issue_check = ''experience_years'', issue_severity = Info,
                  issue_subject = []\<rparr>], 0)
             else
               ([\<lparr>issue_check = ''experience_years'', issue_severity = Warning,
                  issue_subject = []\<rparr>], 0 + 2)))"

definition degree_levels :: "(string \<times> int) list" where
  "degree_levels =
     [(''phd'', 4), (''doctorate'', 4), (''ph.d'', 4),
      (''master'', 3), (''mtech'', 3), (''mba'', 3), (''m.tech'', 3), (''m.s'', 3), (''ms'', 3),
      (''bachelor'', 2), (''btech'', 2), (''b.tech'', 2), (''b.s'', 2), (''bs'', 2),
      (''b.e'', 2), (''be'', 2),
      (''diploma'', 1)]"

text \<open>
  The two loops of \<^verbatim>\<open>_check_education\<close>: the highest level among the degrees held (with the
  degree it was found in), and the level of the first key found in the requirement.
\<close>

fun level_loop :: "(string \<times> int) list \<Rightarrow> string \<Rightarrow> string \<Rightarrow> int \<times> string \<Rightarrow> int \<times> string" where
  "level_loop [] degree_lower degree_name highest = highest"
| "level_loop ((key, level) # rest) degree_lower degree_name highest =
     (if contains key degree_lower \<and> level > fst highest
      then level_loop rest degree_lower degree_name (level, degree_name)
      else level_loop rest degree_lower degree_name highest)"

fun highest_loop :: "education_entry list \<Rightarrow> int \<times> string \<Rightarrow> int \<times> string" where
  "highest_loop [] highest = highest"
| "highest_loop (edu # rest) highest =
     highest_loop rest
       (level_loop degree_levels
          (lower (case degree edu of None \<Rightarrow> [] | Some d \<Rightarrow> d))
          (case degree edu of None \<Rightarrow> [] | Some d \<Rightarrow> d)
          highest)"

fun required_loop :: "(string \<times> int) list \<Rightarrow> string \<Rightarrow> int" where
  "required_loop [] required_lower = 0"
| "required_loop ((key, level) # rest) required_lower =
     (if contains key required_lower then level else required_loop rest required_lower)"

definition check_education :: "education_entry list \<Rightarrow> string option \<Rightarrow> issue list \<times> int" where
  "check_education edus required =
     (case required of
        None \<Rightarrow> ([], 0)
      | Some req \<Rightarrow>
          if req = [] then ([], 0)
          else
            (let highest = highest_loop edus (0, ''None'');
                 required_level = required_loop degree_levels (lower req)
             in if fst highest \<ge> required_level then
                  ([\<lparr>issue_check = ''education'', issue_severity = Pass,
                     issue_subject = snd highest\<rparr>], 0)
                else if fst highest > 0 then
                  ([\<lparr>issue_check = ''education'', issue_severity = Info,
                     issue_subject = snd highest\<rparr>], 0)
                else ([], 0)))"

text \<open>
  \<^verbatim>\<open>IntegrityCheck.check\<close>. \<open>jd\<close> is \<open>None\<close> for a missing or empty JD extract. The only
  exception is the \<^verbatim>\<open>ValueError\<close> of a date that \<^verbatim>\<open>datetime\<close> refuses.
\<close>

definition integrity_check ::
  "(pattern \<Rightarrow> string \<Rightarrow> string list) \<Rightarrow> int \<times> int \<Rightarrow> resume_data \<Rightarrow> resume_extract \<Rightarrow>
   jd_extract option \<Rightarrow> int \<Rightarrow> date_error + integrity_result" where
  "integrity_check findall today resume_data resume jd gap_threshold_months =
     (let score0 = INTEGRITY_MAX_SCORE in
      case check_contact findall resume_data of (contact_issues, contact_penalty) \<Rightarrow>
      case check_dates findall (raw_text resume_data) of (date_issues, date_penalty) \<Rightarrow>
      case check_gaps today (job_titles resume) gap_threshold_months of
        Inl e \<Rightarrow> Inl e
      | Inr (gap_issues, gap_penalty) \<Rightarrow>
          (let score1 = score0 - contact_penalty - date_penalty - gap_penalty;
               issues1 = contact_issues @ date_issues @ gap_issues;
               jd_part =
                 (case jd of
                    None \<Rightarrow> ([], 0)
                  | Some j \<Rightarrow>
                      (case check_experience (total_experience_years resume)
                              (experience_required_years j) of
                         (exp_issues, exp_penalty) \<Rightarrow>
                      case check_education (education resume) (education_required j) of
                         (edu_issues, edu_penalty) \<Rightarrow>
                           (exp_issues @ edu_issues, exp_penalty + edu_penalty)));
               score2 = score1 - snd jd_part;
               issues2 = issues1 @ fst jd_part
           in Inr \<lparr>i_score = max score2 0, i_max_score = INTEGRITY_MAX_SCORE,
                   i_issues = issues2,
                   i_errors = count_severity Error issues2,
                   i_warnings = count_severity Warning issues2,
                   i_infos = count_severity Info issues2,
                   i_passed = list_all (\<lambda>i. issue_severity i \<noteq> Error) issues2\<rparr>))"

section \<open>DiffViewer (agents/diff\_viewer.py)\<close>

text \<open>
  \<^verbatim>\<open>str.splitlines(keepends=True)\<close>. A line ends after \<^verbatim>\<open>\r\n\<close>, \<^verbatim>\<open>\n\<close>, \<^verbatim>\<open>\r\<close>, \<^verbatim>\<open>\v\<close>,
  \<^verbatim>\<open>\f\<close>, \<^verbatim>\<open>\x1c\<close>, \<^verbatim>\<open>\x1d\<close>, \<^verbatim>\<open>\x1e\<close>, \<^verbatim>\<open>\x85\<close>, \<^verbatim>\<open>\u2028\<close> or \<^verbatim>\<open>\u2029\<close>, the last three as
  their UTF-8 bytes. \<open>line_end s\<close> is the number of bytes of the line boundary at the head
  of \<open>s\<close>, 0 when there is none. In \<open>splitlines_from k w s\<close> the line read so far is \<open>w\<close>,
  reversed, and \<open>k\<close> bytes of a boundary are still to be read.
\<close>

definition line_end :: "string \<Rightarrow> nat" where
  "line_end s =
     (if prefix [CHR 0x0D, CHR 0x0A] s then 2
      else if s \<noteq> [] \<and> hd s \<in> {CHR 0x0A, CHR 0x0D, CHR 0x0B, CHR 0x0C,
                                  CHR 0x1C, CHR 0x1D, CHR 0x1E} then 1
      else if prefix [CHR 0xC2, CHR 0x85] s then 2
      else if prefix [CHR 0xE2, CHR 0x80, CHR 0xA8] s \<or> prefix [CHR 0xE2, CHR 0x80, CHR 0xA9] s
      then 3
      else 0)"

fun splitlines_from :: "nat \<Rightarrow> string \<Rightarrow> string \<Rightarrow> string list" where
  "splitlines_from k w [] = (if w = [] then [] else [rev w])"
| "splitlines_from k w (c # cs) =
     (if k > 1 then splitlines_from (k - 1) (c # w) cs
      else if k = 1 then rev (c # w) # splitlines_from 0 [] cs
      else
        (let e = line_end (c # cs) in
         if e = 0 then splitlines_from 0 (c # w) cs
         else if e = 1 then rev (c # w) # splitlines_from 0 [] cs
         else splitlines_from (e - 1) (c # w) cs))"

definition splitlines :: "string \<Rightarrow> string list" where
  "splitlines s = splitlines_from 0 [] s"

text \<open>\<^verbatim>\<open>str.strip()\<close>, \<^verbatim>\<open>s[:n]\<close> counted in code points, and \<^verbatim>\<open>str(n)\<close> of a natural number.\<close>

definition strip :: "string \<Rightarrow> string" where
  "strip s = rev (dropWhile is_space (rev (dropWhile is_space s)))"

definition is_continuation :: "char \<Rightarrow> bool" where
  "is_continuation c \<longleftrightarrow> (0x80 :: nat) \<le> of_char c \<and> of_char c < (0xC0 :: nat)"

fun take_chars :: "nat \<Rightarrow> string \<Rightarrow> string" where
  "take_chars n [] = []"
| "take_chars n (c # cs) =
     (if is_continuation c then c # take_chars n cs
      else (case n of 0 \<Rightarrow> [] | Suc m \<Rightarrow> c # take_chars m cs))"

definition digit_char :: "nat \<Rightarrow> char" where
  "digit_char d = ''0123456789'' ! d"

function str_nat :: "nat \<Rightarrow> string" where
  "str_nat n = (if n < 10 then [digit_char n] else str_nat (n div 10) @ [digit_char (n mod 10)])"
  by pat_completeness auto
termination
  by (relation "measure id") auto

text \<open>
  The results of \<^verbatim>\<open>difflib\<close> are those of two functions given to \<open>diff\<close>:
  \<open>unified_diff a b fromfile tofile n\<close>, the list of the lines of the unified diff, and
  \<open>get_opcodes a b\<close>, the opcodes \<^verbatim>\<open>(tag, i1, i2, j1, j2)\<close> of
  \<^verbatim>\<open>SequenceMatcher(None, a, b)\<close>, whose tag is one of \<^verbatim>\<open>replace\<close>, \<^verbatim>\<open>delete\<close>, \<^verbatim>\<open>insert\<close>,
  \<^verbatim>\<open>equal\<close> and whose indices are not negative.
\<close>

datatype tag = Replace | Delete | Insert | Equal

type_synonym opcode = "tag \<times> nat \<times> nat \<times> nat \<times> nat"

type_synonym unified_diff_fn = "string list \<Rightarrow> string list \<Rightarrow> string \<Rightarrow> string \<Rightarrow> int \<Rightarrow> string list"

type_synonym get_opcodes_fn = "string list \<Rightarrow> string list \<Rightarrow> opcode list"

record change =
  c_type :: tag
  c_original_range :: "nat \<times> nat"
  c_modified_range :: "nat \<times> nat"
  c_original_text :: "string option"
  c_modified_text :: "string option"
  c_description :: string

record statistics =
  s_additions :: nat
  s_deletions :: nat
  s_total_changes :: nat
  s_original_lines :: nat
  s_modified_lines :: nat

record diff_result =
  d_diff_text :: string
  d_statistics :: statistics
  d_changes :: "change list"
  d_formatted :: string
  d_has_changes :: bool

text \<open>The slice \<^verbatim>\<open>xs[i:j]\<close> for indices that are not negative.\<close>

definition slice :: "'a list \<Rightarrow> nat \<Rightarrow> nat \<Rightarrow> 'a list" where
  "slice xs i j = drop i (take j xs)"

definition en_dash :: string where
  "en_dash = [CHR 0xE2, CHR 0x80, CHR 0x93]"

text \<open>The body of the loop of \<^verbatim>\<open>_extract_changes\<close> for one opcode that is not \<^verbatim>\<open>equal\<close>.\<close>

definition extract_change :: "string list \<Rightarrow> string list \<Rightarrow> opcode \<Rightarrow> change" where
  "extract_change original_lines modified_lines op =
     (case op of (tg, i1, i2, j1, j2) \<Rightarrow>
        (let original_part = strip (concat (slice original_lines i1 i2));
             modified_part = strip (concat (slice modified_lines j1 j2))
         in \<lparr>c_type = tg,
             c_original_range = (i1 + 1, i2),
             c_modified_range = (j1 + 1, j2),
             c_original_text = (if tg = Replace \<or> tg = Delete then Some original_part else None),
             c_modified_text = (if tg = Replace \<or> tg = Insert then Some modified_part else None),
             c_description =
               (case tg of
                  Replace \<Rightarrow> ''Lines '' @ str_nat (i1 + 1) @ en_dash @ str_nat i2 @ '' modified''
                | Insert \<Rightarrow> ''New content added after line '' @ str_nat i1
                | Delete \<Rightarrow> ''Lines '' @ str_nat (i1 + 1) @ en_dash @ str_nat i2 @ '' removed''
                | Equal \<Rightarrow> [])\<rparr>))"

definition extract_changes :: "get_opcodes_fn \<Rightarrow> string list \<Rightarrow> string list \<Rightarrow> change list" where
  "extract_changes get_opcodes original_lines modified_lines =
     map (extract_change original_lines modified_lines)
       (filter (\<lambda>op. fst op \<noteq> Equal) (get_opcodes original_lines modified_lines))"

definition icon :: "tag \<Rightarrow> string" where
  "icon tg =
     (case tg of
        Replace \<Rightarrow> [CHR 0xE2, CHR 0x9C, CHR 0x8F, CHR 0xEF, CHR 0xB8, CHR 0x8F]
      | Insert \<Rightarrow> [CHR 0xE2, CHR 0x9E, CHR 0x95]
      | Delete \<Rightarrow> [CHR 0xE2, CHR 0x9E, CHR 0x96]
      | Equal \<Rightarrow> [CHR 0xE2, CHR 0x80, CHR 0xA2])"

text \<open>The lines that \<^verbatim>\<open>_format_changes\<close> appends for the \<open>i\<close>-th change.\<close>

definition format_change :: "nat \<Rightarrow> change \<Rightarrow> string list" where
  "format_change i ch =
     [icon (c_type ch) @ '' Change '' @ str_nat i @ '': '' @ c_description ch]
     @ (case c_original_text ch of
          None \<Rightarrow> []
        | Some t \<Rightarrow> [''  Original: '' @ [CHR 0x22] @ take_chars 100 t @ [CHR 0x22]])
     @ (case c_modified_text ch of
          None \<Rightarrow> []
        | Some t \<Rightarrow> [''  Modified: '' @ [CHR 0x22] @ take_chars 100 t @ [CHR 0x22]])
     @ [[]]"

definition format_changes :: "change list \<Rightarrow> string" where
  "format_changes chs =
     (if chs = [] then ''No changes detected.''
      else join [CHR 0x0A]
             ((''Found '' @ str_nat (length chs) @ '' change(s):'' @ [CHR 0x0A])
              # concat (map (\<lambda>(i, ch). format_change i ch) (zip [1 ..< Suc (length chs)] chs))))"

text \<open>\<^verbatim>\<open>DiffViewer.diff\<close>.\<close>

definition diff :: "unified_diff_fn \<Rightarrow> get_opcodes_fn \<Rightarrow> string \<Rightarrow> string \<Rightarrow> int \<Rightarrow> diff_result" where
  "diff unified_diff get_opcodes original_text modified_text context_lines =
     (let original_lines = splitlines original_text;
          modified_lines = splitlines modified_text
      in if original_text = modified_text then
           \<lparr>d_diff_text = [],
            d_statistics = \<lparr>s_additions = 0, s_deletions = 0, s_total_changes = 0,
                            s_original_lines = length original_lines,
                            s_modified_lines = length modified_lines\<rparr>,
            d_changes = [],
            d_formatted = ''No changes detected.'',
            d_has_changes = False\<rparr>
         else
           (let diff_lines = unified_diff original_lines modified_lines
                               ''Original Resume'' ''Tailored Resume'' context_lines;
                additions = length (filter (\<lambda>line. prefix ''+'' line \<and> \<not> prefix ''+++'' line)
                                      diff_lines);
                deletions = length (filter (\<lambda>line. prefix ''-'' line \<and> \<not> prefix ''---'' line)
                                      diff_lines);
                chs = extract_changes get_opcodes original_lines modified_lines
            in \<lparr>d_diff_text = concat diff_lines,
                d_statistics = \<lparr>s_additions = additions, s_deletions = deletions,
                                s_total_changes = additions + deletions,
                                s_original_lines = length original_lines,
                                s_modified_lines = length modified_lines\<rparr>,
                d_changes = chs,
                d_formatted = format_changes chs,
                d_has_changes = (additions + deletions > 0)\<rparr>))"

text \<open>
  Stand-ins for \<^verbatim>\<open>difflib\<close> that give its results on the line lists \<^verbatim>\<open>["a\n"]\<close> and \<^verbatim>\<open>["b\n"]\<close>,
  and differ everywhere else.
\<close>

definition z_unified_diff :: "string list \<Rightarrow> unified_diff_fn" where
  "z_unified_diff other a b fromfile tofile n =
     (if a = [''a'' @ [CHR 0x0A]] \<and> b = [''b'' @ [CHR 0x0A]] then
        [''--- '' @ fromfile @ [CHR 0x0A], ''+++ '' @ tofile @ [CHR 0x0A],
         ''@@ -1 +1 @@'' @ [CHR 0x0A], ''-a'' @ [CHR 0x0A], ''+b'' @ [CHR 0x0A]]
      else other)"

definition z_get_opcodes :: "opcode list \<Rightarrow> get_opcodes_fn" where
  "z_get_opcodes other a b =
     (if a = [''a'' @ [CHR 0x0A]] \<and> b = [''b'' @ [CHR 0x0A]] then [(Replace, 0, 1, 0, 1)]
      else other)"

section \<open>Concrete inputs of the scoring layers used below\<close>

text \<open>
  A resume text of 201 words in which \<^verbatim>\<open>python\<close> occurs twice (density below 1 percent); a
  resume and the extracts of a job description and of a resume; a library stub that finds
  no match of any pattern.
\<close>

definition y_text :: string where
  "y_text = ''Python python '' @ concat (replicate 199 ''a '')"

definition y_resume :: resume_data where
  "y_resume = \<lparr>file_info_type = Some ''pdf'',
               section_headers = [\<lparr>original = ''Work History'', canonical = Some ''experience'',
                                   is_standard = False\<rparr>],
               metadata_warnings = [], body = None, raw_text = ''no contact here''\<rparr>"

definition y_jd :: jd_extract where
  "y_jd = \<lparr>required_hard_skills = [''Python'', ''SQL''], preferred_hard_skills = [''Docker''],
           domain_keywords = [], tools_and_frameworks = [''python''],
           acronyms = [], experience_required_years = None, education_required = None\<rparr>"

definition y_jd_empty :: jd_extract where
  "y_jd_empty = \<lparr>required_hard_skills = [], preferred_hard_skills = [],
           domain_keywords = [], tools_and_frameworks = [],
           acronyms = [], experience_required_years = None, education_required = None\<rparr>"

definition y_extract :: resume_extract where
  "y_extract = \<lparr>hard_skills = [''python''], inferred_skills = [SkillDict (Some ''Docker'')],
                job_titles = [\<lparr>start_date = ''01/2023'', end_date = ''present''\<rparr>,
                              \<lparr>start_date = ''03/2019'', end_date = ''01/2022''\<rparr>],
                total_experience_years = 6, education = []\<rparr>"

definition y_findall :: "pattern \<Rightarrow> string \<Rightarrow> string list" where
  "y_findall p s = []"

text \<open>
  A job description with 80 keywords of two letters, \<^verbatim>\<open>aa\<close>, \<^verbatim>\<open>ab\<close>, ..., \<^verbatim>\<open>ai\<close>, \<^verbatim>\<open>ba\<close>, ...,
  and a resume that has the first 20 of them among its hard skills, in upper case, and the
  next 3 among its inferred skills.
\<close>

definition y_jd80 :: jd_extract where
  "y_jd80 =
     \<lparr>required_hard_skills =
        take 80 (concat (map (\<lambda>a. map (\<lambda>b. [a, b]) ''abcdefghi'') ''abcdefghi'')),
      preferred_hard_skills = [], domain_keywords = [], tools_and_frameworks = [],
      acronyms = [], experience_required_years = None, education_required = None\<rparr>"

definition y_extract23 :: resume_extract where
  "y_extract23 =
     \<lparr>hard_skills = take 20 (concat (map (\<lambda>a. map (\<lambda>b. [a, b]) ''ABCDEFGHI'') ''ABC'')),
      inferred_skills = [SkillDict (Some ''cc''), SkillDict (Some ''cd''), SkillOther ''ce''],
      job_titles = [], total_experience_years = 0, education = []\<rparr>"

section \<open>Concrete database states used below\<close>

text \<open>
  \<open>x_db0\<close> holds one resume and one job and no application; \<open>x_db1\<close> is the state after a
  first \<^verbatim>\<open>prepare_application\<close> at time 100, \<open>x_db2\<close> the state after its confirmation at
  time 200.
\<close>

definition x_db0 :: database where
  "x_db0 = \<lparr>resumes = [1 \<mapsto> \<lparr>name_col = Some ''Ada''\<rparr>],
            jobs = [1 \<mapsto> \<lparr>title_col = Some ''Engineer'', company_col = Some ''Acme'',
                           platform_col = None, url_col = None\<rparr>],
            applications = [], app_seq = 0, action_log = [], log_seq = 0\<rparr>"

definition x_row :: application where
  "x_row = \<lparr>app_id = 1, app_resume_id = 1, app_job_id = 1, app_status = SText ''draft'',
            app_ats_score = SInt 80, app_ats_report = SNull, app_tailored_text = SNull,
            app_cover_letter = SNull, app_applied_at = SNull, app_platform = SNull,
            app_notes = SNull, app_created_at = 100, app_updated_at = 100\<rparr>"

definition x_log1 :: log_entry where
  "x_log1 = \<lparr>log_id = 1, log_action_name = ''prepare_application'',
             log_details = Some [(''app_id'', PInt 1), (''resume_name'', PStr ''Ada''),
                                 (''job_title'', PStr ''Engineer''), (''company'', PStr ''Acme''),
                                 (''ats_score'', PInt 80)],
             log_application_id = Some 1, log_confirmed = 0, log_timestamp = 100\<rparr>"

definition x_log2 :: log_entry where
  "x_log2 = \<lparr>log_id = 2, log_action_name = ''confirm_apply'',
             log_details = Some [(''app_id'', PInt 1), (''confirmed_at'', PStr ''2026-01-05T09:00:00'')],
             log_application_id = Some 1, log_confirmed = 1, log_timestamp = 200\<rparr>"

definition x_summary :: summary where
  "x_summary = \<lparr>sum_candidate = Some ''Ada'', sum_position = Some ''Engineer'',
                sum_company = Some ''Acme'', sum_platform = None, sum_url = None,
                sum_ats_score = Some 80, sum_has_tailored_resume = False,
                sum_has_cover_letter = False\<rparr>"

definition x_db1 :: database where
  "x_db1 = x_db0\<lparr>applications := [x_row], app_seq := 1, action_log := [x_log1], log_seq := 1\<rparr>"

definition x_db2 :: database where
  "x_db2 = x_db1\<lparr>applications :=
                   [x_row\<lparr>app_status := SText ''submitted'',
                          app_applied_at := SText ''2026-01-05T09:00:00'',
                          app_updated_at := 200\<rparr>],
                 action_log := [x_log1, x_log2], log_seq := 2\<rparr>"

section \<open>Concrete inputs used below\<close>


definition w_store :: token_store where
  "w_store = Map.empty(''tok'' \<mapsto> \<lparr>entry_text = ''tailored'', expires = 1900\<rparr>)"

definition w_exporter :: "(unit, unit) export_call \<Rightarrow> string" where
  "w_exporter c = ''outputs/'' @ call_resume_text c"

section \<open>Properties of the tailor token\<close>












section \<open>Properties of the export\<close>

lemma validate_rejects:
  "st token = None \<or> (\<exists>e. st token = Some e \<and> expires e \<le> t_check) \<Longrightarrow>
   fst (validate_tailor_token t_sweep t_check token st) = None"
  by (auto simp: validate_tailor_token_def cleanup_tokens_def Let_def split: option.splits)

text \<open>
  C10. With the token omitted, \<^verbatim>\<open>export_resume\<close> validates nothing (the token table is
  untouched) and hands the caller's text to the exporter. With a token supplied, the text
  handed to the exporter is the one \<^verbatim>\<open>validate_tailor_token\<close> returns, whatever the caller's
  text; and when the token is unknown or expired the result is the error and the exporter is
  not called.
\<close>

theorem export_resume_token_gate:
  "export_resume exporter t1 t2 st resume_text contact sections filename job_title company None
     = (Exported (exporter \<lparr>call_resume_text = resume_text, call_contact = contact,
                            call_sections = sections, call_filename = filename,
                            call_job_title = job_title, call_company = company\<rparr>),
        Some \<lparr>call_resume_text = resume_text, call_contact = contact,
              call_sections = sections, call_filename = filename,
              call_job_title = job_title, call_company = company\<rparr>,
        st)
   \<and> (validate_tailor_token t1 t2 token st = (Some bound, st') \<longrightarrow>
        export_resume exporter t1 t2 st resume_text contact sections filename job_title company
          (Some token)
        = (Exported (exporter \<lparr>call_resume_text = bound, call_contact = contact,
                               call_sections = sections, call_filename = filename,
                               call_job_title = job_title, call_company = company\<rparr>),
           Some \<lparr>call_resume_text = bound, call_contact = contact,
                 call_sections = sections, call_filename = filename,
                 call_job_title = job_title, call_company = company\<rparr>,
           st'))
   \<and> (st token = None \<or> (\<exists>e. st token = Some e \<and> expires e \<le> t2) \<longrightarrow>
        fst (export_resume exporter t1 t2 st resume_text contact sections filename job_title
               company (Some token)) = InvalidTailorToken
      \<and> fst (snd (export_resume exporter t1 t2 st resume_text contact sections filename
                     job_title company (Some token))) = None)"
proof (intro conjI impI)
  show "export_resume exporter t1 t2 st resume_text contact sections filename job_title company None
     = (Exported (exporter \<lparr>call_resume_text = resume_text, call_contact = contact,
                            call_sections = sections, call_filename = filename,
                            call_job_title = job_title, call_company = company\<rparr>),
        Some \<lparr>call_resume_text = resume_text, call_contact = contact,
              call_sections = sections, call_filename = filename,
              call_job_title = job_title, call_company = company\<rparr>,
        st)"
    by (simp add: export_resume_def)
next
  assume "validate_tailor_token t1 t2 token st = (Some bound, st')"
  then show "export_resume exporter t1 t2 st resume_text contact sections filename job_title
          company (Some token)
        = (Exported (exporter \<lparr>call_resume_text = bound, call_contact = contact,
                               call_sections = sections, call_filename = filename,
                               call_job_title = job_title, call_company = company\<rparr>),
           Some \<lparr>call_resume_text = bound, call_contact = contact,
                 call_sections = sections, call_filename = filename,
                 call_job_title = job_title, call_company = company\<rparr>,
           st')"
    by (simp add: export_resume_def)
next
  assume "st token = None \<or> (\<exists>e. st token = Some e \<and> expires e \<le> t2)"
  then have r: "fst (validate_tailor_token t1 t2 token st) = None"
    by (rule validate_rejects)
  then show "fst (export_resume exporter t1 t2 st resume_text contact sections filename job_title
               company (Some token)) = InvalidTailorToken"
    by (cases "validate_tailor_token t1 t2 token st") (simp add: export_resume_def)
  from r show "fst (snd (export_resume exporter t1 t2 st resume_text contact sections filename
                     job_title company (Some token))) = None"
    by (cases "validate_tailor_token t1 t2 token st") (simp add: export_resume_def)
qed

theorem export_resume_token_gate_witness:
  "validate_tailor_token 200 200 ''tok'' w_store = (Some ''tailored'', Map.empty)
   \<and> export_resume w_exporter 200 200 w_store ''mine'' None None None None None (Some ''tok'')
     = (Exported ''outputs/tailored'',
        Some \<lparr>call_resume_text = ''tailored'', call_contact = None, call_sections = None,
              call_filename = None, call_job_title = None, call_company = None\<rparr>,
        Map.empty)
   \<and> w_store ''tok'' = Some \<lparr>entry_text = ''tailored'', expires = 1900\<rparr>
   \<and> (1900::rat) \<le> 2000
   \<and> fst (export_resume w_exporter 2000 2000 w_store ''mine'' None None None None None
            (Some ''tok'')) = InvalidTailorToken
   \<and> fst (snd (export_resume w_exporter 2000 2000 w_store ''mine'' None None None None None
            (Some ''tok''))) = None"
proof -
  have v: "validate_tailor_token 200 200 ''tok'' w_store = (Some ''tailored'', Map.empty)"
    by (simp add: validate_tailor_token_def w_store_def cleanup_tokens_def Let_def fun_eq_iff)
  have e: "w_store ''tok'' = Some \<lparr>entry_text = ''tailored'', expires = 1900\<rparr>"
    by (simp add: w_store_def)
  have h: "w_store ''tok'' = None \<or> (\<exists>e. w_store ''tok'' = Some e \<and> expires e \<le> 2000)"
    by (simp add: w_store_def)
  have a: "export_resume w_exporter 200 200 w_store ''mine'' None None None None None (Some ''tok'')
     = (Exported (w_exporter \<lparr>call_resume_text = ''tailored'', call_contact = None,
                    call_sections = None, call_filename = None, call_job_title = None,
                    call_company = None\<rparr>),
        Some \<lparr>call_resume_text = ''tailored'', call_contact = None, call_sections = None,
              call_filename = None, call_job_title = None, call_company = None\<rparr>,
        Map.empty)"
    using export_resume_token_gate
      [of w_exporter 200 200 w_store "''mine''" None None None None None "''tok''"
          "''tailored''" Map.empty] v
    by blast
  have b: "fst (export_resume w_exporter 2000 2000 w_store ''mine'' None None None None None
            (Some ''tok'')) = InvalidTailorToken
   \<and> fst (snd (export_resume w_exporter 2000 2000 w_store ''mine'' None None None None None
            (Some ''tok''))) = None"
    using export_resume_token_gate
      [of w_exporter 2000 2000 w_store "''mine''" None None None None None "''tok''"
          "''tailored''" Map.empty] h
    by blast
  from v e a b show ?thesis by (simp add: w_exporter_def)
qed
section \<open>Properties of the database layer and the apply agent\<close>

lemma update_application_valid:
  "fst ` set kwargs \<subseteq> APPLICATION_UPDATABLE_COLUMNS \<Longrightarrow>
   update_application db aid kwargs t =
     Inr (if kwargs \<noteq> [] then
            db\<lparr>applications :=
                  map (\<lambda>a. if app_id a = aid
                           then (fold (\<lambda>(key, v). set_column key (to_sql v)) kwargs a)
                                  \<lparr>app_updated_at := t\<rparr>
                           else a)
                    (applications db)\<rparr>
          else db)"
  by (auto simp: update_application_def Let_def)

lemma update_application_invalid:
  "\<not> fst ` set kwargs \<subseteq> APPLICATION_UPDATABLE_COLUMNS \<Longrightarrow>
   update_application db aid kwargs t =
     Inl (ValueError (fst ` set kwargs - APPLICATION_UPDATABLE_COLUMNS), db)"
  by (auto simp: update_application_def Let_def)

lemma newest_None: "newest xs = None \<longleftrightarrow> xs = []"
  by (cases xs) (auto split: option.splits)

lemma set_column_key [simp]:
  "app_id (set_column k v a) = app_id a"
  "app_resume_id (set_column k v a) = app_resume_id a"
  "app_job_id (set_column k v a) = app_job_id a"
  "app_created_at (set_column k v a) = app_created_at a"
  by simp_all

lemma set_column_status:
  "k \<noteq> ''status'' \<Longrightarrow> app_status (set_column k v a) = app_status a"
  by simp

declare set_column.simps [simp del]

lemma fold_set_column_key [simp]:
  "app_id (fold (\<lambda>(key, v). set_column key (to_sql v)) kwargs a) = app_id a"
  "app_resume_id (fold (\<lambda>(key, v). set_column key (to_sql v)) kwargs a) = app_resume_id a"
  "app_job_id (fold (\<lambda>(key, v). set_column key (to_sql v)) kwargs a) = app_job_id a"
  "app_created_at (fold (\<lambda>(key, v). set_column key (to_sql v)) kwargs a) = app_created_at a"
  by (induction kwargs arbitrary: a; simp add: case_prod_unfold)+

lemma fold_set_column_status:
  "''status'' \<notin> fst ` set kwargs \<Longrightarrow>
   app_status (fold (\<lambda>(key, v). set_column key (to_sql v)) kwargs a) = app_status a"
  by (induction kwargs arbitrary: a) (auto simp: set_column_status)

lemma prepare_updates_valid [simp]:
  "fst ` set (prepare_updates tt cl) \<subseteq> APPLICATION_UPDATABLE_COLUMNS"
  by (auto simp: APPLICATION_UPDATABLE_COLUMNS_def prepare_updates_def)

lemma prepare_updates_status [simp]:
  "''status'' \<notin> fst ` set (prepare_updates tt cl)"
  by (auto simp: prepare_updates_def)

text \<open>
  The agent passes only whitelisted keys to \<^verbatim>\<open>update_application\<close>, so the \<^verbatim>\<open>ValueError\<close> of the
  whitelist does not leave the three operations.
\<close>

lemma prepare_no_value_error:
  "\<exists>res db'. prepare_application m db r j tt cl ats rep force tc tu tg = Inr (res, db')"
  unfolding prepare_application_def Let_def
  by (simp add: update_application_valid create_application_def
      log_action_def Let_def split: option.splits prod.splits)

lemma confirm_no_value_error:
  "\<exists>res db'. confirm_apply db aid now tu tg = Inr (res, db')"
  unfolding confirm_apply_def
  by (simp add: update_application_valid APPLICATION_UPDATABLE_COLUMNS_def log_action_def Let_def
      split: option.splits)

lemma cancel_no_value_error:
  "\<exists>res db'. cancel_application db aid reason tu tg = Inr (res, db')"
  unfolding cancel_application_def
  by (simp add: update_application_valid APPLICATION_UPDATABLE_COLUMNS_def log_action_def Let_def
      split: option.splits)

lemma newest_in: "newest xs = Some a \<Longrightarrow> a \<in> set xs"
  by (induction xs arbitrary: a) (auto split: option.splits if_splits)

lemma find_application_Some:
  "find_application db r j = Some a \<Longrightarrow>
   a \<in> set (applications db) \<and> app_resume_id a = r \<and> app_job_id a = j \<and>
   app_status a \<noteq> SNull \<and> app_status a \<noteq> SText ''cancelled''"
  unfolding find_application_def by (drule newest_in) simp

lemma find_application_None:
  "find_application db r j = None \<longleftrightarrow>
   (\<forall>a \<in> set (applications db). \<not> (app_resume_id a = r \<and> app_job_id a = j \<and>
       app_status a \<noteq> SNull \<and> app_status a \<noteq> SText ''cancelled''))"
  unfolding find_application_def newest_None by (auto simp: filter_empty_conv)

lemma prepare_application_shape:
  assumes "prepare_application m db r j tt cl ats rep force tc tu tg = Inr (res, db')"
  shows "(is_error res \<and> db' = db) \<or>
    (\<exists>s g e row. res = Prepared (app_seq db + 1) s \<and>
       find_application db r j = None \<and>
       resumes db r \<noteq> None \<and> jobs db j \<noteq> None \<and>
       app_id row = app_seq db + 1 \<and> app_resume_id row = r \<and> app_job_id row = j \<and>
       app_status row = SText ''draft'' \<and> app_created_at row = tc \<and>
       preserves_key g \<and>
       applications db' = map g (applications db @ [row]) \<and>
       app_seq db' = app_seq db + 1 \<and>
       action_log db' = action_log db @ [e] \<and>
       log_action_name e = ''prepare_application'' \<and>
       log_application_id e = Some (app_seq db + 1) \<and> log_confirmed e = 0 \<and>
       log_seq db' = log_seq db + 1 \<and>
       resumes db' = resumes db \<and> jobs db' = jobs db)"
proof (cases "is_error res")
  case True
  with assms have "db' = db"
    unfolding prepare_application_def Let_def
    by (auto simp: update_application_valid create_application_def log_action_def Let_def
        split: option.splits prod.splits if_splits)
  with True show ?thesis by simp
next
  case False
  let ?row = "\<lparr>app_id = app_seq db + 1, app_resume_id = r, app_job_id = j,
                 app_status = SText ''draft'',
                 app_ats_score = (case ats of None \<Rightarrow> SNull | Some s \<Rightarrow> SInt s),
                 app_ats_report =
                   (case rep of
                      None \<Rightarrow> SNull
                    | Some j \<Rightarrow> if j \<noteq> ''{}'' then SText j else SNull),
                 app_tailored_text = SNull, app_cover_letter = SNull,
                 app_applied_at = SNull, app_platform = SNull, app_notes = SNull,
                 app_created_at = tc, app_updated_at = tc\<rparr>"
  let ?g = "\<lambda>a. if prepare_updates tt cl \<noteq> [] \<and> app_id a = app_seq db + 1
            then (fold (\<lambda>(key, v). set_column key (to_sql v)) (prepare_updates tt cl) a)
                   \<lparr>app_updated_at := tu\<rparr>
            else a"
  have g: "preserves_key ?g"
    by (simp add: preserves_key_def fold_set_column_status)
  from assms False obtain resume job where
    rj: "resumes db r = Some resume" "jobs db j = Some job"
    and nf: "find_application db r j = None"
    unfolding prepare_application_def Let_def
    by (auto simp: get_resume_def get_job_def dest: find_application_Some
        split: option.splits prod.splits if_splits)
  from assms rj nf False have
    "res = Prepared (app_seq db + 1)
             \<lparr>sum_candidate = name_col resume, sum_position = title_col job,
              sum_company = company_col job, sum_platform = platform_col job,
              sum_url = url_col job, sum_ats_score = ats,
              sum_has_tailored_resume = (tt \<noteq> None),
              sum_has_cover_letter = (cl \<noteq> None)\<rparr>"
    and "db' = db\<lparr>applications := map ?g (applications db @ [?row]),
                  app_seq := app_seq db + 1,
                  action_log := action_log db @
                    [\<lparr>log_id = log_seq db + 1, log_action_name = ''prepare_application'',
                      log_details = Some [(''app_id'', PInt (app_seq db + 1)),
                                (''resume_name'', opt_str (name_col resume)),
                                (''job_title'', opt_str (title_col job)),
                                (''company'', opt_str (company_col job)),
                                (''ats_score'', opt_int ats)],
                      log_application_id = Some (app_seq db + 1),
                      log_confirmed = 0, log_timestamp = tg\<rparr>],
                  log_seq := log_seq db + 1\<rparr>"
    unfolding prepare_application_def Let_def
    by (auto simp: get_resume_def get_job_def update_application_valid create_application_def
        log_action_def Let_def split: option.splits prod.splits if_splits)
  with g rj nf show ?thesis
    by (intro disjI2 exI [of _ ?g] exI [of _ ?row] exI conjI) auto
qed

lemma confirm_apply_eq:
  "confirm_apply db aid now tu tg =
     (case get_application db aid of
        None \<Rightarrow> Inr (ApplicationNotFound aid, db)
      | Some app \<Rightarrow>
          if app_status app \<noteq> SText ''draft'' \<and> app_status app \<noteq> SText ''ready''
          then Inr (InvalidState aid (app_status app), db)
          else Inr (Submitted aid now, submitted_db db aid now tu tg))"
  unfolding confirm_apply_def submitted_db_def
  by (simp add: update_application_valid APPLICATION_UPDATABLE_COLUMNS_def log_action_def Let_def
      set_column.simps split: option.splits)

lemma cancel_application_eq:
  "cancel_application db aid reason tu tg =
     (case get_application db aid of
        None \<Rightarrow> Inr (ApplicationNotFound aid, db)
      | Some app \<Rightarrow> Inr (Cancelled aid, cancelled_db db aid reason tu tg))"
  unfolding cancel_application_def cancelled_db_def
  by (simp add: update_application_valid APPLICATION_UPDATABLE_COLUMNS_def log_action_def Let_def
      set_column.simps split: option.splits)

lemma filter_map_length_le:
  "(\<And>a. a \<in> set xs \<Longrightarrow> P (g a) \<Longrightarrow> Q a) \<Longrightarrow>
   length (filter P (map g xs)) \<le> length (filter Q xs)"
  by (induction xs) auto

lemma find_unique:
  "distinct (map app_id xs) \<Longrightarrow> find (\<lambda>a. app_id a = aid) xs = Some b \<Longrightarrow>
   a \<in> set xs \<Longrightarrow> app_id a = aid \<Longrightarrow> a = b"
  by (induction xs) (force split: if_splits)+

lemma invariant_start: "applications db = [] \<Longrightarrow> db_invariant db"
  by (simp add: db_invariant_def non_cancelled_def)

lemma invariant_other_tables:
  "db_invariant db \<Longrightarrow> db_invariant (db\<lparr>resumes := rs, jobs := js\<rparr>)"
  by (simp add: db_invariant_def non_cancelled_def)

lemma invariant_confirm:
  assumes inv: "db_invariant db" and c: "confirm_apply db aid now tu tg = Inr (res, db')"
  shows "db_invariant db'"
proof (cases "res = Submitted aid now \<and> db' = submitted_db db aid now tu tg")
  case False
  with c have "db' = db"
    by (auto simp: confirm_apply_eq split: option.splits if_splits)
  with inv show ?thesis by simp
next
  case True
  with c obtain app where app: "get_application db aid = Some app"
    and st: "app_status app = SText ''draft'' \<or> app_status app = SText ''ready''"
    by (auto simp: confirm_apply_eq split: option.splits if_splits)
  let ?g = "\<lambda>a. if app_id a = aid
                   then a\<lparr>app_status := SText ''submitted'', app_applied_at := SText now,
                          app_updated_at := tu\<rparr>
                   else a"
  have apps: "applications db' = map ?g (applications db)"
    and seq: "app_seq db' = app_seq db"
    using True by (simp_all add: submitted_db_def)
  have ids: "map app_id (applications db') = map app_id (applications db)"
    unfolding apps by (induction "applications db") auto
  have d: "distinct (map app_id (applications db))"
    using inv by (simp add: db_invariant_def)
  have nc: "\<And>a. a \<in> set (applications db) \<Longrightarrow> app_id a = aid \<Longrightarrow>
              app_status a \<noteq> SText ''cancelled''"
  proof -
    fix a assume "a \<in> set (applications db)" "app_id a = aid"
    with d app have "a = app"
      unfolding get_application_def by (rule find_unique)
    with st show "app_status a \<noteq> SText ''cancelled''" by auto
  qed
  have len: "\<And>r j. length (non_cancelled db' r j) \<le> length (non_cancelled db r j)"
    unfolding non_cancelled_def apps
    by (rule filter_map_length_le) (auto split: if_splits dest: nc)
  have "\<And>r j. length (non_cancelled db' r j) \<le> 1"
  proof -
    fix r j
    have "length (non_cancelled db r j) \<le> 1" using inv by (simp add: db_invariant_def)
    with len [of r j] show "length (non_cancelled db' r j) \<le> 1" by linarith
  qed
  moreover have "distinct (map app_id (applications db'))"
    using d ids by simp
  moreover have "\<forall>a \<in> set (applications db'). app_id a \<le> app_seq db'"
    using inv unfolding apps seq by (auto simp: db_invariant_def)
  moreover have "\<forall>a \<in> set (applications db').
        app_status a \<in> {SText ''draft'', SText ''submitted'', SText ''cancelled''}"
    using inv unfolding apps by (auto simp: db_invariant_def)
  ultimately show ?thesis by (simp add: db_invariant_def)
qed

lemma invariant_cancel:
  assumes inv: "db_invariant db" and c: "cancel_application db aid reason tu tg = Inr (res, db')"
  shows "db_invariant db'"
proof (cases "db' = cancelled_db db aid reason tu tg")
  case False
  with c have "db' = db"
    by (auto simp: cancel_application_eq split: option.splits if_splits)
  with inv show ?thesis by simp
next
  case True
  let ?g = "\<lambda>a. if app_id a = aid
                   then a\<lparr>app_status := SText ''cancelled'',
                          app_notes := SText (if reason \<noteq> [] then ''Cancelled: '' @ reason
                                              else ''Cancelled by user''),
                          app_updated_at := tu\<rparr>
                   else a"
  have apps: "applications db' = map ?g (applications db)"
    and seq: "app_seq db' = app_seq db"
    using True by (simp_all add: cancelled_db_def)
  have ids: "map app_id (applications db') = map app_id (applications db)"
    unfolding apps by (induction "applications db") auto
  have len: "\<And>r j. length (non_cancelled db' r j) \<le> length (non_cancelled db r j)"
    unfolding non_cancelled_def apps
    by (rule filter_map_length_le) (auto split: if_splits)
  have "\<And>r j. length (non_cancelled db' r j) \<le> 1"
  proof -
    fix r j
    have "length (non_cancelled db r j) \<le> 1" using inv by (simp add: db_invariant_def)
    with len [of r j] show "length (non_cancelled db' r j) \<le> 1" by linarith
  qed
  moreover have "distinct (map app_id (applications db'))"
    using inv ids by (simp add: db_invariant_def)
  moreover have "\<forall>a \<in> set (applications db'). app_id a \<le> app_seq db'"
    using inv unfolding apps seq by (auto simp: db_invariant_def)
  moreover have "\<forall>a \<in> set (applications db').
        app_status a \<in> {SText ''draft'', SText ''submitted'', SText ''cancelled''}"
    using inv unfolding apps by (auto simp: db_invariant_def)
  ultimately show ?thesis by (simp add: db_invariant_def)
qed

lemma filter_map_length_eq:
  "(\<And>a. P (g a) = P a) \<Longrightarrow> length (filter P (map g xs)) = length (filter P xs)"
  by (induction xs) auto

lemma invariant_prepare:
  assumes inv: "db_invariant db"
    and p: "prepare_application m db r j tt cl ats rep force tc tu tg = Inr (res, db')"
  shows "db_invariant db'"
proof -
  from prepare_application_shape [OF p] show ?thesis
  proof
    assume "is_error res \<and> db' = db"
    with inv show ?thesis by simp
  next
    assume "\<exists>s g e row. res = Prepared (app_seq db + 1) s \<and>
       find_application db r j = None \<and>
       resumes db r \<noteq> None \<and> jobs db j \<noteq> None \<and>
       app_id row = app_seq db + 1 \<and> app_resume_id row = r \<and> app_job_id row = j \<and>
       app_status row = SText ''draft'' \<and> app_created_at row = tc \<and>
       preserves_key g \<and>
       applications db' = map g (applications db @ [row]) \<and>
       app_seq db' = app_seq db + 1 \<and>
       action_log db' = action_log db @ [e] \<and>
       log_action_name e = ''prepare_application'' \<and>
       log_application_id e = Some (app_seq db + 1) \<and> log_confirmed e = 0 \<and>
       log_seq db' = log_seq db + 1 \<and>
       resumes db' = resumes db \<and> jobs db' = jobs db"
    then obtain g row where nf: "find_application db r j = None"
      and row: "app_id row = app_seq db + 1" "app_resume_id row = r" "app_job_id row = j"
        "app_status row = SText ''draft''"
      and g: "preserves_key g"
      and apps: "applications db' = map g (applications db @ [row])"
      and seq: "app_seq db' = app_seq db + 1"
      by blast
    have gk: "\<And>a. app_id (g a) = app_id a" "\<And>a. app_resume_id (g a) = app_resume_id a"
      "\<And>a. app_job_id (g a) = app_job_id a" "\<And>a. app_status (g a) = app_status a"
      using g by (simp_all add: preserves_key_def)
    have ids: "map app_id (applications db') = map app_id (applications db) @ [app_seq db + 1]"
      unfolding apps using row(1) by (simp add: gk)
    have le: "\<forall>a \<in> set (applications db). app_id a \<le> app_seq db"
      using inv by (simp add: db_invariant_def)
    have stat: "\<forall>a \<in> set (applications db).
        app_status a \<in> {SText ''draft'', SText ''submitted'', SText ''cancelled''}"
      using inv by (simp add: db_invariant_def)
    have d: "distinct (map app_id (applications db'))"
      unfolding ids using inv le by (auto simp: db_invariant_def)
    have le': "\<forall>a \<in> set (applications db'). app_id a \<le> app_seq db'"
      unfolding apps seq using le row(1) by (auto simp: gk)
    have stat': "\<forall>a \<in> set (applications db').
        app_status a \<in> {SText ''draft'', SText ''submitted'', SText ''cancelled''}"
      unfolding apps using stat row(4) by (auto simp: gk)
    have none: "non_cancelled db r j = []"
      unfolding non_cancelled_def filter_empty_conv
    proof
      fix a assume a: "a \<in> set (applications db)"
      with stat have "app_status a \<noteq> SNull" by auto
      with nf a show "\<not> (app_resume_id a = r \<and> app_job_id a = j \<and>
                          app_status a \<noteq> SText ''cancelled'')"
        by (auto simp: find_application_None)
    qed
    have len: "length (non_cancelled db' r' j') \<le> 1" for r' j'
    proof -
      have "length (non_cancelled db' r' j')
            = length (filter (\<lambda>a. app_resume_id a = r' \<and> app_job_id a = j' \<and>
                 app_status a \<noteq> SText ''cancelled'') (applications db @ [row]))"
        unfolding non_cancelled_def apps by (rule filter_map_length_eq) (simp add: gk)
      also have "\<dots> = length (non_cancelled db r' j') + (if r' = r \<and> j' = j then 1 else 0)"
        using row by (simp add: non_cancelled_def)
      finally have eq: "length (non_cancelled db' r' j')
            = length (non_cancelled db r' j') + (if r' = r \<and> j' = j then 1 else 0)" .
      have "length (non_cancelled db r' j') \<le> 1"
        using inv by (simp add: db_invariant_def)
      with eq none show ?thesis by (auto split: if_splits)
    qed
    from d le' stat' len show ?thesis by (simp add: db_invariant_def)
  qed
qed

lemma reachable_invariant: "reachable m db \<Longrightarrow> db_invariant db"
proof (induction rule: reachable.induct)
  case (start db)
  then show ?case by (rule invariant_start)
next
  case (prepare db resume_id job_db_id tailored_text cover_letter ats_score ats_report force
      t_create t_update t_log r db')
  then show ?case by (blast intro: invariant_prepare)
next
  case (confirm db aid now t_update t_log r db')
  then show ?case by (blast intro: invariant_confirm)
next
  case (cancel db aid reason t_update t_log r db')
  then show ?case by (blast intro: invariant_cancel)
next
  case (other_tables db rs js)
  then show ?case by (simp add: invariant_other_tables)
qed

lemma newest_singleton_filter:
  "filter P xs = [a] \<Longrightarrow> newest (filter P xs) = Some a"
  by simp

lemma length_le_1_member:
  "length (filter P xs) \<le> 1 \<Longrightarrow> a \<in> set xs \<Longrightarrow> P a \<Longrightarrow> filter P xs = [a]"
proof -
  assume l: "length (filter P xs) \<le> 1" and a: "a \<in> set xs" "P a"
  then have "a \<in> set (filter P xs)" by simp
  with l show ?thesis by (cases "filter P xs") auto
qed

lemma duplicate_guard:
  assumes inv: "db_invariant db"
    and a: "a \<in> set (applications db)" "app_resume_id a = r" "app_job_id a = j"
      "app_status a \<noteq> SText ''cancelled''"
    and rj: "resumes db r \<noteq> None" "jobs db j \<noteq> None"
    and gate: "\<not> (case ats of None \<Rightarrow> False | Some s \<Rightarrow> s < m \<and> \<not> force)"
  shows "prepare_application m db r j tt cl ats rep force tc tu tg
         = Inr (DuplicateApplication (app_id a) (app_status a) (app_created_at a), db)"
proof -
  have stat: "\<forall>a \<in> set (applications db).
        app_status a \<in> {SText ''draft'', SText ''submitted'', SText ''cancelled''}"
    using inv by (simp add: db_invariant_def)
  have same: "filter (\<lambda>a. app_resume_id a = r \<and> app_job_id a = j \<and>
                          app_status a \<noteq> SNull \<and> app_status a \<noteq> SText ''cancelled'')
               (applications db) = non_cancelled db r j"
    unfolding non_cancelled_def using stat by (intro filter_cong) auto
  have "length (non_cancelled db r j) \<le> 1" using inv by (simp add: db_invariant_def)
  then have "non_cancelled db r j = [a]"
    unfolding non_cancelled_def using a by (intro length_le_1_member) auto
  then have f: "find_application db r j = Some a"
    unfolding find_application_def same by simp
  from rj obtain resume job where "resumes db r = Some resume" "jobs db j = Some job"
    by auto
  with f a gate show ?thesis
    unfolding prepare_application_def
    by (auto simp: get_resume_def get_job_def split: option.splits)
qed

section \<open>The claims about the apply agent and the database\<close>

lemma x_prepare:
  "prepare_application 60 x_db0 1 1 None None (Some 80) None False 100 100 100
   = Inr (Prepared 1 x_summary, x_db1)"
  by (simp add: prepare_application_def get_resume_def get_job_def find_application_def
      create_application_def prepare_updates_def update_application_def log_action_def
      x_db0_def x_db1_def x_row_def x_log1_def x_summary_def Let_def)

lemma x_confirm:
  "confirm_apply x_db1 1 ''2026-01-05T09:00:00'' 200 200
   = Inr (Submitted 1 ''2026-01-05T09:00:00'', x_db2)"
  by (simp add: confirm_apply_eq submitted_db_def get_application_def
      x_db0_def x_db1_def x_db2_def x_row_def x_log1_def x_log2_def)

lemma x_reachable0: "reachable 60 x_db0"
  by (rule reachable.start) (simp add: x_db0_def)

lemma x_reachable1: "reachable 60 x_db1"
  using x_reachable0 x_prepare by (rule reachable.prepare)

lemma find_map_key:
  "(\<And>a. app_id (g a) = app_id a) \<Longrightarrow>
   find (\<lambda>a. app_id a = aid) (map g xs) = map_option g (find (\<lambda>a. app_id a = aid) xs)"
  by (induction xs) auto

text \<open>
  C2 (as amended). Each of the three operations returns either an error result, and then the
  database, action log included, is exactly as before; or a success result, and then exactly
  one entry has been appended to the action log, named after the operation and keyed by the
  application id, with the confirmed flag set for \<^verbatim>\<open>confirm_apply\<close> only. A prepare is rejected
  exactly when the score is below the threshold without \<open>force\<close>, or the resume or the job is
  missing, or an application of the pair that is not cancelled exists; otherwise it creates
  the draft. A confirm is rejected exactly when the application is missing or its status is
  neither \<^verbatim>\<open>draft\<close> nor \<^verbatim>\<open>ready\<close>; a cancel exactly when the application is missing. So the
  attempts rejected by a guard are not logged, whether or not a record has been read. The
  integer arguments and the next row ids are taken in SQLite's range.
\<close>

theorem successful_transitions_are_logged:
  assumes "sqlite_int r" and "sqlite_int j" and "sqlite_int aid"
    and "\<forall>s. ats = Some s \<longrightarrow> sqlite_int s"
    and "sqlite_int (app_seq db + 1)" and "sqlite_int (log_seq db + 1)"
  shows
  "(\<exists>res db'. prepare_application m db r j tt cl ats rep force tc tu tg = Inr (res, db') \<and>
      (is_error res \<longleftrightarrow>
         (\<exists>s. ats = Some s \<and> s < m \<and> \<not> force) \<or>
         get_resume db r = None \<or> get_job db j = None \<or>
         (\<exists>a. find_application db r j = Some a \<and> app_status a \<noteq> SText ''cancelled'')) \<and>
      (if is_error res then db' = db
       else (\<exists>s. res = Prepared (app_seq db + 1) s) \<and>
            (\<exists>a \<in> set (applications db').
                app_id a = app_seq db + 1 \<and> app_resume_id a = r \<and> app_job_id a = j \<and>
                app_status a = SText ''draft'') \<and>
            (\<exists>e. action_log db' = action_log db @ [e] \<and>
                 log_action_name e = ''prepare_application'' \<and>
                 log_application_id e = Some (app_seq db + 1) \<and> log_confirmed e = 0)))
   \<and> (\<exists>res db'. confirm_apply db aid now tu tg = Inr (res, db') \<and>
      (is_error res \<longleftrightarrow>
         get_application db aid = None \<or>
         (\<exists>a. get_application db aid = Some a \<and>
              app_status a \<noteq> SText ''draft'' \<and> app_status a \<noteq> SText ''ready'')) \<and>
      (if is_error res then db' = db
       else res = Submitted aid now \<and>
            (\<exists>e. action_log db' = action_log db @ [e] \<and>
                 log_action_name e = ''confirm_apply'' \<and>
                 log_application_id e = Some aid \<and> log_confirmed e = 1)))
   \<and> (\<exists>res db'. cancel_application db aid reason tu tg = Inr (res, db') \<and>
      (is_error res \<longleftrightarrow> get_application db aid = None) \<and>
      (if is_error res then db' = db
       else res = Cancelled aid \<and>
            (\<exists>e. action_log db' = action_log db @ [e] \<and>
                 log_action_name e = ''cancel_application'' \<and>
                 log_application_id e = Some aid \<and> log_confirmed e = 0)))"
proof (intro conjI)
  obtain res db' where p: "prepare_application m db r j tt cl ats rep force tc tu tg = Inr (res, db')"
    using prepare_no_value_error by blast
  have guard: "is_error res \<longleftrightarrow>
         (\<exists>s. ats = Some s \<and> s < m \<and> \<not> force) \<or>
         get_resume db r = None \<or> get_job db j = None \<or>
         (\<exists>a. find_application db r j = Some a \<and> app_status a \<noteq> SText ''cancelled'')"
    using p unfolding prepare_application_def Let_def
    by (auto simp: update_application_valid create_application_def log_action_def Let_def
        split: option.splits prod.splits if_splits)
  have eff: "if is_error res then db' = db
       else (\<exists>s. res = Prepared (app_seq db + 1) s) \<and>
            (\<exists>a \<in> set (applications db').
                app_id a = app_seq db + 1 \<and> app_resume_id a = r \<and> app_job_id a = j \<and>
                app_status a = SText ''draft'') \<and>
            (\<exists>e. action_log db' = action_log db @ [e] \<and>
                 log_action_name e = ''prepare_application'' \<and>
                 log_application_id e = Some (app_seq db + 1) \<and> log_confirmed e = 0)"
  proof (cases "is_error res")
    case True
    with prepare_application_shape [OF p] show ?thesis by auto
  next
    case False
    with prepare_application_shape [OF p] obtain s g e row where
      s: "res = Prepared (app_seq db + 1) s"
      and row: "app_id row = app_seq db + 1" "app_resume_id row = r" "app_job_id row = j"
        "app_status row = SText ''draft''"
      and g: "preserves_key g"
      and apps: "applications db' = map g (applications db @ [row])"
      and lg: "action_log db' = action_log db @ [e]"
        "log_action_name e = ''prepare_application''"
        "log_application_id e = Some (app_seq db + 1)" "log_confirmed e = 0"
      by auto
    have mem: "g row \<in> set (applications db')" unfolding apps by simp
    have gk: "app_id (g row) = app_seq db + 1 \<and> app_resume_id (g row) = r \<and>
        app_job_id (g row) = j \<and> app_status (g row) = SText ''draft''"
      using g row by (simp add: preserves_key_def)
    from False s mem gk lg show ?thesis by auto
  qed
  from p guard eff show "\<exists>res db'. prepare_application m db r j tt cl ats rep force tc tu tg = Inr (res, db') \<and>
      (is_error res \<longleftrightarrow>
         (\<exists>s. ats = Some s \<and> s < m \<and> \<not> force) \<or>
         get_resume db r = None \<or> get_job db j = None \<or>
         (\<exists>a. find_application db r j = Some a \<and> app_status a \<noteq> SText ''cancelled'')) \<and>
      (if is_error res then db' = db
       else (\<exists>s. res = Prepared (app_seq db + 1) s) \<and>
            (\<exists>a \<in> set (applications db').
                app_id a = app_seq db + 1 \<and> app_resume_id a = r \<and> app_job_id a = j \<and>
                app_status a = SText ''draft'') \<and>
            (\<exists>e. action_log db' = action_log db @ [e] \<and>
                 log_action_name e = ''prepare_application'' \<and>
                 log_application_id e = Some (app_seq db + 1) \<and> log_confirmed e = 0))"
    by blast
next
  show "\<exists>res db'. confirm_apply db aid now tu tg = Inr (res, db') \<and>
      (is_error res \<longleftrightarrow>
         get_application db aid = None \<or>
         (\<exists>a. get_application db aid = Some a \<and>
              app_status a \<noteq> SText ''draft'' \<and> app_status a \<noteq> SText ''ready'')) \<and>
      (if is_error res then db' = db
       else res = Submitted aid now \<and>
            (\<exists>e. action_log db' = action_log db @ [e] \<and>
                 log_action_name e = ''confirm_apply'' \<and>
                 log_application_id e = Some aid \<and> log_confirmed e = 1))"
  proof (cases "get_application db aid")
    case None
    then show ?thesis
      by (intro exI [of _ "ApplicationNotFound aid"] exI [of _ db])
         (simp add: confirm_apply_eq)
  next
    case (Some a)
    show ?thesis
    proof (cases "app_status a \<noteq> SText ''draft'' \<and> app_status a \<noteq> SText ''ready''")
      case True
      with Some show ?thesis
        by (intro exI [of _ "InvalidState aid (app_status a)"] exI [of _ db])
           (simp add: confirm_apply_eq)
    next
      case False
      with Some show ?thesis
        by (intro exI [of _ "Submitted aid now"] exI [of _ "submitted_db db aid now tu tg"])
           (auto simp: confirm_apply_eq submitted_db_def)
    qed
  qed
next
  show "\<exists>res db'. cancel_application db aid reason tu tg = Inr (res, db') \<and>
      (is_error res \<longleftrightarrow> get_application db aid = None) \<and>
      (if is_error res then db' = db
       else res = Cancelled aid \<and>
            (\<exists>e. action_log db' = action_log db @ [e] \<and>
                 log_action_name e = ''cancel_application'' \<and>
                 log_application_id e = Some aid \<and> log_confirmed e = 0))"
  proof (cases "get_application db aid")
    case None
    then show ?thesis
      by (intro exI [of _ "ApplicationNotFound aid"] exI [of _ db])
         (simp add: cancel_application_eq)
  next
    case (Some a)
    then show ?thesis
      by (intro exI [of _ "Cancelled aid"] exI [of _ "cancelled_db db aid reason tu tg"])
         (auto simp: cancel_application_eq cancelled_db_def)
  qed
qed

theorem successful_transitions_are_logged_witness:
  "prepare_application 60 x_db0 1 1 None None (Some 80) None False 100 100 100
     = Inr (Prepared 1 x_summary, x_db1)
   \<and> (\<exists>e. action_log x_db1 = action_log x_db0 @ [e] \<and>
           log_action_name e = ''prepare_application'' \<and>
           log_application_id e = Some 1 \<and> log_confirmed e = 0)
   \<and> confirm_apply x_db1 1 ''2026-01-05T09:00:00'' 200 200
     = Inr (Submitted 1 ''2026-01-05T09:00:00'', x_db2)
   \<and> (\<exists>e. action_log x_db2 = action_log x_db1 @ [e] \<and>
           log_action_name e = ''confirm_apply'' \<and>
           log_application_id e = Some 1 \<and> log_confirmed e = 1)
   \<and> (\<exists>db'. cancel_application x_db1 1 ''no'' 300 300 = Inr (Cancelled 1, db') \<and>
           (\<exists>e. action_log db' = action_log x_db1 @ [e] \<and>
                log_action_name e = ''cancel_application'' \<and>
                log_application_id e = Some 1 \<and> log_confirmed e = 0))
   \<and> (\<exists>res. prepare_application 60 x_db1 1 1 None None (Some 80) None False 300 300 300
               = Inr (res, x_db1) \<and> is_error res)
   \<and> (\<exists>res. confirm_apply x_db2 1 ''2026-01-06T09:00:00'' 400 400 = Inr (res, x_db2) \<and>
              is_error res)"
proof -
  have range: "sqlite_int 1" "\<forall>s. Some (80 :: int) = Some s \<longrightarrow> sqlite_int s"
    "sqlite_int (app_seq x_db0 + 1)" "sqlite_int (log_seq x_db0 + 1)"
    "sqlite_int (app_seq x_db1 + 1)" "sqlite_int (log_seq x_db1 + 1)"
    "sqlite_int (app_seq x_db2 + 1)" "sqlite_int (log_seq x_db2 + 1)"
    by (simp_all add: sqlite_int_def x_db0_def x_db1_def x_db2_def)
  note t0 = successful_transitions_are_logged
    [where r = 1 and j = 1 and aid = 1 and ats = "Some 80" and db = x_db0 and m = 60
       and tt = None and cl = None and rep = None and force = False
       and tc = 100 and tu = 100 and tg = 100,
     OF range(1) range(1) range(1) range(2) range(3) range(4)]
  note t1 = successful_transitions_are_logged
    [where r = 1 and j = 1 and aid = 1 and ats = "Some 80" and db = x_db1 and m = 60
       and tt = None and cl = None and rep = None and force = False
       and tc = 300 and tu = 300 and tg = 300,
     OF range(1) range(1) range(1) range(2) range(5) range(6)]
  note t1c = successful_transitions_are_logged
    [where r = 1 and j = 1 and aid = 1 and ats = "Some 80" and db = x_db1 and m = 60
       and tu = 200 and tg = 200 and now = "''2026-01-05T09:00:00''",
     OF range(1) range(1) range(1) range(2) range(5) range(6)]
  note t2 = successful_transitions_are_logged
    [where r = 1 and j = 1 and aid = 1 and ats = "Some 80" and db = x_db2 and m = 60
       and tu = 400 and tg = 400 and now = "''2026-01-06T09:00:00''",
     OF range(1) range(1) range(1) range(2) range(7) range(8)]
  have s0: "app_seq x_db0 + 1 = 1" by (simp add: x_db0_def)
  from t0 x_prepare have a: "\<exists>e. action_log x_db1 = action_log x_db0 @ [e] \<and>
           log_action_name e = ''prepare_application'' \<and>
           log_application_id e = Some 1 \<and> log_confirmed e = 0"
    by (auto simp: s0)
  from t1c x_confirm have b: "\<exists>e. action_log x_db2 = action_log x_db1 @ [e] \<and>
           log_action_name e = ''confirm_apply'' \<and>
           log_application_id e = Some 1 \<and> log_confirmed e = 1"
    by auto
  have g1: "get_application x_db1 1 = Some x_row"
    by (simp add: get_application_def x_db1_def x_db0_def x_row_def)
  from t1 [where reason = "''no''", THEN conjunct2, THEN conjunct2] obtain rc dc where
    cc: "cancel_application x_db1 1 ''no'' 300 300 = Inr (rc, dc) \<and>
      (is_error rc \<longleftrightarrow> get_application x_db1 1 = None) \<and>
      (if is_error rc then dc = x_db1
       else rc = Cancelled 1 \<and>
            (\<exists>e. action_log dc = action_log x_db1 @ [e] \<and>
                 log_action_name e = ''cancel_application'' \<and>
                 log_application_id e = Some 1 \<and> log_confirmed e = 0))"
    by (elim exE) (rule that)
  from cc g1 have "\<not> is_error rc" by simp
  with cc have c: "\<exists>db'. cancel_application x_db1 1 ''no'' 300 300 = Inr (Cancelled 1, db') \<and>
           (\<exists>e. action_log db' = action_log x_db1 @ [e] \<and>
                log_action_name e = ''cancel_application'' \<and>
                log_application_id e = Some 1 \<and> log_confirmed e = 0)"
    by auto
  have f1: "\<exists>a. find_application x_db1 1 1 = Some a \<and> app_status a \<noteq> SText ''cancelled''"
    by (simp add: find_application_def x_db1_def x_db0_def x_row_def)
  from t1 [THEN conjunct1] obtain rp dp where
    pp: "prepare_application 60 x_db1 1 1 None None (Some 80) None False 300 300 300
         = Inr (rp, dp) \<and>
      (is_error rp \<longleftrightarrow>
         (\<exists>s. Some (80 :: int) = Some s \<and> s < 60 \<and> \<not> False) \<or>
         get_resume x_db1 1 = None \<or> get_job x_db1 1 = None \<or>
         (\<exists>a. find_application x_db1 1 1 = Some a \<and> app_status a \<noteq> SText ''cancelled'')) \<and>
      (if is_error rp then dp = x_db1
       else (\<exists>s. rp = Prepared (app_seq x_db1 + 1) s) \<and>
            (\<exists>a \<in> set (applications dp).
                app_id a = app_seq x_db1 + 1 \<and> app_resume_id a = 1 \<and> app_job_id a = 1 \<and>
                app_status a = SText ''draft'') \<and>
            (\<exists>e. action_log dp = action_log x_db1 @ [e] \<and>
                 log_action_name e = ''prepare_application'' \<and>
                 log_application_id e = Some (app_seq x_db1 + 1) \<and> log_confirmed e = 0))"
    by (elim exE) (rule that)
  from pp f1 have ep: "is_error rp" by blast
  with pp have "dp = x_db1" by simp
  with pp ep have d: "\<exists>res. prepare_application 60 x_db1 1 1 None None (Some 80) None False
                 300 300 300 = Inr (res, x_db1) \<and> is_error res"
    by blast
  have g2: "\<exists>a. get_application x_db2 1 = Some a \<and>
              app_status a \<noteq> SText ''draft'' \<and> app_status a \<noteq> SText ''ready''"
    by (simp add: get_application_def x_db2_def x_db1_def x_db0_def x_row_def)
  from t2 [THEN conjunct2, THEN conjunct1] obtain rf df where
    qq: "confirm_apply x_db2 1 ''2026-01-06T09:00:00'' 400 400 = Inr (rf, df) \<and>
      (is_error rf \<longleftrightarrow>
         get_application x_db2 1 = None \<or>
         (\<exists>a. get_application x_db2 1 = Some a \<and>
              app_status a \<noteq> SText ''draft'' \<and> app_status a \<noteq> SText ''ready'')) \<and>
      (if is_error rf then df = x_db2
       else rf = Submitted 1 ''2026-01-06T09:00:00'' \<and>
            (\<exists>e. action_log df = action_log x_db2 @ [e] \<and>
                 log_action_name e = ''confirm_apply'' \<and>
                 log_application_id e = Some 1 \<and> log_confirmed e = 1))"
    by (elim exE) (rule that)
  from qq g2 have eq: "is_error rf" by blast
  with qq have "df = x_db2" by simp
  with qq eq have e: "\<exists>res. confirm_apply x_db2 1 ''2026-01-06T09:00:00'' 400 400
        = Inr (res, x_db2) \<and> is_error res"
    by blast
  from x_prepare a x_confirm b c d e show ?thesis by blast
qed

text \<open>
  C2 as stated fails: on \<open>x_db1\<close> a second prepare for the same pair is rejected by the
  duplicate guard, and on \<open>x_db2\<close> a second confirm is rejected for the state of the record;
  both have read the record, and both return the database, hence the action log, unchanged.
\<close>

theorem rejected_attempts_write_no_log_entry:
  "prepare_application 60 x_db1 1 1 None None (Some 80) None False 300 300 300
     = Inr (DuplicateApplication 1 (SText ''draft'') 100, x_db1)
   \<and> confirm_apply x_db2 1 ''2026-01-06T09:00:00'' 400 400
     = Inr (InvalidState 1 (SText ''submitted''), x_db2)"
  by (simp add: prepare_application_def get_resume_def get_job_def find_application_def
      confirm_apply_eq get_application_def
      x_db0_def x_db1_def x_db2_def x_row_def)

text \<open>
  C3. In every state reachable through the agent, each pair of a resume and a job has at
  most one application that is not cancelled. When a prepare has created an application, a
  further prepare for the same pair (same score and force flag, any other arguments) returns
  the duplicate error with the id, the status \<^verbatim>\<open>draft\<close> and the creation time of that
  application and leaves the database as it is; more generally, as long as a non-cancelled
  application of the pair exists, a prepare that passes the threshold and finds the resume
  and the job returns the duplicate error carrying its id and status, and creates nothing.
\<close>

theorem at_most_one_non_cancelled_application:
  "reachable m db \<longrightarrow>
     length (non_cancelled db r' j') \<le> 1
   \<and> (\<forall>aid s db1.
        prepare_application m db r j tt cl ats rep force tc tu tg = Inr (Prepared aid s, db1) \<longrightarrow>
        prepare_application m db1 r j tt2 cl2 ats rep2 force tc2 tu2 tg2
          = Inr (DuplicateApplication aid (SText ''draft'') tc, db1))
   \<and> (\<forall>a. a \<in> set (applications db) \<and> app_resume_id a = r \<and> app_job_id a = j \<and>
           app_status a \<noteq> SText ''cancelled'' \<and>
           resumes db r \<noteq> None \<and> jobs db j \<noteq> None \<and>
           (case ats of None \<Rightarrow> True | Some s \<Rightarrow> m \<le> s \<or> force) \<longrightarrow>
        prepare_application m db r j tt cl ats rep force tc tu tg
          = Inr (DuplicateApplication (app_id a) (app_status a) (app_created_at a), db))"
proof
  assume reach: "reachable m db"
  then have inv: "db_invariant db" by (rule reachable_invariant)
  have one: "length (non_cancelled db r' j') \<le> 1"
    using inv by (simp add: db_invariant_def)
  have second: "\<forall>aid s db1.
        prepare_application m db r j tt cl ats rep force tc tu tg = Inr (Prepared aid s, db1) \<longrightarrow>
        prepare_application m db1 r j tt2 cl2 ats rep2 force tc2 tu2 tg2
          = Inr (DuplicateApplication aid (SText ''draft'') tc, db1)"
  proof (intro allI impI)
    fix aid s db1
    assume p: "prepare_application m db r j tt cl ats rep force tc tu tg
               = Inr (Prepared aid s, db1)"
    from prepare_application_shape [OF p] obtain g row where
      aid: "aid = app_seq db + 1"
      and rj: "resumes db r \<noteq> None" "jobs db j \<noteq> None"
      and row: "app_id row = app_seq db + 1" "app_resume_id row = r" "app_job_id row = j"
        "app_status row = SText ''draft''" "app_created_at row = tc"
      and g: "preserves_key g"
      and apps: "applications db1 = map g (applications db @ [row])"
      and tabs: "resumes db1 = resumes db" "jobs db1 = jobs db"
      by auto
    have gate: "\<not> (case ats of None \<Rightarrow> False | Some s \<Rightarrow> s < m \<and> \<not> force)"
      using p unfolding prepare_application_def
      by (auto split: option.splits if_splits)
    have inv1: "db_invariant db1" using inv p by (rule invariant_prepare)
    have gk: "app_id (g row) = app_id row" "app_resume_id (g row) = app_resume_id row"
      "app_job_id (g row) = app_job_id row" "app_status (g row) = app_status row"
      "app_created_at (g row) = app_created_at row"
      using g by (simp_all add: preserves_key_def)
    have mem: "g row \<in> set (applications db1)" unfolding apps by simp
    have "prepare_application m db1 r j tt2 cl2 ats rep2 force tc2 tu2 tg2
          = Inr (DuplicateApplication (app_id (g row)) (app_status (g row))
                   (app_created_at (g row)), db1)"
      using inv1 mem
      by (rule duplicate_guard) (simp_all add: gk row rj tabs gate)
    then show "prepare_application m db1 r j tt2 cl2 ats rep2 force tc2 tu2 tg2
          = Inr (DuplicateApplication aid (SText ''draft'') tc, db1)"
      by (simp add: gk row aid)
  qed
  have third: "\<forall>a. a \<in> set (applications db) \<and> app_resume_id a = r \<and> app_job_id a = j \<and>
           app_status a \<noteq> SText ''cancelled'' \<and>
           resumes db r \<noteq> None \<and> jobs db j \<noteq> None \<and>
           (case ats of None \<Rightarrow> True | Some s \<Rightarrow> m \<le> s \<or> force) \<longrightarrow>
        prepare_application m db r j tt cl ats rep force tc tu tg
          = Inr (DuplicateApplication (app_id a) (app_status a) (app_created_at a), db)"
  proof (intro allI impI)
    fix a
    assume h: "a \<in> set (applications db) \<and> app_resume_id a = r \<and> app_job_id a = j \<and>
           app_status a \<noteq> SText ''cancelled'' \<and>
           resumes db r \<noteq> None \<and> jobs db j \<noteq> None \<and>
           (case ats of None \<Rightarrow> True | Some s \<Rightarrow> m \<le> s \<or> force)"
    then have gate: "\<not> (case ats of None \<Rightarrow> False | Some s \<Rightarrow> s < m \<and> \<not> force)"
      by (auto split: option.splits)
    from inv show "prepare_application m db r j tt cl ats rep force tc tu tg
          = Inr (DuplicateApplication (app_id a) (app_status a) (app_created_at a), db)"
      by (rule duplicate_guard) (use h gate in simp_all)
  qed
  from one second third show "length (non_cancelled db r' j') \<le> 1
   \<and> (\<forall>aid s db1.
        prepare_application m db r j tt cl ats rep force tc tu tg = Inr (Prepared aid s, db1) \<longrightarrow>
        prepare_application m db1 r j tt2 cl2 ats rep2 force tc2 tu2 tg2
          = Inr (DuplicateApplication aid (SText ''draft'') tc, db1))
   \<and> (\<forall>a. a \<in> set (applications db) \<and> app_resume_id a = r \<and> app_job_id a = j \<and>
           app_status a \<noteq> SText ''cancelled'' \<and>
           resumes db r \<noteq> None \<and> jobs db j \<noteq> None \<and>
           (case ats of None \<Rightarrow> True | Some s \<Rightarrow> m \<le> s \<or> force) \<longrightarrow>
        prepare_application m db r j tt cl ats rep force tc tu tg
          = Inr (DuplicateApplication (app_id a) (app_status a) (app_created_at a), db))"
    by blast
qed

theorem at_most_one_non_cancelled_application_witness:
  "reachable 60 x_db0 \<and> reachable 60 x_db1
   \<and> prepare_application 60 x_db0 1 1 None None (Some 80) None False 100 100 100
       = Inr (Prepared 1 x_summary, x_db1)
   \<and> length (non_cancelled x_db1 1 1) \<le> 1
   \<and> prepare_application 60 x_db1 1 1 (Some ''text'') None (Some 80) None False 300 300 300
       = Inr (DuplicateApplication 1 (SText ''draft'') 100, x_db1)
   \<and> x_row \<in> set (applications x_db1) \<and> app_resume_id x_row = 1 \<and> app_job_id x_row = 1
   \<and> app_status x_row \<noteq> SText ''cancelled''
   \<and> resumes x_db1 1 \<noteq> None \<and> jobs x_db1 1 \<noteq> None
   \<and> prepare_application 60 x_db1 1 1 None None None None False 500 500 500
       = Inr (DuplicateApplication (app_id x_row) (app_status x_row) (app_created_at x_row),
              x_db1)"
proof -
  have a: "prepare_application 60 x_db1 1 1 (Some ''text'') None (Some 80) None False 300 300 300
       = Inr (DuplicateApplication 1 (SText ''draft'') 100, x_db1)"
    using at_most_one_non_cancelled_application
      [of 60 x_db0 1 1 1 1 None None "Some 80" None False 100 100 100
          "Some ''text''" None None 300 300 300]
      x_reachable0 x_prepare by blast
  have b: "length (non_cancelled x_db1 1 1) \<le> 1"
    using at_most_one_non_cancelled_application
      [of 60 x_db1 1 1 1 1 None None None None False 500 500 500 None None None 0 0 0]
      x_reachable1 by blast
  have h: "x_row \<in> set (applications x_db1) \<and> app_resume_id x_row = 1 \<and> app_job_id x_row = 1
      \<and> app_status x_row \<noteq> SText ''cancelled''
      \<and> resumes x_db1 1 \<noteq> None \<and> jobs x_db1 1 \<noteq> None
      \<and> (case None of None \<Rightarrow> True | Some s \<Rightarrow> (60::int) \<le> s \<or> False)"
    by (simp add: x_db1_def x_db0_def x_row_def)
  have c: "prepare_application 60 x_db1 1 1 None None None None False 500 500 500
       = Inr (DuplicateApplication (app_id x_row) (app_status x_row) (app_created_at x_row),
              x_db1)"
    using at_most_one_non_cancelled_application
      [of 60 x_db1 1 1 1 1 None None None None False 500 500 500 None None None 0 0 0]
      x_reachable1 h by blast
  from x_reachable0 x_reachable1 x_prepare a b c h show ?thesis by simp
qed

text \<open>
  C4. For an existing application, \<^verbatim>\<open>confirm_apply\<close> in a state other than \<^verbatim>\<open>draft\<close> and
  \<^verbatim>\<open>ready\<close> returns the error carrying that state and leaves the database unchanged; in
  \<^verbatim>\<open>draft\<close> or \<^verbatim>\<open>ready\<close> it returns the submitted result with the one timestamp \<open>now\<close>, the
  record then has status \<^verbatim>\<open>submitted\<close> and \<^verbatim>\<open>applied_at\<close> = \<open>now\<close>, and the entry appended to the
  log is confirmed and has \<^verbatim>\<open>confirmed_at\<close> = \<open>now\<close>; and a submitted result is returned in no
  other state.
\<close>

theorem confirm_apply_only_from_draft_or_ready:
  "get_application db aid = Some app \<longrightarrow>
     (app_status app \<noteq> SText ''draft'' \<and> app_status app \<noteq> SText ''ready'' \<longrightarrow>
        confirm_apply db aid now tu tg = Inr (InvalidState aid (app_status app), db))
   \<and> (app_status app = SText ''draft'' \<or> app_status app = SText ''ready'' \<longrightarrow>
        (\<exists>db' e. confirm_apply db aid now tu tg = Inr (Submitted aid now, db') \<and>
           get_application db' aid
             = Some (app\<lparr>app_status := SText ''submitted'', app_applied_at := SText now,
                         app_updated_at := tu\<rparr>) \<and>
           action_log db' = action_log db @ [e] \<and>
           log_action_name e = ''confirm_apply'' \<and>
           log_details e = Some [(''app_id'', PInt aid), (''confirmed_at'', PStr now)] \<and>
           log_application_id e = Some aid \<and> log_confirmed e = 1))
   \<and> (\<forall>t db'. confirm_apply db aid now tu tg = Inr (Submitted aid t, db') \<longrightarrow>
          app_status app = SText ''draft'' \<or> app_status app = SText ''ready'')"
proof (intro impI conjI allI)
  assume "get_application db aid = Some app"
    and "app_status app \<noteq> SText ''draft'' \<and> app_status app \<noteq> SText ''ready''"
  then show "confirm_apply db aid now tu tg = Inr (InvalidState aid (app_status app), db)"
    by (simp add: confirm_apply_eq)
next
  assume app: "get_application db aid = Some app"
    and st: "app_status app = SText ''draft'' \<or> app_status app = SText ''ready''"
  let ?g = "\<lambda>a. if app_id a = aid
                   then a\<lparr>app_status := SText ''submitted'', app_applied_at := SText now,
                          app_updated_at := tu\<rparr>
                   else a"
  have c: "confirm_apply db aid now tu tg
           = Inr (Submitted aid now, submitted_db db aid now tu tg)"
    using app st by (auto simp: confirm_apply_eq)
  have id: "app_id app = aid"
    using app unfolding get_application_def by (auto dest: find_Some_iff [THEN iffD1])
  have "find (\<lambda>a. app_id a = aid) (map ?g (applications db))
        = map_option ?g (find (\<lambda>a. app_id a = aid) (applications db))"
    by (rule find_map_key) simp
  then have g: "get_application (submitted_db db aid now tu tg) aid
        = Some (app\<lparr>app_status := SText ''submitted'', app_applied_at := SText now,
                         app_updated_at := tu\<rparr>)"
    using app id by (simp add: get_application_def submitted_db_def)
  show "\<exists>db' e. confirm_apply db aid now tu tg = Inr (Submitted aid now, db') \<and>
           get_application db' aid
             = Some (app\<lparr>app_status := SText ''submitted'', app_applied_at := SText now,
                         app_updated_at := tu\<rparr>) \<and>
           action_log db' = action_log db @ [e] \<and>
           log_action_name e = ''confirm_apply'' \<and>
           log_details e = Some [(''app_id'', PInt aid), (''confirmed_at'', PStr now)] \<and>
           log_application_id e = Some aid \<and> log_confirmed e = 1"
    using c g by (simp add: submitted_db_def)
next
  fix t db'
  assume "get_application db aid = Some app"
    and "confirm_apply db aid now tu tg = Inr (Submitted aid t, db')"
  then show "app_status app = SText ''draft'' \<or> app_status app = SText ''ready''"
    by (auto simp: confirm_apply_eq split: if_splits)
qed

theorem confirm_apply_only_from_draft_or_ready_witness:
  "get_application x_db1 1 = Some x_row
   \<and> app_status x_row = SText ''draft''
   \<and> confirm_apply x_db1 1 ''2026-01-05T09:00:00'' 200 200
       = Inr (Submitted 1 ''2026-01-05T09:00:00'', x_db2)
   \<and> get_application x_db2 1
       = Some (x_row\<lparr>app_status := SText ''submitted'',
                     app_applied_at := SText ''2026-01-05T09:00:00'', app_updated_at := 200\<rparr>)
   \<and> app_status (x_row\<lparr>app_status := SText ''submitted'',
                     app_applied_at := SText ''2026-01-05T09:00:00'', app_updated_at := 200\<rparr>)
       \<noteq> SText ''draft''
   \<and> confirm_apply x_db2 1 ''2026-01-06T09:00:00'' 400 400
       = Inr (InvalidState 1 (SText ''submitted''), x_db2)"
proof -
  have g1: "get_application x_db1 1 = Some x_row"
    by (simp add: get_application_def x_db1_def x_db0_def x_row_def)
  have g2: "get_application x_db2 1
       = Some (x_row\<lparr>app_status := SText ''submitted'',
                     app_applied_at := SText ''2026-01-05T09:00:00'', app_updated_at := 200\<rparr>)"
    by (simp add: get_application_def x_db2_def x_db1_def x_db0_def x_row_def)
  have s1: "app_status x_row = SText ''draft''" by (simp add: x_row_def)
  have "\<exists>db' e. confirm_apply x_db1 1 ''2026-01-05T09:00:00'' 200 200
                   = Inr (Submitted 1 ''2026-01-05T09:00:00'', db')"
    using confirm_apply_only_from_draft_or_ready
      [of x_db1 1 x_row "''2026-01-05T09:00:00''" 200 200] g1 s1 by blast
  then have c1: "confirm_apply x_db1 1 ''2026-01-05T09:00:00'' 200 200
       = Inr (Submitted 1 ''2026-01-05T09:00:00'', x_db2)"
    using x_confirm by simp
  have c2: "confirm_apply x_db2 1 ''2026-01-06T09:00:00'' 400 400
       = Inr (InvalidState 1 (SText ''submitted''), x_db2)"
    using confirm_apply_only_from_draft_or_ready
      [of x_db2 1 "x_row\<lparr>app_status := SText ''submitted'',
                     app_applied_at := SText ''2026-01-05T09:00:00'', app_updated_at := 200\<rparr>"
          "''2026-01-06T09:00:00''" 400 400] g2
    by simp
  from g1 g2 s1 c1 c2 show ?thesis by simp
qed

text \<open>
  C5 (as amended). The whitelist is the set of the eight column names. A call whose keys all
  lie in it returns normally; a call with a key outside it raises \<^verbatim>\<open>ValueError\<close> carrying the
  offending keys, with the database as it was before the call.
\<close>

theorem update_application_whitelist:
  "APPLICATION_UPDATABLE_COLUMNS =
     {''status'', ''ats_score'', ''ats_report'', ''tailored_text'',
      ''cover_letter'', ''applied_at'', ''platform'', ''notes''}
   \<and> (fst ` set kwargs \<subseteq> APPLICATION_UPDATABLE_COLUMNS \<longrightarrow>
        (\<exists>db'. update_application db aid kwargs t = Inr db'))
   \<and> (\<not> fst ` set kwargs \<subseteq> APPLICATION_UPDATABLE_COLUMNS \<longrightarrow>
        update_application db aid kwargs t
          = Inl (ValueError (fst ` set kwargs - APPLICATION_UPDATABLE_COLUMNS), db))"
  by (simp add: update_application_valid update_application_invalid)
    (simp add: APPLICATION_UPDATABLE_COLUMNS_def)

theorem update_application_whitelist_witness:
  "fst ` set [(''status'', PStr ''ready''), (''notes'', PStr ''n'')] \<subseteq> APPLICATION_UPDATABLE_COLUMNS
   \<and> (\<exists>db'. update_application x_db1 1 [(''status'', PStr ''ready''), (''notes'', PStr ''n'')] 300
              = Inr db')
   \<and> \<not> fst ` set [(''status'', PStr ''ready''), (''id'', PInt 7)] \<subseteq> APPLICATION_UPDATABLE_COLUMNS
   \<and> update_application x_db1 1 [(''status'', PStr ''ready''), (''id'', PInt 7)] 300
       = Inl (ValueError {''id''}, x_db1)"
proof -
  have v: "fst ` set [(''status'', PStr ''ready''), (''notes'', PStr ''n'')]
           \<subseteq> APPLICATION_UPDATABLE_COLUMNS"
    by (simp add: APPLICATION_UPDATABLE_COLUMNS_def)
  have i: "\<not> fst ` set [(''status'', PStr ''ready''), (''id'', PInt 7)]
             \<subseteq> APPLICATION_UPDATABLE_COLUMNS"
    by (simp add: APPLICATION_UPDATABLE_COLUMNS_def)
  have d: "fst ` set [(''status'', PStr ''ready''), (''id'', PInt 7)]
             - APPLICATION_UPDATABLE_COLUMNS = {''id''}"
    by (auto simp: APPLICATION_UPDATABLE_COLUMNS_def)
  have a: "\<exists>db'. update_application x_db1 1 [(''status'', PStr ''ready''), (''notes'', PStr ''n'')] 300
              = Inr db'"
    using update_application_whitelist
      [of "[(''status'', PStr ''ready''), (''notes'', PStr ''n'')]" x_db1 1 300] v by blast
  have b: "update_application x_db1 1 [(''status'', PStr ''ready''), (''id'', PInt 7)] 300
       = Inl (ValueError {''id''}, x_db1)"
    using update_application_whitelist
      [of "[(''status'', PStr ''ready''), (''id'', PInt 7)]" x_db1 1 300] i d by simp
  from v i a b show ?thesis by blast
qed

text \<open>
  C5 as stated fails: the rejection is an exception leaving the function, not a returned
  error payload.
\<close>

theorem update_application_raises:
  "update_application x_db1 1 [(''id'', PInt 7)] 300 = Inl (ValueError {''id''}, x_db1)"
  by (simp add: update_application_def APPLICATION_UPDATABLE_COLUMNS_def Let_def)

section \<open>Properties of the three scoring layers\<close>

lemma header_loop_penalty: "p \<le> snd (header_loop hs iss p)"
  by (induction hs iss p rule: header_loop.induct) (auto split: if_splits)

lemma warning_loop_penalty: "p \<le> snd (warning_loop ws iss p)"
  by (induction ws iss p rule: warning_loop.induct) (auto split: if_splits)

lemma check_section_headers_range:
  "0 \<le> snd (check_section_headers rd) \<and> snd (check_section_headers rd) \<le> 3"
  using header_loop_penalty [of 0 "section_headers rd" "[]"]
  by (auto simp: check_section_headers_def split: prod.splits)

lemma check_contact_placement_range:
  "0 \<le> snd (check_contact_placement rd) \<and> snd (check_contact_placement rd) \<le> 2"
  using warning_loop_penalty [of 0 "metadata_warnings rd" "[]"]
  by (auto simp: check_contact_placement_def split: prod.splits)

lemma check_layout_range: "0 \<le> snd (check_layout rd) \<and> snd (check_layout rd) \<le> 2"
  by (simp add: check_layout_def)

lemma check_bullets_range: "0 \<le> snd (check_bullets rd) \<and> snd (check_bullets rd) \<le> 1"
  by (simp add: check_bullets_def Let_def)

lemma formatter_check_range:
  "0 \<le> f_score (formatter_check rd) \<and> f_score (formatter_check rd) \<le> 20 \<and>
   f_max_score (formatter_check rd) = 20"
  using check_section_headers_range [of rd] check_contact_placement_range [of rd]
    check_layout_range [of rd] check_bullets_range [of rd]
  by (auto simp: formatter_check_def build_result_def FORMATTER_MAX_SCORE_def Let_def
      split: option.splits prod.splits)

lemma density_loop_eq:
  "density_loop rt (length (split (lower rt))) ks iss b =
     (iss @ map density_warning (filter (stuffed rt) ks),
      b + int (length (filter (rewarded rt) ks)))"
proof (induction ks arbitrary: iss b)
  case Nil
  then show ?case by simp
next
  case (Cons k ks)
  have excl: "stuffed rt k \<Longrightarrow> \<not> rewarded rt k"
    by (simp add: stuffed_def rewarded_def KEYWORD_DENSITY_STUFFING_def
        KEYWORD_DENSITY_OPTIMAL_MAX_def)
  show ?case
  proof (cases "stuffed rt k")
    case True
    with excl have "\<not> rewarded rt k" by simp
    with True Cons show ?thesis
      by (simp add: Let_def stuffed_def density_def density_warning_def)
  next
    case False
    show ?thesis
    proof (cases "rewarded rt k")
      case True
      with False Cons show ?thesis
        by (simp add: Let_def stuffed_def rewarded_def density_def)
    next
      case nr: False
      with False Cons show ?thesis
        by (auto simp: Let_def stuffed_def rewarded_def density_def)
    qed
  qed
qed

lemma check_density_eq:
  "split (lower rt) \<noteq> [] \<Longrightarrow>
   check_density ks rt =
     (map density_warning (filter (stuffed rt) ks),
      min (int (length (filter (rewarded rt) ks))) 5)"
  by (simp add: check_density_def Let_def density_loop_eq)

lemma check_density_range:
  "0 \<le> snd (check_density ks rt) \<and> snd (check_density ks rt) \<le> 5"
  by (cases "split (lower rt) = []") (simp_all add: check_density_eq, simp add: check_density_def)

lemma placement_loop_score: "s \<le> placement_loop a b c ks s"
proof (induction a b c ks s rule: placement_loop.induct)
  case (1 a b c s)
  then show ?case by simp
next
  case (2 a b c k ks s)
  then show ?case
    by (auto simp: Let_def PLACEMENT_TITLE_def PLACEMENT_EXPERIENCE_def PLACEMENT_SKILLS_def
        split: if_splits)
qed

lemma score_placement_nonneg: "0 \<le> score_placement ks secs"
  by (simp add: score_placement_def Let_def placement_loop_score)


lemma filter_split_le:
  "length (filter P xs) + length (filter (\<lambda>x. \<not> P x \<and> Q x) xs) \<le> length xs"
  by (induction xs) auto

lemma round_half_even_range:
  assumes "0 \<le> x" "x \<le> of_int n"
  shows "0 \<le> round_half_even x \<and> round_half_even x \<le> n"
proof -
  have f0: "0 \<le> \<lfloor>x\<rfloor>" using assms(1) by simp
  have fn: "\<lfloor>x\<rfloor> \<le> n" using assms(2) by (simp add: floor_le_iff)
  have up: "x - of_int \<lfloor>x\<rfloor> \<ge> 1 / 2 \<Longrightarrow> \<lfloor>x\<rfloor> + 1 \<le> n"
  proof -
    assume "x - of_int \<lfloor>x\<rfloor> \<ge> 1 / 2"
    then have "of_int \<lfloor>x\<rfloor> < (of_int n :: rat)" using assms(2) by linarith
    then show ?thesis by simp
  qed
  show ?thesis
    using f0 fn up by (auto simp: round_half_even_def Let_def)
qed

lemma exponent_from_le: "exponent_from k e x \<le> e"
proof (induction k arbitrary: e)
  case 0
  then show ?case by simp
next
  case (Suc k)
  have "exponent_from k (e - 1) x \<le> e - 1" by (rule Suc.IH)
  then show ?case by simp
qed

lemma double_exponent_le:
  assumes "0 \<le> x" "x \<le> 100"
  shows "double_exponent x \<le> 0"
proof -
  have "\<lfloor>x\<rfloor> \<le> 100" using assms(2) by (simp add: floor_le_iff)
  then have "\<lfloor>x\<rfloor> < 2 ^ nat 7" by simp
  then have "bitlen \<lfloor>x\<rfloor> \<le> 7" by (simp only: bitlen_le_iff_power) simp
  moreover have "double_exponent x \<le> bitlen \<lfloor>x\<rfloor> - 53"
    unfolding double_exponent_def Let_def by (rule exponent_from_le)
  ultimately show ?thesis by simp
qed

lemma to_double_range:
  assumes "0 \<le> x" "x \<le> of_int n" "n \<le> 100"
  shows "0 \<le> to_double x \<and> to_double x \<le> of_int n"
proof -
  define e where "e = double_exponent \<bar>x\<bar>"
  define k where "k = nat (- e)"
  have "(of_int n :: rat) \<le> of_int 100" using assms(3) by (simp only: of_int_le_iff)
  then have "x \<le> 100" using assms(2) by simp
  then have e0: "e \<le> 0" unfolding e_def using assms(1) double_exponent_le [of "\<bar>x\<bar>"] by simp
  have p: "pow2 e = 1 / 2 ^ k"
  proof (cases "e = 0")
    case True
    then show ?thesis by (simp add: pow2_def k_def)
  next
    case False
    with e0 show ?thesis by (simp add: pow2_def k_def)
  qed
  have q: "x / pow2 e = x * 2 ^ k" by (simp add: p)
  have "x * 2 ^ k \<le> of_int n * 2 ^ k" using assms(2) by simp
  then have le: "x * 2 ^ k \<le> of_int (n * 2 ^ k)" by simp
  have ge: "0 \<le> x * 2 ^ k" using assms(1) by simp
  have r: "0 \<le> round_half_even (x * 2 ^ k) \<and> round_half_even (x * 2 ^ k) \<le> n * 2 ^ k"
    using ge le by (rule round_half_even_range)
  have t: "to_double x = of_int (round_half_even (x * 2 ^ k)) / 2 ^ k"
  proof (cases "x = 0")
    case True
    then show ?thesis by (simp add: to_double_def round_half_even_def)
  next
    case False
    then show ?thesis
      by (simp add: to_double_def Let_def e_def [symmetric] q) (simp add: p)
  qed
  have "(of_int (round_half_even (x * 2 ^ k)) :: rat) \<le> of_int (n * 2 ^ k)"
    using r by (simp only: of_int_le_iff)
  then have "(of_int (round_half_even (x * 2 ^ k)) :: rat) / 2 ^ k \<le> of_int n"
    by (simp add: divide_le_eq)
  moreover have "0 \<le> (of_int (round_half_even (x * 2 ^ k)) :: rat) / 2 ^ k"
    using r by simp
  ultimately show ?thesis by (simp add: t)
qed

lemma truediv_range:
  assumes "m \<le> n" "0 < n"
  shows "\<exists>q. truediv m n = Inr q \<and> 0 \<le> q \<and> q \<le> 1"
proof -
  have "(of_nat m :: rat) / of_nat n \<le> 1" using assms by (simp add: divide_le_eq_1)
  then have "0 \<le> to_double (of_nat m / of_nat n) \<and> to_double (of_nat m / of_nat n) \<le> of_int 1"
    by (intro to_double_range) simp_all
  then show ?thesis using assms(2) by (simp add: truediv_def)
qed

lemma float_mul_range:
  assumes "0 \<le> q" "q \<le> 1"
  shows "0 \<le> float_mul q 100 \<and> float_mul q 100 \<le> 100"
proof -
  have "q * 100 \<le> 1 * 100" using assms(2) by (rule mult_right_mono) simp
  then have "0 \<le> to_double (q * 100) \<and> to_double (q * 100) \<le> of_int 100"
    using assms(1) by (intro to_double_range) simp_all
  then show ?thesis by (simp add: float_mul_def)
qed

lemma round1_range: "0 \<le> x \<Longrightarrow> x \<le> 100 \<Longrightarrow> 0 \<le> round1 x \<and> round1 x \<le> 100"
proof -
  assume x: "0 \<le> x" "x \<le> 100"
  have r: "0 \<le> round_half_even (x * 10) \<and> round_half_even (x * 10) \<le> 1000"
    using x by (intro round_half_even_range) simp_all
  then have "(of_int (round_half_even (x * 10)) :: rat) \<le> of_int 1000"
    by (simp only: of_int_le_iff)
  then have "(of_int (round_half_even (x * 10)) :: rat) / 10 \<le> of_int 100" by simp
  moreover have "0 \<le> (of_int (round_half_even (x * 10)) :: rat) / 10" using r by simp
  ultimately have "0 \<le> to_double (of_int (round_half_even (x * 10)) / 10) \<and>
      to_double (of_int (round_half_even (x * 10)) / 10) \<le> of_int 100"
    by (intro to_double_range) simp_all
  then show ?thesis by (simp add: round1_def)
qed

lemma to_double_zero: "to_double 0 = 0"
  by (simp add: to_double_def)

lemma round1_zero: "round1 0 = 0"
  by (simp add: round1_def round_half_even_def to_double_zero)

lemma match_ratio_eq:
  "match_ratio m n
   = Inr (if n = 0 then 0 else float_mul (to_double (of_nat m / of_nat n)) 100)"
  by (simp add: match_ratio_def truediv_def)

lemma match_ratio_range:
  assumes "m \<le> n"
  shows "\<exists>p. match_ratio m n = Inr p \<and> 0 \<le> p \<and> p \<le> 100"
proof (cases "n = 0")
  case True
  then show ?thesis by (simp add: match_ratio_def)
next
  case False
  then obtain q where q: "truediv m n = Inr q" "0 \<le> q" "q \<le> 1"
    using truediv_range [OF assms] by auto
  from float_mul_range [OF q(2,3)] q(1) False show ?thesis by (simp add: match_ratio_def)
qed

lemma keyword_score_fields:
  "\<exists>r. keyword_score jd re rt secs = Inr r \<and>
     k_max_score r = 60 \<and>
     total_jd_keywords r = length (jd_all jd) \<and>
     matched_keywords r = filter (\<lambda>k. k \<in> set (map lower (hard_skills re))) (jd_all jd) \<and>
     inferred_matches r
       = filter (\<lambda>k. k \<notin> set (map lower (hard_skills re)) \<and>
                     k \<in> set (map inferred_skill (inferred_skills re))) (jd_all jd) \<and>
     total_matched r = length (matched_keywords r) + length (inferred_matches r) \<and>
     match_percentage r =
       (if total_jd_keywords r = 0 then 0
        else round1 (float_mul (to_double (of_nat (total_matched r) /
                                           of_nat (total_jd_keywords r))) 100)) \<and>
     k_score r \<le> 60 \<and>
     (\<exists>x. 0 \<le> x \<and> k_score r = min x 60)"
proof -
  obtain di db where cd: "check_density (jd_all jd) rt = (di, db)"
    by (cases "check_density (jd_all jd) rt")
  have db: "0 \<le> db" using check_density_range [of "jd_all jd" rt] cd by simp
  have pl: "\<And>ks s. 0 \<le> min (score_placement ks s) 10"
    using score_placement_nonneg by simp
  let ?s3 = "0 + (min (int (length (filter (\<lambda>k. k \<in> set (map lower (hard_skills re))) (jd_all jd)))
                   * EXACT_MATCH_POINTS) 30
             + min (int (length (filter (\<lambda>k. k \<notin> set (map lower (hard_skills re)) \<and>
                     k \<in> set (map inferred_skill (inferred_skills re))) (jd_all jd)))
                   * INFERRED_MATCH_POINTS) 10)
             + min (int (count_severity Pass (check_acronyms (acronyms jd) rt)) * ACRONYM_BONUS) 5
             + db"
  have s3: "0 \<le> ?s3"
    using db by (simp add: EXACT_MATCH_POINTS_def INFERRED_MATCH_POINTS_def ACRONYM_BONUS_def)
  let ?s4 = "case secs of
               None \<Rightarrow> ?s3
             | Some sections \<Rightarrow>
                 if sections \<noteq> []
                 then ?s3 + min (score_placement (map lower (required_hard_skills jd)) sections) 10
                 else ?s3"
  have s4: "0 \<le> ?s4"
    using s3 pl [of "map lower (required_hard_skills jd)"] by (auto split: option.splits)
  have "\<exists>iss. keyword_score jd re rt secs = Inr
     \<lparr>k_score = min ?s4 60, k_max_score = 60,
      match_percentage = round1 (if length (jd_all jd) = 0 then 0
          else float_mul (to_double (
                 of_nat (length (filter (\<lambda>k. k \<in> set (map lower (hard_skills re))) (jd_all jd))
                 + length (filter (\<lambda>k. k \<notin> set (map lower (hard_skills re)) \<and>
                     k \<in> set (map inferred_skill (inferred_skills re))) (jd_all jd)))
               / of_nat (length (jd_all jd)))) 100),
      matched_keywords = filter (\<lambda>k. k \<in> set (map lower (hard_skills re))) (jd_all jd),
      inferred_matches = filter (\<lambda>k. k \<notin> set (map lower (hard_skills re)) \<and>
                     k \<in> set (map inferred_skill (inferred_skills re))) (jd_all jd),
      missing_keywords = filter (\<lambda>k. k \<notin> set (map lower (hard_skills re)) \<and>
                     k \<notin> set (map inferred_skill (inferred_skills re))) (jd_all jd),
      total_jd_keywords = length (jd_all jd),
      total_matched = length (filter (\<lambda>k. k \<in> set (map lower (hard_skills re))) (jd_all jd))
                 + length (filter (\<lambda>k. k \<notin> set (map lower (hard_skills re)) \<and>
                     k \<in> set (map inferred_skill (inferred_skills re))) (jd_all jd)),
      k_issues = iss\<rparr>"
    unfolding keyword_score_def Let_def match_ratio_eq
    by (simp add: cd KEYWORD_MAX_SCORE_def del: min.bounded_iff split del: if_split)
  then obtain iss where eq: "keyword_score jd re rt secs = Inr
     \<lparr>k_score = min ?s4 60, k_max_score = 60,
      match_percentage = round1 (if length (jd_all jd) = 0 then 0
          else float_mul (to_double (
                 of_nat (length (filter (\<lambda>k. k \<in> set (map lower (hard_skills re))) (jd_all jd))
                 + length (filter (\<lambda>k. k \<notin> set (map lower (hard_skills re)) \<and>
                     k \<in> set (map inferred_skill (inferred_skills re))) (jd_all jd)))
               / of_nat (length (jd_all jd)))) 100),
      matched_keywords = filter (\<lambda>k. k \<in> set (map lower (hard_skills re))) (jd_all jd),
      inferred_matches = filter (\<lambda>k. k \<notin> set (map lower (hard_skills re)) \<and>
                     k \<in> set (map inferred_skill (inferred_skills re))) (jd_all jd),
      missing_keywords = filter (\<lambda>k. k \<notin> set (map lower (hard_skills re)) \<and>
                     k \<notin> set (map inferred_skill (inferred_skills re))) (jd_all jd),
      total_jd_keywords = length (jd_all jd),
      total_matched = length (filter (\<lambda>k. k \<in> set (map lower (hard_skills re))) (jd_all jd))
                 + length (filter (\<lambda>k. k \<notin> set (map lower (hard_skills re)) \<and>
                     k \<in> set (map inferred_skill (inferred_skills re))) (jd_all jd)),
      k_issues = iss\<rparr>" ..
  define r where "r = projr (keyword_score jd re rt secs)"
  have kr: "keyword_score jd re rt secs = Inr r"
    unfolding r_def by (simp add: eq)
  have f1: "k_score r = min ?s4 60" unfolding r_def by (simp add: eq)
  have f2: "k_max_score r = 60" unfolding r_def by (simp add: eq)
  have f3: "total_jd_keywords r = length (jd_all jd)" unfolding r_def by (simp add: eq)
  have f4: "matched_keywords r
            = filter (\<lambda>k. k \<in> set (map lower (hard_skills re))) (jd_all jd)"
    unfolding r_def by (simp add: eq)
  have f5: "inferred_matches r
       = filter (\<lambda>k. k \<notin> set (map lower (hard_skills re)) \<and>
                     k \<in> set (map inferred_skill (inferred_skills re))) (jd_all jd)"
    unfolding r_def by (simp add: eq)
  have f6: "total_matched r = length (matched_keywords r) + length (inferred_matches r)"
    unfolding f4 f5 unfolding r_def by (simp add: eq)
  have f7: "match_percentage r =
       (if total_jd_keywords r = 0 then 0
        else round1 (float_mul (to_double (of_nat (total_matched r) /
                                           of_nat (total_jd_keywords r))) 100))"
    unfolding f6 f4 f5 f3 unfolding r_def by (simp add: eq round1_zero)
  have f8: "k_score r \<le> 60" unfolding f1 by simp
  have f9: "\<exists>x. 0 \<le> x \<and> k_score r = min x 60" using s4 f1 by blast
  from kr f2 f3 f4 f5 f6 f7 f8 f9 show ?thesis by blast
qed


lemma gap_loop_penalty: "p \<le> snd (gap_loop th ds iss p)"
proof (induction ds arbitrary: iss p)
  case Nil
  then show ?case by simp
next
  case (Cons d ds)
  show ?case
  proof (cases ds)
    case Nil
    then show ?thesis by simp
  next
    case (Cons d' ds')
    have a: "p \<le> snd (gap_loop th (d' # ds') iss' (p + 2))" for iss'
      using Cons.IH [of "p + 2" iss'] Cons by simp
    have b: "p \<le> snd (gap_loop th (d' # ds') iss p)"
      using Cons.IH [of p iss] Cons by simp
    show ?thesis
      using a b unfolding Cons
      by (simp add: Let_def)
  qed
qed

lemma check_gaps_range:
  "check_gaps today js th = Inr (iss, p) \<Longrightarrow> 0 \<le> p \<and> p \<le> 4"
proof -
  assume a: "check_gaps today js th = Inr (iss, p)"
  have g: "\<And>ds. 0 \<le> snd (gap_loop th ds [] 0)" by (rule gap_loop_penalty)
  show ?thesis
  proof (cases "length js < 2")
    case True
    with a show ?thesis by (simp add: check_gaps_def)
  next
    case False
    with a obtain ds where ds: "dated_jobs today js = Inr ds"
      by (auto simp: check_gaps_def split: sum.splits)
    obtain gi gp where gl: "gap_loop th (sort_key (\<lambda>d. - (fst (fst d) * 12 + snd (fst d))) ds) [] 0
                           = (gi, gp)"
      by (cases "gap_loop th (sort_key (\<lambda>d. - (fst (fst d) * 12 + snd (fst d))) ds) [] 0")
    have "0 \<le> gp"
      using g [of "sort_key (\<lambda>d. - (fst (fst d) * 12 + snd (fst d))) ds"] gl by simp
    moreover have "p = min gp 4"
      using a False ds gl by (simp add: check_gaps_def)
    ultimately show ?thesis by simp
  qed
qed

lemma check_contact_range:
  "0 \<le> snd (check_contact fa rd) \<and> snd (check_contact fa rd) \<le> 5"
  by (simp add: check_contact_def Let_def)

lemma check_dates_range:
  "0 \<le> snd (check_dates fa t) \<and> snd (check_dates fa t) \<le> 1"
  by (simp add: check_dates_def Let_def)

lemma check_experience_range:
  "0 \<le> snd (check_experience ty ry) \<and> snd (check_experience ty ry) \<le> 2"
  by (simp add: check_experience_def Let_def split: option.splits)

lemma check_education_penalty: "snd (check_education es r) = 0"
  by (simp add: check_education_def Let_def split: option.splits)

lemma integrity_check_raises:
  "check_gaps today (job_titles re) th = Inl e \<Longrightarrow>
   integrity_check fa today rd re jdo th = Inl e"
  by (simp add: integrity_check_def Let_def split: prod.splits)

lemma integrity_check_returns:
  assumes g: "check_gaps today (job_titles re) th = Inr g"
  shows "\<exists>r. integrity_check fa today rd re jdo th = Inr r \<and>
             0 \<le> i_score r \<and> i_score r \<le> 20 \<and> i_max_score r = 20"
proof -
  obtain gi gp where gg: "g = (gi, gp)" by (cases g)
  have gp: "0 \<le> gp" using check_gaps_range g gg by blast
  obtain ci cp where c: "check_contact fa rd = (ci, cp)" by (cases "check_contact fa rd")
  obtain di dp where d: "check_dates fa (raw_text rd) = (di, dp)"
    by (cases "check_dates fa (raw_text rd)")
  have cp: "0 \<le> cp" using check_contact_range [of fa rd] c by simp
  have dp: "0 \<le> dp" using check_dates_range [of fa "raw_text rd"] d by simp
  define jp where "jp = (case jdo of
                    None \<Rightarrow> ([], 0)
                  | Some j \<Rightarrow>
                      (case check_experience (total_experience_years re)
                              (experience_required_years j) of
                         (exp_issues, exp_penalty) \<Rightarrow>
                      case check_education (education re) (education_required j) of
                         (edu_issues, edu_penalty) \<Rightarrow>
                           (exp_issues @ edu_issues, exp_penalty + edu_penalty)))"
  have jp: "0 \<le> snd jp"
  proof (cases jdo)
    case None
    then show ?thesis by (simp add: jp_def)
  next
    case (Some j)
    have "snd jp = snd (check_experience (total_experience_years re)
                          (experience_required_years j))
                    + snd (check_education (education re) (education_required j))"
      by (simp add: jp_def Some split: prod.splits)
    then show ?thesis
      using check_experience_range [of "total_experience_years re" "experience_required_years j"]
      by (simp add: check_education_penalty)
  qed
  have "\<exists>iss a b c d. integrity_check fa today rd re jdo th
        = Inr \<lparr>i_score = max (20 - cp - dp - gp - snd jp) 0, i_max_score = 20,
               i_issues = iss, i_errors = a, i_warnings = b, i_infos = c, i_passed = d\<rparr>"
    by (simp add: integrity_check_def Let_def g gg c d INTEGRITY_MAX_SCORE_def jp_def
        del: max.bounded_iff split del: if_split)
  then obtain r where r: "integrity_check fa today rd re jdo th = Inr r"
    and s: "i_score r = max (20 - cp - dp - gp - snd jp) 0" and m: "i_max_score r = 20"
    by auto
  have "0 \<le> i_score r \<and> i_score r \<le> 20" using s cp dp gp jp by simp
  with r m show ?thesis by blast
qed

lemma dated_jobs_total:
  "\<forall>j \<in> set js. (\<exists>d. parse_date_str (start_date j) = Inr d) \<and>
                  (\<exists>d. parse_date_str (end_date j) = Inr d) \<Longrightarrow>
   \<exists>ds. dated_jobs today js = Inr ds"
  by (induction js) (auto split: sum.splits)

lemma check_gaps_total:
  "\<forall>j \<in> set js. (\<exists>d. parse_date_str (start_date j) = Inr d) \<and>
                  (\<exists>d. parse_date_str (end_date j) = Inr d) \<Longrightarrow>
   \<exists>g. check_gaps today js th = Inr g"
  using dated_jobs_total [of js today]
  by (auto simp: check_gaps_def split: prod.splits)

section \<open>The scoring layers: the claims\<close>

subsection \<open>Evaluations at the concrete inputs\<close>

lemma y_words: "length (split (lower y_text)) = 201"
  unfolding y_text_def by code_simp

lemma y_count: "keyword_count y_text ''python'' = 2"
  unfolding y_text_def by code_simp

lemma y_formatter: "f_score (formatter_check y_resume) = 19"
  by code_simp

lemma y_keyword:
  "(case keyword_score y_jd y_extract ''python sql'' None of
      Inl e \<Rightarrow> False
    | Inr r \<Rightarrow> k_score r = 5 \<and> total_jd_keywords r = 3 \<and> total_matched r = 2 \<and>
               match_percentage r = to_double (667 / 10))"
  by code_simp

lemma y_keyword_empty:
  "(case keyword_score y_jd_empty y_extract ''python sql'' None of
      Inl e \<Rightarrow> False
    | Inr r \<Rightarrow> k_score r = 0 \<and> total_jd_keywords r = 0 \<and> total_matched r = 0 \<and>
               match_percentage r = 0)"
  by code_simp

lemma y_integrity:
  "(case integrity_check y_findall (2026, 11) y_resume y_extract None 6 of
      Inl e \<Rightarrow> False
    | Inr r \<Rightarrow> i_score r = 13)"
  by code_simp

lemma y_dates:
  "(case parse_date_str ''01/2023'' of Inl e \<Rightarrow> False | Inr d \<Rightarrow> True) \<and>
   (case parse_date_str ''present'' of Inl e \<Rightarrow> False | Inr d \<Rightarrow> True) \<and>
   (case parse_date_str ''03/2019'' of Inl e \<Rightarrow> False | Inr d \<Rightarrow> True) \<and>
   (case parse_date_str ''01/2022'' of Inl e \<Rightarrow> False | Inr d \<Rightarrow> True)"
  by code_simp

subsection \<open>Layer scores\<close>

text \<open>
  Claim C6. Each layer's score stays between 0 and the layer's maximum: 20 for the formatter
  check, 60 for the keyword score, 20 for the integrity check. The formatter check and the
  keyword score always return, with \<open>max_score\<close> 20 and 60. The integrity check returns
  such a result with \<open>max_score\<close> 20 whenever it returns. When it does not, the exception
  is the one \<^verbatim>\<open>_check_gaps\<close> raises: the \<^verbatim>\<open>ValueError\<close> of \<^verbatim>\<open>datetime(year, month, 1)\<close> on a job
  date such as \<^verbatim>\<open>13/2020\<close> or the year \<^verbatim>\<open>0000\<close>. It returns whenever every start and end date of
  the resume's jobs is one that \<^verbatim>\<open>_parse_date_str\<close> accepts.
\<close>

theorem layer_scores_within_bounds:
  "(0 \<le> f_score (formatter_check rd) \<and> f_score (formatter_check rd) \<le> 20 \<and>
    f_max_score (formatter_check rd) = 20)
   \<and> (\<exists>r. keyword_score jd re rt secs = Inr r \<and>
          0 \<le> k_score r \<and> k_score r \<le> 60 \<and> k_max_score r = 60)
   \<and> (case integrity_check fa today rd re jdo th of
         Inl e \<Rightarrow> check_gaps today (job_titles re) th = Inl e
       | Inr r \<Rightarrow> 0 \<le> i_score r \<and> i_score r \<le> 20 \<and> i_max_score r = 20)
   \<and> ((\<forall>j \<in> set (job_titles re).
          (\<exists>d. parse_date_str (start_date j) = Inr d) \<and>
          (\<exists>d. parse_date_str (end_date j) = Inr d)) \<longrightarrow>
       (\<exists>r. integrity_check fa today rd re jdo th = Inr r))"
proof (intro conjI impI)
  show "0 \<le> f_score (formatter_check rd)" "f_score (formatter_check rd) \<le> 20"
    "f_max_score (formatter_check rd) = 20"
    using formatter_check_range [of rd] by simp_all
next
  from keyword_score_fields [of jd re rt secs] obtain r x where
    "keyword_score jd re rt secs = Inr r" "k_max_score r = 60" "k_score r \<le> 60"
    "0 \<le> x" "k_score r = min x 60"
    by blast
  then show "\<exists>r. keyword_score jd re rt secs = Inr r \<and>
          0 \<le> k_score r \<and> k_score r \<le> 60 \<and> k_max_score r = 60"
    by (intro exI [of _ r]) simp
next
  show "case integrity_check fa today rd re jdo th of
         Inl e \<Rightarrow> check_gaps today (job_titles re) th = Inl e
       | Inr r \<Rightarrow> 0 \<le> i_score r \<and> i_score r \<le> 20 \<and> i_max_score r = 20"
  proof (cases "check_gaps today (job_titles re) th")
    case (Inl e)
    then show ?thesis by (simp add: integrity_check_raises)
  next
    case (Inr g)
    from integrity_check_returns [OF Inr, of fa rd jdo] show ?thesis by auto
  qed
next
  assume "\<forall>j \<in> set (job_titles re).
          (\<exists>d. parse_date_str (start_date j) = Inr d) \<and>
          (\<exists>d. parse_date_str (end_date j) = Inr d)"
  then obtain g where "check_gaps today (job_titles re) th = Inr g"
    using check_gaps_total by blast
  from integrity_check_returns [OF this, of fa rd jdo]
  show "\<exists>r. integrity_check fa today rd re jdo th = Inr r" by blast
qed

theorem layer_scores_within_bounds_witness:
  "(0 \<le> f_score (formatter_check y_resume) \<and> f_score (formatter_check y_resume) \<le> 20 \<and>
    f_score (formatter_check y_resume) = 19)
   \<and> (\<exists>r. keyword_score y_jd y_extract ''python sql'' None = Inr r \<and>
          0 \<le> k_score r \<and> k_score r \<le> 60 \<and> k_max_score r = 60 \<and> k_score r = 5)
   \<and> (\<exists>r. integrity_check y_findall (2026, 11) y_resume y_extract None 6 = Inr r \<and>
          0 \<le> i_score r \<and> i_score r \<le> 20 \<and> i_max_score r = 20 \<and> i_score r = 13)"
proof -
  note t = layer_scores_within_bounds
             [where rd = y_resume and jd = y_jd and re = y_extract and rt = "''python sql''"
                and secs = None and fa = y_findall and today = "(2026, 11)" and jdo = None
                and th = 6]
  have d: "\<forall>j \<in> set (job_titles y_extract).
          (\<exists>d. parse_date_str (start_date j) = Inr d) \<and>
          (\<exists>d. parse_date_str (end_date j) = Inr d)"
    using y_dates by (auto simp: y_extract_def split: sum.splits)
  from t have f: "0 \<le> f_score (formatter_check y_resume) \<and>
      f_score (formatter_check y_resume) \<le> 20" by blast
  from t obtain k where k: "keyword_score y_jd y_extract ''python sql'' None = Inr k"
    "0 \<le> k_score k" "k_score k \<le> 60" "k_max_score k = 60" by blast
  from k(1) y_keyword have k5: "k_score k = 5" by simp
  from t d obtain i where i: "integrity_check y_findall (2026, 11) y_resume y_extract None 6 = Inr i"
    by blast
  from t i have ib: "0 \<le> i_score i \<and> i_score i \<le> 20 \<and> i_max_score i = 20" by simp
  from i y_integrity have i13: "i_score i = 13" by simp
  from f y_formatter k k5 i ib i13 show ?thesis by blast
qed

subsection \<open>Keyword density\<close>

text \<open>
  Claim C7. The stuffing warning is given exactly for the keywords that occur with a density
  above 5 percent, and the bonus is the number of rewarded keywords capped at 5
  (\<open>check_density_eq\<close>). A keyword is rewarded when it occurs at least twice with a density
  of at most 3 percent: the lower end of the optimal band, \<^verbatim>\<open>KEYWORD_DENSITY_OPTIMAL_MIN\<close>, is
  declared and never compared with. In the text \<open>y_text\<close> of 201 words the keyword
  \<^verbatim>\<open>python\<close> occurs twice, a density of 2/201, below 1 percent, and earns the bonus point.
\<close>

theorem density_bonus_below_optimal_band:
  "check_density [''python''] y_text = ([], 1)
   \<and> keyword_count y_text ''python'' = 2
   \<and> density y_text ''python'' = 2 / 201
   \<and> density y_text ''python'' < KEYWORD_DENSITY_OPTIMAL_MIN"
proof -
  have d: "density y_text ''python'' = 2 / 201"
    by (simp add: density_def y_words y_count)
  have ne: "split (lower y_text) \<noteq> []" using y_words by auto
  have r: "rewarded y_text ''python''"
    by (simp add: rewarded_def d y_count KEYWORD_DENSITY_OPTIMAL_MAX_def)
  have s: "\<not> stuffed y_text ''python''"
    by (simp add: stuffed_def d KEYWORD_DENSITY_STUFFING_def)
  have "check_density [''python''] y_text = ([], 1)"
    by (simp add: check_density_eq [OF ne] r s)
  with d y_count show ?thesis by (simp add: KEYWORD_DENSITY_OPTIMAL_MIN_def)
qed

subsection \<open>Match percentage\<close>

lemma y_keyword80:
  "(case keyword_score y_jd80 y_extract23 [] None of
      Inl e \<Rightarrow> False
    | Inr r \<Rightarrow> total_jd_keywords r = 80 \<and> total_matched r = 23 \<and>
               match_percentage r = to_double (287 / 10))"
  by code_simp

lemma y_double_287: "to_double (287 / 10) = 8078331831595827 / 281474976710656"
  by code_simp

lemma y_ascii80:
  "list_all ascii (required_hard_skills y_jd80 @ preferred_hard_skills y_jd80 @
                   domain_keywords y_jd80 @ tools_and_frameworks y_jd80 @
                   hard_skills y_extract23 @
                   map inferred_skill (inferred_skills y_extract23))"
  by code_simp

text \<open>
  Claim C8. \<^verbatim>\<open>KeywordScorer.score\<close> always returns (no division by zero), with a match percentage
  between 0 and 100. The matched count is the number of exact matches plus the number of
  inferred matches and is never more than the total. The percentage is 0 when the total is
  0, and otherwise \<^verbatim>\<open>round(total_matched / total_jd * 100, 1)\<close> as Python computes it: the
  quotient rounded to a float, its product with 100 rounded to a float, and that float rounded
  to one decimal. When the four keyword lists of the job description are empty, the total
  and the percentage are 0. For keywords and skills in ASCII the total is the number of
  distinct lower-cased keywords of the four lists, the exact matches are those among the
  lower-cased hard skills of the resume, the inferred matches those of the others among its
  inferred skills, and the matched count is the number of keywords found in either.
\<close>

theorem match_percentage_range:
  "\<exists>r. keyword_score jd re rt secs = Inr r \<and>
     0 \<le> match_percentage r \<and> match_percentage r \<le> 100 \<and>
     total_matched r = length (matched_keywords r) + length (inferred_matches r) \<and>
     total_matched r \<le> total_jd_keywords r \<and>
     match_percentage r =
       (if total_jd_keywords r = 0 then 0
        else round1 (float_mul (to_double (of_nat (total_matched r) /
                                           of_nat (total_jd_keywords r))) 100)) \<and>
     (required_hard_skills jd = [] \<and> preferred_hard_skills jd = [] \<and>
      domain_keywords jd = [] \<and> tools_and_frameworks jd = [] \<longrightarrow>
        total_jd_keywords r = 0 \<and> match_percentage r = 0) \<and>
     (list_all ascii (required_hard_skills jd @ preferred_hard_skills jd @
                      domain_keywords jd @ tools_and_frameworks jd @ hard_skills re @
                      map inferred_skill (inferred_skills re)) \<longrightarrow>
        set (jd_all jd) = lower ` (set (required_hard_skills jd) \<union> set (preferred_hard_skills jd) \<union>
                                   set (domain_keywords jd) \<union> set (tools_and_frameworks jd)) \<and>
        total_jd_keywords r = card (set (jd_all jd)) \<and>
        distinct (matched_keywords r) \<and> distinct (inferred_matches r) \<and>
        set (matched_keywords r)
          = {k \<in> set (jd_all jd). k \<in> set (map lower (hard_skills re))} \<and>
        set (inferred_matches r)
          = {k \<in> set (jd_all jd). k \<notin> set (map lower (hard_skills re)) \<and>
                                    k \<in> set (map inferred_skill (inferred_skills re))} \<and>
        total_matched r
          = card {k \<in> set (jd_all jd). k \<in> set (map lower (hard_skills re)) \<or>
                                         k \<in> set (map inferred_skill (inferred_skills re))})"
proof -
  from keyword_score_fields [of jd re rt secs] obtain r where
    r: "keyword_score jd re rt secs = Inr r"
    and n: "total_jd_keywords r = length (jd_all jd)"
    and m1: "matched_keywords r = filter (\<lambda>k. k \<in> set (map lower (hard_skills re))) (jd_all jd)"
    and m2: "inferred_matches r
       = filter (\<lambda>k. k \<notin> set (map lower (hard_skills re)) \<and>
                     k \<in> set (map inferred_skill (inferred_skills re))) (jd_all jd)"
    and m: "total_matched r = length (matched_keywords r) + length (inferred_matches r)"
    and p: "match_percentage r =
       (if total_jd_keywords r = 0 then 0
        else round1 (float_mul (to_double (of_nat (total_matched r) /
                                           of_nat (total_jd_keywords r))) 100))"
    by blast
  have dj: "distinct (jd_all jd)" by (simp add: jd_all_def)
  have le: "total_matched r \<le> total_jd_keywords r"
    unfolding m m1 m2 n by (rule filter_split_le)
  have c: "total_jd_keywords r = card (set (jd_all jd))"
    unfolding n using dj by (simp add: distinct_card)
  have sj: "set (jd_all jd) = lower ` (set (required_hard_skills jd) \<union>
              set (preferred_hard_skills jd) \<union> set (domain_keywords jd) \<union>
              set (tools_and_frameworks jd))"
    by (auto simp: jd_all_def)
  have d1: "distinct (matched_keywords r)" unfolding m1 using dj by simp
  have d2: "distinct (inferred_matches r)" unfolding m2 using dj by simp
  have s1: "set (matched_keywords r)
          = {k \<in> set (jd_all jd). k \<in> set (map lower (hard_skills re))}"
    unfolding m1 by auto
  have s2: "set (inferred_matches r)
          = {k \<in> set (jd_all jd). k \<notin> set (map lower (hard_skills re)) \<and>
                                    k \<in> set (map inferred_skill (inferred_skills re))}"
    unfolding m2 by auto
  have disj: "set (matched_keywords r) \<inter> set (inferred_matches r) = {}"
    unfolding s1 s2 by auto
  have un: "{k \<in> set (jd_all jd). k \<in> set (map lower (hard_skills re)) \<or>
                                         k \<in> set (map inferred_skill (inferred_skills re))}
            = set (matched_keywords r) \<union> set (inferred_matches r)"
    unfolding s1 s2 by auto
  have "card (set (matched_keywords r) \<union> set (inferred_matches r))
        = card (set (matched_keywords r)) + card (set (inferred_matches r))"
    using disj by (intro card_Un_disjoint) simp_all
  then have cm: "total_matched r
          = card {k \<in> set (jd_all jd). k \<in> set (map lower (hard_skills re)) \<or>
                                         k \<in> set (map inferred_skill (inferred_skills re))}"
    unfolding un m using d1 d2 by (simp add: distinct_card)
  have range: "0 \<le> match_percentage r \<and> match_percentage r \<le> 100"
  proof (cases "total_jd_keywords r = 0")
    case True
    with p show ?thesis by simp
  next
    case False
    from match_ratio_range [OF le] obtain q where
      q: "match_ratio (total_matched r) (total_jd_keywords r) = Inr q" "0 \<le> q" "q \<le> 100"
      by blast
    from q(1) False have "q = float_mul (to_double (of_nat (total_matched r) /
                                           of_nat (total_jd_keywords r))) 100"
      by (simp add: match_ratio_eq)
    with q(2,3) round1_range [of q] p False show ?thesis by simp
  qed
  have empty: "required_hard_skills jd = [] \<and> preferred_hard_skills jd = [] \<and>
      domain_keywords jd = [] \<and> tools_and_frameworks jd = [] \<longrightarrow>
        total_jd_keywords r = 0 \<and> match_percentage r = 0"
  proof
    assume "required_hard_skills jd = [] \<and> preferred_hard_skills jd = [] \<and>
      domain_keywords jd = [] \<and> tools_and_frameworks jd = []"
    then have "total_jd_keywords r = 0" unfolding n by (simp add: jd_all_def)
    with p show "total_jd_keywords r = 0 \<and> match_percentage r = 0" by simp
  qed
  have r0: "0 \<le> match_percentage r" and r100: "match_percentage r \<le> 100"
    using range by simp_all
  have tie: "list_all ascii (required_hard_skills jd @ preferred_hard_skills jd @
                      domain_keywords jd @ tools_and_frameworks jd @ hard_skills re @
                      map inferred_skill (inferred_skills re)) \<longrightarrow>
        set (jd_all jd) = lower ` (set (required_hard_skills jd) \<union> set (preferred_hard_skills jd) \<union>
                                   set (domain_keywords jd) \<union> set (tools_and_frameworks jd)) \<and>
        total_jd_keywords r = card (set (jd_all jd)) \<and>
        distinct (matched_keywords r) \<and> distinct (inferred_matches r) \<and>
        set (matched_keywords r)
          = {k \<in> set (jd_all jd). k \<in> set (map lower (hard_skills re))} \<and>
        set (inferred_matches r)
          = {k \<in> set (jd_all jd). k \<notin> set (map lower (hard_skills re)) \<and>
                                    k \<in> set (map inferred_skill (inferred_skills re))} \<and>
        total_matched r
          = card {k \<in> set (jd_all jd). k \<in> set (map lower (hard_skills re)) \<or>
                                         k \<in> set (map inferred_skill (inferred_skills re))}"
    by (intro impI conjI) (rule sj c d1 d2 s1 s2 cm)+
  show ?thesis
    by (rule exI [of _ r]) (intro conjI; rule r r0 r100 m le p empty tie)
qed

theorem match_percentage_range_witness:
  "(\<exists>r. keyword_score y_jd80 y_extract23 [] None = Inr r \<and>
        0 \<le> match_percentage r \<and> match_percentage r \<le> 100 \<and>
        total_jd_keywords r = 80 \<and> total_matched r = 23 \<and>
        total_jd_keywords r = card (set (jd_all y_jd80)) \<and>
        match_percentage r = round1 (float_mul (to_double (23 / 80)) 100) \<and>
        match_percentage r = to_double (287 / 10) \<and>
        match_percentage r = 8078331831595827 / 281474976710656)
   \<and> (\<exists>r. keyword_score y_jd y_extract ''python sql'' None = Inr r \<and>
        total_jd_keywords r = 3 \<and> total_matched r = 2 \<and>
        match_percentage r = to_double (667 / 10))
   \<and> (\<exists>r. keyword_score y_jd_empty y_extract ''python sql'' None = Inr r \<and>
        total_jd_keywords r = 0 \<and> match_percentage r = 0)"
proof -
  from match_percentage_range [of y_jd80 y_extract23 "[]" None] obtain r where
    r: "keyword_score y_jd80 y_extract23 [] None = Inr r"
      "0 \<le> match_percentage r" "match_percentage r \<le> 100"
      "match_percentage r =
       (if total_jd_keywords r = 0 then 0
        else round1 (float_mul (to_double (of_nat (total_matched r) /
                                           of_nat (total_jd_keywords r))) 100))"
     and rc: "list_all ascii (required_hard_skills y_jd80 @ preferred_hard_skills y_jd80 @
                   domain_keywords y_jd80 @ tools_and_frameworks y_jd80 @
                   hard_skills y_extract23 @
                   map inferred_skill (inferred_skills y_extract23)) \<longrightarrow>
              total_jd_keywords r = card (set (jd_all y_jd80))"
    by blast
  from r(1) y_keyword80 have rv: "total_jd_keywords r = 80" "total_matched r = 23"
    "match_percentage r = to_double (287 / 10)" by simp_all
  from r(4) rv have rr: "match_percentage r = round1 (float_mul (to_double (23 / 80)) 100)"
    by simp
  from rc y_ascii80 have rk: "total_jd_keywords r = card (set (jd_all y_jd80))" by blast
  from rv(3) y_double_287 have rq: "match_percentage r = 8078331831595827 / 281474976710656"
    by simp
  from match_percentage_range [of y_jd y_extract "''python sql''" None] obtain s where
    s: "keyword_score y_jd y_extract ''python sql'' None = Inr s" by blast
  from s y_keyword have sv: "total_jd_keywords s = 3" "total_matched s = 2"
    "match_percentage s = to_double (667 / 10)" by simp_all
  from match_percentage_range [of y_jd_empty y_extract "''python sql''" None] obtain e where
    e: "keyword_score y_jd_empty y_extract ''python sql'' None = Inr e"
      "required_hard_skills y_jd_empty = [] \<and> preferred_hard_skills y_jd_empty = [] \<and>
       domain_keywords y_jd_empty = [] \<and> tools_and_frameworks y_jd_empty = [] \<longrightarrow>
        total_jd_keywords e = 0 \<and> match_percentage e = 0"
    by blast
  from e(2) have ev: "total_jd_keywords e = 0" "match_percentage e = 0"
    by (simp_all add: y_jd_empty_def)
  from r(1,2,3) rv rr rk rq s sv e(1) ev show ?thesis by blast
qed
section \<open>DiffViewer\<close>

text \<open>
  On two identical texts \<open>diff\<close> returns the result of its fast path: no changes, an empty
  change list, an empty diff text, zero counts and the number of lines of the text. The two
  functions of \<^verbatim>\<open>difflib\<close> have no part in that result.
\<close>

lemma diff_identical_texts:
  "diff unified_diff get_opcodes x x n =
     \<lparr>d_diff_text = [],
      d_statistics = \<lparr>s_additions = 0, s_deletions = 0, s_total_changes = 0,
                      s_original_lines = length (splitlines x),
                      s_modified_lines = length (splitlines x)\<rparr>,
      d_changes = [],
      d_formatted = ''No changes detected.'',
      d_has_changes = False\<rparr>"
  by (simp add: diff_def)

text \<open>
  On the texts \<^verbatim>\<open>"a\n"\<close> and \<^verbatim>\<open>"b\n"\<close>, with the results \<^verbatim>\<open>difflib\<close> gives on their line lists,
  \<open>diff\<close> reports one change.
\<close>

lemma z_splitlines:
  "splitlines (''a'' @ [CHR 0x0A]) = [''a'' @ [CHR 0x0A]] \<and>
   splitlines (''b'' @ [CHR 0x0A]) = [''b'' @ [CHR 0x0A]]"
  by code_simp

lemma z_has_changes:
  "d_has_changes (diff (z_unified_diff []) (z_get_opcodes [])
                    (''a'' @ [CHR 0x0A]) (''b'' @ [CHR 0x0A]) 3) \<and>
   length (d_changes (diff (z_unified_diff []) (z_get_opcodes [])
                        (''a'' @ [CHR 0x0A]) (''b'' @ [CHR 0x0A]) 3)) = 1"
  by code_simp


end
